theory Spec2Isabelle
  imports Main "HOL-Library.Word"
begin

section \<open>Machine types and platform constants\<close>

text \<open>
  The service is the file \<^verbatim>\<open>statsd/src/StatsService.cpp\<close>. Its integers are
  fixed-width: \<^verbatim>\<open>uid_t\<close> is an unsigned 32-bit value, the uid arguments of the
  RPC methods are \<^verbatim>\<open>int32_t\<close>, configuration ids are \<^verbatim>\<open>int64_t\<close>. A 32-bit
  word carries both readings of a uid (\<open>unat\<close> for \<^verbatim>\<open>uid_t\<close>, \<open>sint\<close> for
  \<^verbatim>\<open>int32_t\<close>); the C conversions between the two keep the bits.
\<close>

type_synonym byte = "8 word"
type_synonym uid_t = "32 word"
type_synonym int32_t = "32 word"
type_synonym int64_t = "64 word"

text \<open>
  The identities of \<^verbatim>\<open>private/android_filesystem_config.h\<close>, which the service
  includes and which is not part of the repository: root is 0, the system server is
  1000, the shell is 2000.
\<close>

definition AID_ROOT :: uid_t where
  "AID_ROOT = 0"

definition AID_SYSTEM :: uid_t where
  "AID_SYSTEM = 1000"

definition AID_SHELL :: uid_t where
  "AID_SHELL = 2000"

definition kTracedProbesSid :: string where
  "kTracedProbesSid = ''u:r:traced_probes:s0''"

definition kPermissionRegisterPullAtom :: string where
  "kPermissionRegisterPullAtom = ''android.permission.REGISTER_STATS_PULL_ATOM''"

definition kPermissionDump :: string where
  "kPermissionDump = ''android.permission.DUMP''"

section \<open>The C library functions the service calls\<close>

subsection \<open>Decimal output of \<^verbatim>\<open>%d\<close>\<close>

definition digit_char :: "nat \<Rightarrow> char" where
  "digit_char d = ''0123456789'' ! d"

fun show_nat :: "nat \<Rightarrow> string" where
  "show_nat n = (if n < 10 then [digit_char n] else show_nat (n div 10) @ [digit_char (n mod 10)])"

declare show_nat.simps [simp del]

definition show_int :: "int \<Rightarrow> string" where
  "show_int i = (if i < 0 then CHR ''-'' # show_nat (nat (- i)) else show_nat (nat i))"

text \<open>\<^verbatim>\<open>%d\<close> reads its 32-bit argument as a signed \<^verbatim>\<open>int\<close>.\<close>

definition printf_d :: "32 word \<Rightarrow> string" where
  "printf_d w = show_int (sint w)"

subsection \<open>\<^verbatim>\<open>strtol\<close>, \<^verbatim>\<open>strtoll\<close> and \<^verbatim>\<open>atoi\<close>\<close>

text \<open>
  ISO C \<^verbatim>\<open>strtol(nptr, &endptr, base)\<close> on a target whose \<^verbatim>\<open>long\<close> has 64 bits
  (LP64), as a function from the string to the value and the rest of the string at
  \<^verbatim>\<open>endptr\<close>: white space is skipped, a sign is read, base 0 selects 16 after
  \<^verbatim>\<open>0x\<close> followed by a hex digit, 8 after \<^verbatim>\<open>0\<close> and 10 otherwise, digits
  are read while their value is below the base, and the value saturates at the ends of
  the range. When no digit is read, \<^verbatim>\<open>endptr\<close> is \<^verbatim>\<open>nptr\<close> and the value is 0.
\<close>

definition isspace :: "char \<Rightarrow> bool" where
  "isspace c = (let n = (of_char c :: nat) in n = 32 \<or> (9 \<le> n \<and> n \<le> 13))"

definition digit_value :: "char \<Rightarrow> nat option" where
  "digit_value c =
     (let n = (of_char c :: nat) in
      if 48 \<le> n \<and> n \<le> 57 then Some (n - 48)
      else if 97 \<le> n \<and> n \<le> 122 then Some (n - 97 + 10)
      else if 65 \<le> n \<and> n \<le> 90 then Some (n - 65 + 10)
      else None)"

definition is_digit_in :: "nat \<Rightarrow> char \<Rightarrow> bool" where
  "is_digit_in b c = (case digit_value c of None \<Rightarrow> False | Some d \<Rightarrow> d < b)"

text \<open>The digit loop: the accumulated value, whether a digit was read, and the rest.\<close>

fun read_digits :: "nat \<Rightarrow> nat \<Rightarrow> bool \<Rightarrow> string \<Rightarrow> nat \<times> bool \<times> string" where
  "read_digits b acc any [] = (acc, any, [])"
| "read_digits b acc any (c # cs) =
     (case digit_value c of
        None \<Rightarrow> (acc, any, c # cs)
      | Some d \<Rightarrow> if d < b then read_digits b (acc * b + d) True cs else (acc, any, c # cs))"

definition LONG_MAX :: int where
  "LONG_MAX = 2 ^ 63 - 1"

definition LONG_MIN :: int where
  "LONG_MIN = - (2 ^ 63)"

definition strtol :: "nat \<Rightarrow> string \<Rightarrow> int \<times> string" where
  "strtol base s =
     (let s1 = dropWhile isspace s;
          neg = (s1 \<noteq> [] \<and> hd s1 = CHR ''-'');
          s2 = (if s1 \<noteq> [] \<and> (hd s1 = CHR ''-'' \<or> hd s1 = CHR ''+'') then tl s1 else s1);
          hex = ((base = 0 \<or> base = 16) \<and> length s2 \<ge> 3 \<and> hd s2 = CHR ''0''
                 \<and> (s2 ! 1 = CHR ''x'' \<or> s2 ! 1 = CHR ''X'') \<and> is_digit_in 16 (s2 ! 2));
          s3 = (if hex then drop 2 s2 else s2);
          b = (if hex then 16
               else if base = 0 then (if s3 \<noteq> [] \<and> hd s3 = CHR ''0'' then 8 else 10)
               else base)
      in case read_digits b 0 False s3 of
           (acc, any, rest) \<Rightarrow>
             if \<not> any then (0, s)
             else if neg then (max LONG_MIN (- int acc), rest)
             else (min LONG_MAX (int acc), rest))"

text \<open>\<^verbatim>\<open>long long\<close> has 64 bits as well.\<close>

definition strtoll :: "nat \<Rightarrow> string \<Rightarrow> int \<times> string" where
  "strtoll base s = strtol base s"

text \<open>\<^verbatim>\<open>atoi(s)\<close> is \<^verbatim>\<open>(int) strtol(s, NULL, 10)\<close>: the conversion keeps the low 32 bits.\<close>

definition atoi :: "string \<Rightarrow> int32_t" where
  "atoi s = word_of_int (fst (strtol 10 s))"

section \<open>Data model\<close>

text \<open>\<^verbatim>\<open>ConfigKey(uid, id)\<close> of \<^verbatim>\<open>config/ConfigKey.h\<close>: the owner's uid and the id.\<close>

datatype ConfigKey = ConfigKey (GetUid: int32_t) (GetId: int64_t)

text \<open>
  A binder status: ok, or an exception code with its message, as built by the file's
  \<^verbatim>\<open>exception(code, msg)\<close>.
\<close>

datatype exception_code = EX_SECURITY | EX_ILLEGAL_ARGUMENT | EX_NULL_POINTER | EX_ILLEGAL_STATE

datatype Status = Status_ok | Status_exception exception_code string

definition isOk :: "Status \<Rightarrow> bool" where
  "isOk st = (st = Status_ok)"

definition exception :: "exception_code \<Rightarrow> string \<Rightarrow> Status" where
  "exception code msg = Status_exception code msg"

text \<open>
  What the binder transport knows of the caller of the current call. The security label
  is \<open>None\<close> when \<^verbatim>\<open>AIBinder_getCallingSid\<close> returns a null pointer;
  \<open>sid_api_available\<close> is the \<^verbatim>\<open>__builtin_available\<close> test of \<^verbatim>\<open>checkSid\<close>.
\<close>

record transport =
  AIBinder_getCallingUid :: uid_t
  AIBinder_getCallingPid :: "32 word"
  AIBinder_getCallingSid :: "string option"
  sid_api_available :: bool

text \<open>
  Binder objects (pending-intent references, callbacks) are opaque handles; a null
  \<^verbatim>\<open>shared_ptr\<close> is \<open>None\<close>.
\<close>

type_synonym handle = "nat option"

text \<open>
  A log event: a parsed atom, numbered, the empty event \<^verbatim>\<open>LogEvent(0, 0)\<close> that
  \<^verbatim>\<open>stopReadingLogs\<close> pushes, or the event that \<^verbatim>\<open>cmd_log_binary_push\<close> constructs,
  with the arguments that it hands to the constructor, in their order.
\<close>

datatype LogEvent =
    Atom nat
  | Sentinel
  | BinaryPushStateChanged string int64_t string string string int32_t "byte list" int32_t

text \<open>
  A parsed \<^verbatim>\<open>StatsdConfig\<close> message is opaque as well; its content is outside the
  file.
\<close>

type_synonym StatsdConfig = nat

datatype DumpReportReason =
  DEVICE_SHUTDOWN | GET_DATA_CALLED | ADB_DUMP | STATSCOMPANION_DIED | TERMINATION_SIGNAL_RECEIVED

datatype DumpLatency = FAST | NO_TIME_CONSTRAINTS

definition kBootCompleteTag :: string where
  "kBootCompleteTag = ''BOOT_COMPLETE''"

definition kUidMapReceivedTag :: string where
  "kUidMapReceivedTag = ''UID_MAP''"

definition kAllPullersRegisteredTag :: string where
  "kAllPullersRegisteredTag = ''PULLERS_REGISTERED''"

text \<open>
  The service works through collaborators that are outside the file (the log processor,
  the configuration manager, the uid map, the puller manager, the alarm monitors, the
  companion service, the shell subscriber, the statistics singleton, the storage manager
  and the stats log). A call of one of them is recorded as an effect, with its arguments
  in the order of the source; clock readings (\<^verbatim>\<open>getElapsedRealtimeNs\<close>,
  \<^verbatim>\<open>getWallClockNs\<close>) and output pointers are left out of the record. A method of the
  service returns its status and the effects in the order it issued them. Log lines
  (\<^verbatim>\<open>ALOGE\<close>, \<^verbatim>\<open>ALOGW\<close>, \<^verbatim>\<open>VLOG\<close>) are not effects.
\<close>

datatype effect =
    Processor_onDumpReport ConfigKey bool bool DumpReportReason DumpLatency
  | Processor_informPullAlarmFired
  | Processor_onPeriodicAlarmFired
  | Processor_WriteDataToDisk DumpReportReason DumpLatency
  | Processor_SaveActiveConfigsToDisk
  | Processor_SaveMetadataToDisk
  | Processor_noteOnDiskData ConfigKey
  | Processor_GetActiveConfigs int32_t
  | Processor_fillRestrictedMetrics int64_t string int32_t
  | Processor_querySql string int32_t "byte list option" handle int64_t string int32_t
  | Processor_onStatsdInitCompleted
  | Processor_OnLogEvent LogEvent
  | Processor_getLastReportTimeNs ConfigKey
  | Processor_GetMetricsSize ConfigKey
  | Processor_setPrintLogs bool
  | ConfigManager_UpdateConfig ConfigKey StatsdConfig
  | ConfigManager_RemoveConfig ConfigKey
  | ConfigManager_RemoveConfigs int32_t
  | ConfigManager_RemoveAllConfigs
  | ConfigManager_SetConfigReceiver ConfigKey handle
  | ConfigManager_RemoveConfigReceiver ConfigKey
  | ConfigManager_SetActiveConfigsChangedReceiver int32_t handle
  | ConfigManager_RemoveActiveConfigsChangedReceiver int32_t
  | ConfigManager_SetRestrictedMetricsChangedReceiver string int64_t int32_t handle
  | ConfigManager_RemoveRestrictedMetricsChangedReceiver string int64_t int32_t
  | ConfigManager_GetConfigReceiver ConfigKey
  | ConfigManager_GetActiveConfigsChangedReceiver int32_t
  | ConfigManager_GetAllConfigKeys
  | PendingIntentRef_sendDataBroadcast handle int64_t
  | PendingIntentRef_sendActiveConfigsChangedBroadcast handle "int64_t list"
  | UidMap_updateMap
  | UidMap_updateApp string int32_t int64_t string string "byte list"
  | UidMap_removeApp string int32_t
  | UidMap_printUidMap bool
  | UidMap_getAppUid string
  | BootCompleteTrigger_markComplete string
  | PullerManager_RegisterPullAtomCallback int32_t int32_t int64_t int64_t "int32_t list" handle
  | PullerManager_UnregisterPullAtomCallback int32_t int32_t
  | PullerManager_SetStatsCompanionService bool
  | PullerManager_Pull int32_t "int32_t list"
  | PullerManager_ForceClearPullerCache
  | AnomalyAlarmMonitor_setStatsCompanionService bool
  | PeriodicAlarmMonitor_setStatsCompanionService bool
  | PeriodicAlarmMonitor_popSoonerThan
  | StatsCompanion_statsdReady
  | StatsCompanion_linkToDeath
  | SubscriberReporter_setBroadcastSubscriber ConfigKey int64_t handle
  | SubscriberReporter_unsetBroadcastSubscriber ConfigKey int64_t
  | StatsdStats_dumpStats
  | StatsdStats_dumpStats_to_fd
  | StatsdStats_noteQueryRestrictedMetricFailed int64_t string int32_t
  | StorageManager_readAllTrainInfo
  | StorageManager_deleteAllFiles
  | ShellSubscriber_startNewSubscription "byte list" handle
  | ShellSubscriber_startNewSubscription_fd int32_t
  | ShellSubscriber_unsubscribe handle
  | ShellSubscriber_flushSubscription handle
  | ShellSubscriber_onLogEvent LogEvent
  | stats_write_APP_BREADCRUMB_REPORTED int32_t int32_t int32_t

text \<open>
  What the collaborators and the platform answer during a call. The report that
  \<^verbatim>\<open>onDumpReport\<close> stores through its output pointer, the outcome of the protobuf
  parsers (\<open>None\<close> when \<^verbatim>\<open>ParseFromArray\<close> returns false) and the default-constructed
  \<^verbatim>\<open>StatsdConfig\<close> are parameters, as are the helpers \<^verbatim>\<open>MillisToNano\<close> and
  \<^verbatim>\<open>StrToInt64\<close> of \<^verbatim>\<open>stats_log_util\<close>, which the file calls and does not define.
  For the shell commands: the receivers that the configuration manager holds and whether
  a broadcast through one of them succeeds, the active configurations of a uid, the
  uids of a package (\<^verbatim>\<open>getAppUid\<close>, in the order of the set), the table
  \<^verbatim>\<open>UidMap::sAidToUidMapping\<close>, the outcome of a pull (the printed form of each
  pulled event, \<open>None\<close> when \<^verbatim>\<open>Pull\<close> returns false), the count that
  \<^verbatim>\<open>ForceClearPullerCache\<close> returns, the keys of all configurations with their
  printed form and the size of their metrics, and the helper
  \<^verbatim>\<open>writeExperimentIdsToProto\<close>.
\<close>

record env =
  onDumpReport_output :: "ConfigKey \<Rightarrow> byte list"
  StatsdConfig_default :: StatsdConfig
  StatsdConfig_ParseFromArray :: "byte list \<Rightarrow> StatsdConfig option"
  StatsdConfig_ParseFromString :: "byte list \<Rightarrow> StatsdConfig option"
  UidData_ParseFromFileDescriptor :: bool
  hasConfigMetricsReport :: "ConfigKey \<Rightarrow> bool"
  getStatsCompanionService :: bool
  popSoonerThan_nonempty :: bool
  isAtLeastU :: bool
  readAllTrainInfo :: "int64_t list list"
  dumpStats_output :: "byte list"
  checkPermissionForIds :: "string \<Rightarrow> 32 word \<Rightarrow> uid_t \<Rightarrow> bool"
  MillisToNano :: "int64_t \<Rightarrow> int64_t"
  StrToInt64 :: "string \<Rightarrow> int64_t"
  GetConfigReceiver :: "ConfigKey \<Rightarrow> handle"
  getLastReportTimeNs :: "ConfigKey \<Rightarrow> int64_t"
  sendDataBroadcast_isOk :: "handle \<Rightarrow> int64_t \<Rightarrow> bool"
  GetActiveConfigs_output :: "int32_t \<Rightarrow> int64_t list"
  GetActiveConfigsChangedReceiver :: "int32_t \<Rightarrow> handle"
  sendActiveConfigsChangedBroadcast_isOk :: "handle \<Rightarrow> int64_t list \<Rightarrow> bool"
  getAppUid :: "string \<Rightarrow> int32_t list"
  sAidToUidMapping :: "string \<Rightarrow> int32_t option"
  Pull :: "int32_t \<Rightarrow> int32_t list \<Rightarrow> string list option"
  ForceClearPullerCache :: int32_t
  GetAllConfigKeys :: "ConfigKey list"
  ConfigKey_ToString :: "ConfigKey \<Rightarrow> string"
  GetMetricsSize :: "ConfigKey \<Rightarrow> nat"
  writeExperimentIdsToProto :: "int64_t list \<Rightarrow> byte list"

text \<open>The members of \<^verbatim>\<open>StatsService\<close> that the modelled methods read or write.\<close>

record StatsService =
  mEngBuild :: bool
  mProcessor_present :: bool
  mShellSubscriber_present :: bool
  mInitEventDelaySecs :: int
  mStatsdInitCompletedHandlerTerminationRequested :: bool

section \<open>Identity checks\<close>

definition checkUid :: "transport \<Rightarrow> uid_t \<Rightarrow> Status" where
  "checkUid tr expectedUid =
     (let uid = AIBinder_getCallingUid tr in
      if uid = expectedUid \<or> uid = AID_ROOT then Status_ok
      else exception EX_SECURITY
             (''UID '' @ printf_d uid @ '' is not expected UID '' @ printf_d expectedUid))"

text \<open>\<^verbatim>\<open>%s\<close> of a null pointer prints \<^verbatim>\<open>(null)\<close> in the platform's C library.\<close>

definition printf_s :: "string option \<Rightarrow> string" where
  "printf_s p = (case p of None \<Rightarrow> ''(null)'' | Some s \<Rightarrow> s)"

definition checkSid :: "transport \<Rightarrow> string \<Rightarrow> Status" where
  "checkSid tr expectedSid =
     (let sid = (if sid_api_available tr then AIBinder_getCallingSid tr else None);
          uid = AIBinder_getCallingUid tr in
      if uid = AID_ROOT then Status_ok
      else if (case sid of None \<Rightarrow> False | Some s \<Rightarrow> expectedSid = s) then Status_ok
      else exception EX_SECURITY
             (''SID '' @ [CHR 0x27] @ printf_s sid @ [CHR 0x27] @ '' is not expected SID ''
                @ [CHR 0x27] @ expectedSid @ [CHR 0x27]))"

definition checkPermission :: "env \<Rightarrow> transport \<Rightarrow> string \<Rightarrow> bool" where
  "checkPermission e tr permission =
     checkPermissionForIds e permission (AIBinder_getCallingPid tr) (AIBinder_getCallingUid tr)"

section \<open>The RPC methods\<close>

text \<open>
  A method that starts with \<^verbatim>\<open>ENFORCE_UID(AID_SYSTEM)\<close> returns the status of
  \<^verbatim>\<open>checkUid\<close> at once when it is not ok. A method is a function of the collaborators'
  answers, the transport's view of the caller and the arguments; it returns the status
  and the effects, and the value of an output argument where it has one.
\<close>

subsection \<open>Reports\<close>

definition getDataChecked :: "env \<Rightarrow> int64_t \<Rightarrow> int32_t \<Rightarrow> effect list \<times> byte list" where
  "getDataChecked e key callingUid =
     (let configKey = ConfigKey callingUid key in
      ([Processor_onDumpReport configKey False True GET_DATA_CALLED FAST],
       onDumpReport_output e configKey))"

definition getData ::
  "env \<Rightarrow> transport \<Rightarrow> int64_t \<Rightarrow> int32_t \<Rightarrow> byte list
     \<Rightarrow> Status \<times> effect list \<times> byte list" where
  "getData e tr key callingUid output =
     (let status = checkUid tr AID_SYSTEM in
      if \<not> isOk status then (status, [], output)
      else case getDataChecked e key callingUid of
             (fx, output') \<Rightarrow> (Status_ok, fx, output'))"

text \<open>
  A file descriptor: the bytes written so far and the number of bytes it still accepts
  (\<open>None\<close> when there is no limit). \<^verbatim>\<open>android::base::WriteFully\<close> writes all the
  bytes and returns true, or fails after writing the part that was accepted.
\<close>

datatype fd_state = Fd (fd_written: "byte list") (fd_room: "nat option")

definition WriteFully :: "fd_state \<Rightarrow> byte list \<Rightarrow> bool \<times> fd_state" where
  "WriteFully fd bs =
     (case fd_room fd of
        None \<Rightarrow> (True, Fd (fd_written fd @ bs) None)
      | Some r \<Rightarrow>
          if length bs \<le> r then (True, Fd (fd_written fd @ bs) (Some (r - length bs)))
          else (False, Fd (fd_written fd @ take r bs) (Some 0)))"

text \<open>The four bytes in memory of \<^verbatim>\<open>htonl(x)\<close>: most significant byte first.\<close>

definition htonl_bytes :: "32 word \<Rightarrow> byte list" where
  "htonl_bytes x = [ucast (drop_bit 24 x), ucast (drop_bit 16 x), ucast (drop_bit 8 x), ucast x]"

definition INT32_MAX :: nat where
  "INT32_MAX = 2147483647"

definition getDataFd ::
  "env \<Rightarrow> transport \<Rightarrow> int64_t \<Rightarrow> int32_t \<Rightarrow> fd_state
     \<Rightarrow> Status \<times> effect list \<times> fd_state" where
  "getDataFd e tr key callingUid fd =
     (let status = checkUid tr AID_SYSTEM in
      if \<not> isOk status then (status, [], fd)
      else case getDataChecked e key callingUid of
        (fx, reportData) \<Rightarrow>
          if length reportData \<ge> INT32_MAX
          then (exception EX_ILLEGAL_STATE ''Report size is infeasible big.'', fx, fd)
          else
            let bytesToWrite = (word_of_nat (length reportData) :: 32 word) in
            case WriteFully fd (htonl_bytes bytesToWrite) of
              (ok1, fd1) \<Rightarrow>
                if \<not> ok1
                then (exception EX_ILLEGAL_STATE
                        ''Failed to write report data size to file descriptor'', fx, fd1)
                else
                  case WriteFully fd1 reportData of
                    (ok2, fd2) \<Rightarrow>
                      if \<not> ok2
                      then (exception EX_ILLEGAL_STATE
                              ''Failed to write report data to file descriptor'', fx, fd2)
                      else (Status_ok, fx, fd2))"

definition getMetadata ::
  "env \<Rightarrow> transport \<Rightarrow> byte list \<Rightarrow> Status \<times> effect list \<times> byte list" where
  "getMetadata e tr output =
     (let status = checkUid tr AID_SYSTEM in
      if \<not> isOk status then (status, [], output)
      else (Status_ok, [StatsdStats_dumpStats], dumpStats_output e))"

subsection \<open>Configurations\<close>

definition addConfigurationChecked ::
  "env \<Rightarrow> int32_t \<Rightarrow> int64_t \<Rightarrow> byte list \<Rightarrow> bool \<times> effect list" where
  "addConfigurationChecked e uid key config =
     (let configKey = ConfigKey uid key;
          cfg = StatsdConfig_default e;
          parsed = (if length config > 0 then StatsdConfig_ParseFromArray e config else Some cfg)
      in case parsed of
           None \<Rightarrow> (False, [])
         | Some cfg' \<Rightarrow> (True, [ConfigManager_UpdateConfig configKey cfg']))"

definition addConfiguration ::
  "env \<Rightarrow> transport \<Rightarrow> int64_t \<Rightarrow> byte list \<Rightarrow> int32_t \<Rightarrow> Status \<times> effect list" where
  "addConfiguration e tr key config callingUid =
     (let status = checkUid tr AID_SYSTEM in
      if \<not> isOk status then (status, [])
      else case addConfigurationChecked e callingUid key config of
             (ok, fx) \<Rightarrow>
               if ok then (Status_ok, fx)
               else (exception EX_ILLEGAL_ARGUMENT ''Could not parse malformatted StatsdConfig.'',
                     fx))"

definition removeConfiguration ::
  "transport \<Rightarrow> int64_t \<Rightarrow> int32_t \<Rightarrow> Status \<times> effect list" where
  "removeConfiguration tr key callingUid =
     (let status = checkUid tr AID_SYSTEM in
      if \<not> isOk status then (status, [])
      else (Status_ok, [ConfigManager_RemoveConfig (ConfigKey callingUid key)]))"

definition removeDataFetchOperation ::
  "transport \<Rightarrow> int64_t \<Rightarrow> int32_t \<Rightarrow> Status \<times> effect list" where
  "removeDataFetchOperation tr key callingUid =
     (let status = checkUid tr AID_SYSTEM in
      if \<not> isOk status then (status, [])
      else (Status_ok, [ConfigManager_RemoveConfigReceiver (ConfigKey callingUid key)]))"

definition setDataFetchOperation ::
  "env \<Rightarrow> transport \<Rightarrow> int64_t \<Rightarrow> handle \<Rightarrow> int32_t \<Rightarrow> Status \<times> effect list" where
  "setDataFetchOperation e tr key pir callingUid =
     (let status = checkUid tr AID_SYSTEM in
      if \<not> isOk status then (status, [])
      else
        let configKey = ConfigKey callingUid key in
        (Status_ok,
         ConfigManager_SetConfigReceiver configKey pir #
           (if hasConfigMetricsReport e configKey then [Processor_noteOnDiskData configKey]
            else [])))"

definition setActiveConfigsChangedOperation ::
  "transport \<Rightarrow> handle \<Rightarrow> int32_t \<Rightarrow> bool \<Rightarrow> Status \<times> effect list" where
  "setActiveConfigsChangedOperation tr pir callingUid output_given =
     (let status = checkUid tr AID_SYSTEM in
      if \<not> isOk status then (status, [])
      else
        (Status_ok,
         ConfigManager_SetActiveConfigsChangedReceiver callingUid pir #
           (if output_given then [Processor_GetActiveConfigs callingUid] else [])))"

definition removeActiveConfigsChangedOperation ::
  "transport \<Rightarrow> int32_t \<Rightarrow> Status \<times> effect list" where
  "removeActiveConfigsChangedOperation tr callingUid =
     (let status = checkUid tr AID_SYSTEM in
      if \<not> isOk status then (status, [])
      else (Status_ok, [ConfigManager_RemoveActiveConfigsChangedReceiver callingUid]))"

definition setBroadcastSubscriber ::
  "transport \<Rightarrow> int64_t \<Rightarrow> int64_t \<Rightarrow> handle \<Rightarrow> int32_t \<Rightarrow> Status \<times> effect list" where
  "setBroadcastSubscriber tr configId subscriberId pir callingUid =
     (let status = checkUid tr AID_SYSTEM in
      if \<not> isOk status then (status, [])
      else if pir = None
      then (exception EX_NULL_POINTER
              ''setBroadcastSubscriber provided with null PendingIntentRef'', [])
      else
        (Status_ok,
         [SubscriberReporter_setBroadcastSubscriber (ConfigKey callingUid configId)
            subscriberId pir]))"

definition unsetBroadcastSubscriber ::
  "transport \<Rightarrow> int64_t \<Rightarrow> int64_t \<Rightarrow> int32_t \<Rightarrow> Status \<times> effect list" where
  "unsetBroadcastSubscriber tr configId subscriberId callingUid =
     (let status = checkUid tr AID_SYSTEM in
      if \<not> isOk status then (status, [])
      else
        (Status_ok,
         [SubscriberReporter_unsetBroadcastSubscriber (ConfigKey callingUid configId)
            subscriberId]))"

subsection \<open>Lifecycle and event notifications\<close>

definition informAllUidData :: "env \<Rightarrow> transport \<Rightarrow> Status \<times> effect list" where
  "informAllUidData e tr =
     (let status = checkUid tr AID_SYSTEM in
      if \<not> isOk status then (status, [])
      else if \<not> UidData_ParseFromFileDescriptor e
      then (exception EX_ILLEGAL_ARGUMENT ''Error parsing proto stream for UidData.'', [])
      else (Status_ok, [UidMap_updateMap, BootCompleteTrigger_markComplete kUidMapReceivedTag]))"

definition informOnePackage ::
  "transport \<Rightarrow> string \<Rightarrow> int32_t \<Rightarrow> int64_t \<Rightarrow> string \<Rightarrow> string \<Rightarrow> byte list
     \<Rightarrow> Status \<times> effect list" where
  "informOnePackage tr app uid version versionString installer certificateHash =
     (let status = checkUid tr AID_SYSTEM in
      if \<not> isOk status then (status, [])
      else (Status_ok,
            [UidMap_updateApp app uid version versionString installer certificateHash]))"

definition informOnePackageRemoved ::
  "transport \<Rightarrow> string \<Rightarrow> int32_t \<Rightarrow> Status \<times> effect list" where
  "informOnePackageRemoved tr app uid =
     (let status = checkUid tr AID_SYSTEM in
      if \<not> isOk status then (status, [])
      else (Status_ok, [UidMap_removeApp app uid, ConfigManager_RemoveConfigs uid]))"

definition informAnomalyAlarmFired :: "transport \<Rightarrow> Status \<times> effect list" where
  "informAnomalyAlarmFired tr =
     (let status = checkUid tr AID_SYSTEM in
      if \<not> isOk status then (status, [])
      else (Status_ok, []))"

definition informAlarmForSubscriberTriggeringFired ::
  "env \<Rightarrow> transport \<Rightarrow> Status \<times> effect list" where
  "informAlarmForSubscriberTriggeringFired e tr =
     (let status = checkUid tr AID_SYSTEM in
      if \<not> isOk status then (status, [])
      else
        (Status_ok,
         PeriodicAlarmMonitor_popSoonerThan #
           (if popSoonerThan_nonempty e then [Processor_onPeriodicAlarmFired] else [])))"

definition informPollAlarmFired :: "transport \<Rightarrow> Status \<times> effect list" where
  "informPollAlarmFired tr =
     (let status = checkUid tr AID_SYSTEM in
      if \<not> isOk status then (status, [])
      else (Status_ok, [Processor_informPullAlarmFired]))"

definition sayHiToStatsCompanion :: "env \<Rightarrow> effect list" where
  "sayHiToStatsCompanion e =
     (if getStatsCompanionService e then [StatsCompanion_statsdReady] else [])"

definition systemRunning :: "env \<Rightarrow> transport \<Rightarrow> Status \<times> effect list" where
  "systemRunning e tr =
     (let status = checkUid tr AID_SYSTEM in
      if \<not> isOk status then (status, [])
      else (Status_ok, sayHiToStatsCompanion e))"

text \<open>
  The termination request of the init-completion handler sets the flag under the mutex
  and notifies the waiters.
\<close>

definition onStatsdInitCompletedHandlerTermination :: "StatsService \<Rightarrow> StatsService" where
  "onStatsdInitCompletedHandlerTermination svc =
     svc\<lparr>mStatsdInitCompletedHandlerTerminationRequested := True\<rparr>"

definition informDeviceShutdown ::
  "transport \<Rightarrow> StatsService \<Rightarrow> Status \<times> effect list \<times> StatsService" where
  "informDeviceShutdown tr svc =
     (let status = checkUid tr AID_SYSTEM in
      if \<not> isOk status then (status, [], svc)
      else
        (Status_ok,
         [Processor_WriteDataToDisk DEVICE_SHUTDOWN FAST, Processor_SaveActiveConfigsToDisk,
          Processor_SaveMetadataToDisk],
         onStatsdInitCompletedHandlerTermination svc))"

definition statsCompanionReady :: "env \<Rightarrow> transport \<Rightarrow> Status \<times> effect list" where
  "statsCompanionReady e tr =
     (let status = checkUid tr AID_SYSTEM in
      if \<not> isOk status then (status, [])
      else if \<not> getStatsCompanionService e
      then (exception EX_NULL_POINTER
              ''StatsCompanion unavailable despite it contacting statsd.'', [])
      else
        (Status_ok,
         [StatsCompanion_linkToDeath, PullerManager_SetStatsCompanionService True,
          AnomalyAlarmMonitor_setStatsCompanionService True,
          PeriodicAlarmMonitor_setStatsCompanionService True]))"

definition bootCompleted :: "transport \<Rightarrow> Status \<times> effect list" where
  "bootCompleted tr =
     (let status = checkUid tr AID_SYSTEM in
      if \<not> isOk status then (status, [])
      else (Status_ok, [BootCompleteTrigger_markComplete kBootCompleteTag]))"

definition allPullersFromBootRegistered :: "transport \<Rightarrow> Status \<times> effect list" where
  "allPullersFromBootRegistered tr =
     (let status = checkUid tr AID_SYSTEM in
      if \<not> isOk status then (status, [])
      else (Status_ok, [BootCompleteTrigger_markComplete kAllPullersRegisteredTag]))"

subsection \<open>Pull atoms, experiment ids, properties\<close>

definition registerPullAtomCallback ::
  "env \<Rightarrow> transport \<Rightarrow> int32_t \<Rightarrow> int32_t \<Rightarrow> int64_t \<Rightarrow> int64_t \<Rightarrow> int32_t list \<Rightarrow> handle
     \<Rightarrow> Status \<times> effect list" where
  "registerPullAtomCallback e tr uid atomTag coolDownMillis timeoutMillis additiveFields
       pullerCallback =
     (let status = checkUid tr AID_SYSTEM in
      if \<not> isOk status then (status, [])
      else
        (Status_ok,
         [PullerManager_RegisterPullAtomCallback uid atomTag (MillisToNano e coolDownMillis)
            (MillisToNano e timeoutMillis) additiveFields pullerCallback]))"

definition unregisterPullAtomCallback ::
  "transport \<Rightarrow> int32_t \<Rightarrow> int32_t \<Rightarrow> Status \<times> effect list" where
  "unregisterPullAtomCallback tr uid atomTag =
     (let status = checkUid tr AID_SYSTEM in
      if \<not> isOk status then (status, [])
      else (Status_ok, [PullerManager_UnregisterPullAtomCallback uid atomTag]))"

text \<open>
  The two native variants check a permission of the caller instead of its uid, and
  register under the transport's calling uid.
\<close>

definition registerNativePullAtomCallback ::
  "env \<Rightarrow> transport \<Rightarrow> int32_t \<Rightarrow> int64_t \<Rightarrow> int64_t \<Rightarrow> int32_t list \<Rightarrow> handle
     \<Rightarrow> Status \<times> effect list" where
  "registerNativePullAtomCallback e tr atomTag coolDownMillis timeoutMillis additiveFields
       pullerCallback =
     (if \<not> checkPermission e tr kPermissionRegisterPullAtom
      then (exception EX_SECURITY
              (''Uid '' @ printf_d (AIBinder_getCallingUid tr) @ '' does not have the ''
                 @ kPermissionRegisterPullAtom @ '' permission when registering atom ''
                 @ printf_d atomTag), [])
      else
        let uid = AIBinder_getCallingUid tr in
        (Status_ok,
         [PullerManager_RegisterPullAtomCallback uid atomTag (MillisToNano e coolDownMillis)
            (MillisToNano e timeoutMillis) additiveFields pullerCallback]))"

definition unregisterNativePullAtomCallback ::
  "env \<Rightarrow> transport \<Rightarrow> int32_t \<Rightarrow> Status \<times> effect list" where
  "unregisterNativePullAtomCallback e tr atomTag =
     (if \<not> checkPermission e tr kPermissionRegisterPullAtom
      then (exception EX_SECURITY
              (''Uid '' @ printf_d (AIBinder_getCallingUid tr) @ '' does not have the ''
                 @ kPermissionRegisterPullAtom @ '' permission when unregistering atom ''
                 @ printf_d atomTag), [])
      else
        let uid = AIBinder_getCallingUid tr in
        (Status_ok, [PullerManager_UnregisterPullAtomCallback uid atomTag]))"

definition getRegisteredExperimentIds ::
  "env \<Rightarrow> transport \<Rightarrow> int64_t list \<Rightarrow> Status \<times> effect list \<times> int64_t list" where
  "getRegisteredExperimentIds e tr experimentIdsOut =
     (let status = checkUid tr AID_SYSTEM in
      if \<not> isOk status then (status, [], experimentIdsOut)
      else
        let trainInfoList = readAllTrainInfo e in
        if trainInfoList = [] then (Status_ok, [StorageManager_readAllTrainInfo], [])
        else (Status_ok, [StorageManager_readAllTrainInfo], concat trainInfoList))"

definition updateProperties :: "transport \<Rightarrow> Status \<times> effect list" where
  "updateProperties tr =
     (let status = checkUid tr AID_SYSTEM in
      if \<not> isOk status then (status, [])
      else (Status_ok, []))"

subsection \<open>Restricted metrics\<close>

definition setRestrictedMetricsChangedOperation ::
  "env \<Rightarrow> transport \<Rightarrow> int64_t \<Rightarrow> string \<Rightarrow> handle \<Rightarrow> int32_t \<Rightarrow> bool
     \<Rightarrow> Status \<times> effect list" where
  "setRestrictedMetricsChangedOperation e tr configId configPackage pir callingUid output_given =
     (let status = checkUid tr AID_SYSTEM in
      if \<not> isOk status then (status, [])
      else if \<not> isAtLeastU e then (Status_ok, [])
      else
        (Status_ok,
         ConfigManager_SetRestrictedMetricsChangedReceiver configPackage configId callingUid pir #
           (if output_given then [Processor_fillRestrictedMetrics configId configPackage callingUid]
            else [])))"

definition removeRestrictedMetricsChangedOperation ::
  "env \<Rightarrow> transport \<Rightarrow> int64_t \<Rightarrow> string \<Rightarrow> int32_t \<Rightarrow> Status \<times> effect list" where
  "removeRestrictedMetricsChangedOperation e tr configId configPackage callingUid =
     (let status = checkUid tr AID_SYSTEM in
      if \<not> isOk status then (status, [])
      else if \<not> isAtLeastU e then (Status_ok, [])
      else
        (Status_ok,
         [ConfigManager_RemoveRestrictedMetricsChangedReceiver configPackage configId
            callingUid]))"

definition querySql ::
  "transport \<Rightarrow> string \<Rightarrow> int32_t \<Rightarrow> byte list option \<Rightarrow> handle \<Rightarrow> int64_t \<Rightarrow> string \<Rightarrow> int32_t
     \<Rightarrow> Status \<times> effect list" where
  "querySql tr sqlQuery minSqlClientVersion policyConfig callback configKey configPackage
       callingUid =
     (let status = checkUid tr AID_SYSTEM in
      if \<not> isOk status then (status, [])
      else if callback = None
      then (Status_ok,
            [StatsdStats_noteQueryRestrictedMetricFailed configKey configPackage callingUid])
      else
        (Status_ok,
         [Processor_querySql sqlQuery minSqlClientVersion policyConfig callback configKey
            configPackage callingUid]))"

subsection \<open>Subscriptions\<close>

text \<open>
  These three methods start with \<^verbatim>\<open>ENFORCE_SID(kTracedProbesSid)\<close>.
  \<^verbatim>\<open>initShellSubscriber\<close> constructs the subscriber when there is none.
\<close>

definition initShellSubscriber :: "StatsService \<Rightarrow> StatsService" where
  "initShellSubscriber svc =
     (if \<not> mShellSubscriber_present svc then svc\<lparr>mShellSubscriber_present := True\<rparr> else svc)"

definition addSubscription ::
  "transport \<Rightarrow> StatsService \<Rightarrow> byte list \<Rightarrow> handle
     \<Rightarrow> Status \<times> effect list \<times> StatsService" where
  "addSubscription tr svc subscriptionConfig callback =
     (let status = checkSid tr kTracedProbesSid in
      if \<not> isOk status then (status, [], svc)
      else
        (Status_ok, [ShellSubscriber_startNewSubscription subscriptionConfig callback],
         initShellSubscriber svc))"

definition removeSubscription ::
  "transport \<Rightarrow> StatsService \<Rightarrow> handle \<Rightarrow> Status \<times> effect list \<times> StatsService" where
  "removeSubscription tr svc callback =
     (let status = checkSid tr kTracedProbesSid in
      if \<not> isOk status then (status, [], svc)
      else
        (Status_ok,
         (if mShellSubscriber_present svc then [ShellSubscriber_unsubscribe callback] else []),
         svc))"

definition flushSubscription ::
  "transport \<Rightarrow> StatsService \<Rightarrow> handle \<Rightarrow> Status \<times> effect list \<times> StatsService" where
  "flushSubscription tr svc callback =
     (let status = checkSid tr kTracedProbesSid in
      if \<not> isOk status then (status, [], svc)
      else
        (Status_ok,
         (if mShellSubscriber_present svc then [ShellSubscriber_flushSubscription callback]
          else []),
         svc))"

section \<open>The shell commands\<close>

text \<open>
  The status codes of \<^verbatim>\<open>utils/Errors.h\<close> that the commands return, and their
  values there.
\<close>

datatype status_t = NO_ERROR | UNKNOWN_ERROR | PERMISSION_DENIED

definition status_code :: "status_t \<Rightarrow> int" where
  "status_code st =
     (case st of NO_ERROR \<Rightarrow> 0 | UNKNOWN_ERROR \<Rightarrow> - 2147483648 | PERMISSION_DENIED \<Rightarrow> - 1)"

text \<open>
  What a command prints on a descriptor, in order: the block of \<^verbatim>\<open>print_cmd_help\<close>
  (a fixed sequence of lines, which does not depend on any input), a formatted text, or
  one byte of a report (\<^verbatim>\<open>%c\<close>). A command returns its status, what it printed on
  \<^verbatim>\<open>out\<close> and on \<^verbatim>\<open>err\<close>, and its effects.
\<close>

datatype out_item = UsageBlock | Text string | Byte byte

type_synonym shell_result = "status_t \<times> out_item list \<times> out_item list \<times> effect list"

definition print_cmd_help :: "out_item list" where
  "print_cmd_help = [UsageBlock]"

definition newline :: string where
  "newline = [CHR 0x0A]"

subsection \<open>The uid argument\<close>

text \<open>
  \<^verbatim>\<open>getUidFromString(s, uid)\<close> returns whether the uid may be used and the value of
  the reference \<^verbatim>\<open>uid\<close> afterwards, which is written once the string has been read as
  a number of the range of \<^verbatim>\<open>uid_t\<close>.
\<close>

definition getUidFromString ::
  "StatsService \<Rightarrow> transport \<Rightarrow> string \<Rightarrow> int32_t \<Rightarrow> bool \<times> int32_t" where
  "getUidFromString svc tr s uid =
     (if s = [] then (False, uid)
      else case strtol 0 s of
        (longUid, endc) \<Rightarrow>
          if endc \<noteq> [] then (False, uid)
          else
            let goodUid = (word_of_int longUid :: 32 word) in
            if longUid < 0 \<or> longUid mod 2 ^ 64 \<noteq> uint goodUid then (False, uid)
            else
              let callingUid = AIBinder_getCallingUid tr in
              (mEngBuild svc \<or> callingUid = goodUid
                 \<or> (callingUid = AID_ROOT \<and> goodUid = AID_SHELL),
               goodUid))"

definition getUidFromArgs ::
  "StatsService \<Rightarrow> transport \<Rightarrow> string list \<Rightarrow> nat \<Rightarrow> int32_t \<Rightarrow> bool \<times> int32_t" where
  "getUidFromArgs svc tr args uidArgIndex uid = getUidFromString svc tr (args ! uidArgIndex) uid"

subsection \<open>\<^verbatim>\<open>log-app-breadcrumb\<close>\<close>

text \<open>
  The local \<^verbatim>\<open>uid\<close> has no initial value in the source; it is read only after it
  was assigned. The model starts it at 0.
\<close>

definition cmd_log_app_breadcrumb :: "StatsService \<Rightarrow> transport \<Rightarrow> string list \<Rightarrow> shell_result" where
  "cmd_log_app_breadcrumb svc tr args =
     (let argCount = length args in
      if argCount = 3 then
        let uid = AIBinder_getCallingUid tr;
            label = atoi (args ! 1);
            state = atoi (args ! 2)
        in (NO_ERROR,
            [Text (''Logging AppBreadcrumbReported('' @ printf_d uid @ '', '' @ printf_d label
                     @ '', '' @ printf_d state @ '') to statslog.'' @ newline)],
            [],
            [stats_write_APP_BREADCRUMB_REPORTED uid label state])
      else if argCount = 4 then
        case getUidFromArgs svc tr args 1 0 of
          (good, uid) \<Rightarrow>
            let label = atoi (args ! 2);
                state = atoi (args ! 3)
            in if good then
                 (NO_ERROR,
                  [Text (''Logging AppBreadcrumbReported('' @ printf_d uid @ '', ''
                           @ printf_d label @ '', '' @ printf_d state @ '') to statslog.''
                           @ newline)],
                  [],
                  [stats_write_APP_BREADCRUMB_REPORTED uid label state])
               else
                 (UNKNOWN_ERROR,
                  Text (''Invalid UID. Note that selecting a UID for writing AppBreadcrumb can only be ''
                          @ ''done for other UIDs on eng or userdebug builds.'' @ newline)
                    # print_cmd_help,
                  [], [])
      else (UNKNOWN_ERROR, print_cmd_help, [], []))"

subsection \<open>\<^verbatim>\<open>config\<close>\<close>

definition cmd_remove_all_configs :: "out_item list \<times> effect list" where
  "cmd_remove_all_configs =
     ([Text (''Removing all configs...'' @ newline)],
      [ConfigManager_RemoveAllConfigs, StorageManager_deleteAllFiles])"

text \<open>
  \<open>stdin\<close> is what \<^verbatim>\<open>ReadFdToString\<close> reads from the descriptor \<^verbatim>\<open>in\<close>, \<open>None\<close>
  when it fails. \<^verbatim>\<open>endp == name.c_str()\<close> holds when \<^verbatim>\<open>strtoll\<close> read no digit,
  that is when the rest is the whole string.
\<close>

definition cmd_config ::
  "env \<Rightarrow> StatsService \<Rightarrow> transport \<Rightarrow> byte list option \<Rightarrow> string list \<Rightarrow> shell_result" where
  "cmd_config e svc tr stdin args =
     (let argCount = length args in
      if argCount \<ge> 2 \<and> (args ! 1 = ''update'' \<or> args ! 1 = ''remove'') then
        let (good, uid, name, err1) =
              (if argCount = 3 then (True, AIBinder_getCallingUid tr, args ! 2, [])
               else if argCount = 4 then
                 (case getUidFromArgs svc tr args 2 (- 1) of
                    (good, uid) \<Rightarrow>
                      (good, uid, args ! 3,
                       if \<not> good
                       then [Text (''Invalid UID. Note that the config can only be set for ''
                                     @ ''other UIDs on eng or userdebug builds.'' @ newline)]
                       else []))
               else if argCount = 2 \<and> args ! 1 = ''remove'' then (True, - 1, [], [])
               else (False, - 1, [], []))
        in
        if \<not> good then (UNKNOWN_ERROR, print_cmd_help, err1, [])
        else if args ! 1 = ''update'' then
          (case strtoll 10 name of
             (configID, endp) \<Rightarrow>
               if endp = name \<or> endp \<noteq> []
               then (UNKNOWN_ERROR, [], err1 @ [Text (''Error parsing config ID.'' @ newline)], [])
               else
                 (case stdin of
                    None \<Rightarrow>
                      (UNKNOWN_ERROR, [],
                       err1 @ [Text (''Error reading stream for StatsConfig.'' @ newline)], [])
                  | Some buffer \<Rightarrow>
                      (case StatsdConfig_ParseFromString e buffer of
                         None \<Rightarrow>
                           (UNKNOWN_ERROR, [],
                            err1 @ [Text (''Error parsing proto stream for StatsConfig.''
                                            @ newline)], [])
                       | Some config \<Rightarrow>
                           (NO_ERROR, [], err1,
                            [ConfigManager_UpdateConfig (ConfigKey uid (word_of_int configID))
                               config]))))
        else if argCount = 2 then
          (case cmd_remove_all_configs of (out, fx) \<Rightarrow> (NO_ERROR, out, err1, fx))
        else
          (NO_ERROR, [], err1, [ConfigManager_RemoveConfig (ConfigKey uid (StrToInt64 e name))])
      else (UNKNOWN_ERROR, print_cmd_help, [], []))"

subsection \<open>\<^verbatim>\<open>dump-report\<close>\<close>

text \<open>
  \<^verbatim>\<open>args[i]\<close> of an \<^verbatim>\<open>android::Vector\<close> with \<open>i\<close> out of range is an error of the
  caller (a fatal log in debug builds, undefined otherwise): \<open>None\<close>.
\<close>

definition arg_at :: "string list \<Rightarrow> int \<Rightarrow> string option" where
  "arg_at args i = (if 0 \<le> i \<and> i < int (length args) then Some (args ! nat i) else None)"

text \<open>
  One of the three tests on the last remaining argument: the flag found so far and the
  count of remaining arguments, or \<open>None\<close> after a read out of range.
\<close>

definition strip_flag :: "string list \<Rightarrow> string \<Rightarrow> int \<Rightarrow> (bool \<times> int) option" where
  "strip_flag args flag argCount =
     (case arg_at args (argCount - 1) of
        None \<Rightarrow> None
      | Some a \<Rightarrow> if a = flag then Some (True, argCount - 1) else Some (False, argCount))"

text \<open>
  The first part of \<^verbatim>\<open>cmd_dump_report\<close>: the three tests in the order of the source.
  It gives \<^verbatim>\<open>proto\<close>, \<^verbatim>\<open>includeCurrentBucket\<close>, \<^verbatim>\<open>eraseData\<close> and the count of
  the arguments that remain.
\<close>

definition dump_report_flags :: "string list \<Rightarrow> (bool \<times> bool \<times> bool \<times> int) option" where
  "dump_report_flags args =
     (case strip_flag args ''--proto'' (int (length args)) of
        None \<Rightarrow> None
      | Some (proto, argCount1) \<Rightarrow>
     (case strip_flag args ''--include_current_bucket'' argCount1 of
        None \<Rightarrow> None
      | Some (includeCurrentBucket, argCount2) \<Rightarrow>
     (case strip_flag args ''--keep_data'' argCount2 of
        None \<Rightarrow> None
      | Some (keepData, argCount) \<Rightarrow>
          Some (proto, includeCurrentBucket, \<not> keepData, argCount))))"

text \<open>
  The second part: the positional arguments \<^verbatim>\<open>[UID] NAME\<close> among the first
  \<open>argCount\<close> arguments, and the dump. The local \<^verbatim>\<open>uid\<close> has no initial value in
  the source and is read only after it was assigned; the model starts it at 0.
\<close>

definition dump_report_positional ::
  "env \<Rightarrow> StatsService \<Rightarrow> transport \<Rightarrow> string list \<Rightarrow> int \<Rightarrow> bool \<Rightarrow> bool \<Rightarrow> bool
     \<Rightarrow> shell_result" where
  "dump_report_positional e svc tr args argCount proto includeCurrentBucket eraseData =
     (let (good, uid, name, out1) =
            (if argCount = 2 then (True, AIBinder_getCallingUid tr, args ! 1, [])
             else if argCount = 3 then
               (case getUidFromArgs svc tr args 1 0 of
                  (good, uid) \<Rightarrow>
                    (good, uid, args ! 2,
                     if \<not> good
                     then [Text (''Invalid UID. Note that the metrics can only be dumped for ''
                                   @ ''other UIDs on eng or userdebug builds.'' @ newline)]
                     else []))
             else (False, 0, [], []))
      in
      if good then
        (let configKey = ConfigKey uid (StrToInt64 e name);
             data = onDumpReport_output e configKey
         in (NO_ERROR,
             out1 @ (if proto then map Byte data
                     else [Text (''Non-proto stats data dump not currently supported.''
                                   @ newline)]),
             [],
             [Processor_onDumpReport configKey includeCurrentBucket eraseData ADB_DUMP
                NO_TIME_CONSTRAINTS]))
      else (UNKNOWN_ERROR, out1 @ print_cmd_help, [], []))"

definition cmd_dump_report ::
  "env \<Rightarrow> StatsService \<Rightarrow> transport \<Rightarrow> string list \<Rightarrow> shell_result option" where
  "cmd_dump_report e svc tr args =
     (if mProcessor_present svc then
        (case dump_report_flags args of
           None \<Rightarrow> None
         | Some (proto, includeCurrentBucket, eraseData, argCount) \<Rightarrow>
             Some (dump_report_positional e svc tr args argCount proto includeCurrentBucket
                     eraseData))
      else Some (UNKNOWN_ERROR, [Text (''Log processor does not exist...'' @ newline)], [], []))"

subsection \<open>\<^verbatim>\<open>send-broadcast\<close>\<close>

text \<open>
  The local \<^verbatim>\<open>uid\<close> has no initial value in the source and is read only after it
  was assigned; the model starts it at 0. The receiver is looked up only once the
  arguments were accepted.
\<close>

definition cmd_trigger_broadcast ::
  "env \<Rightarrow> StatsService \<Rightarrow> transport \<Rightarrow> string list \<Rightarrow> shell_result" where
  "cmd_trigger_broadcast e svc tr args =
     (let argCount = length args;
          (good, uid, name, out1) =
            (if argCount = 2 then (True, AIBinder_getCallingUid tr, args ! 1, [])
             else if argCount = 3 then
               (case getUidFromArgs svc tr args 1 0 of
                  (good, uid) \<Rightarrow>
                    (good, uid, args ! 2,
                     if \<not> good
                     then [Text (''Invalid UID. Note that the metrics can only be dumped for ''
                                   @ ''other UIDs on eng or userdebug builds.'' @ newline)]
                     else []))
             else (False, 0, [], []))
      in
      if \<not> good then (UNKNOWN_ERROR, out1 @ print_cmd_help, [], [])
      else
        let key = ConfigKey uid (StrToInt64 e name);
            receiver = GetConfigReceiver e key
        in if receiver = None
           then (UNKNOWN_ERROR, out1, [], [ConfigManager_GetConfigReceiver key])
           else
             let lastReportTimeNs = getLastReportTimeNs e key;
                 fx = [ConfigManager_GetConfigReceiver key, Processor_getLastReportTimeNs key,
                       PendingIntentRef_sendDataBroadcast receiver lastReportTimeNs]
             in if sendDataBroadcast_isOk e receiver lastReportTimeNs
                then (NO_ERROR, out1, [], fx)
                else (UNKNOWN_ERROR, out1, [], fx))"

subsection \<open>\<^verbatim>\<open>send-active-configs\<close>\<close>

text \<open>
  The loop over the names that follow \<^verbatim>\<open>--configs\<close>: the ids read so far, or
  \<open>None\<close> at the first name that \<^verbatim>\<open>strtoll\<close> does not read entirely as a decimal
  number. The loop calls no collaborator.
\<close>

fun parse_config_ids :: "string list \<Rightarrow> int64_t list option" where
  "parse_config_ids [] = Some []"
| "parse_config_ids (a # as) =
     (case strtoll 10 a of
        (configID, endp) \<Rightarrow>
          if endp = a \<or> endp \<noteq> [] then None
          else (case parse_config_ids as of
                  None \<Rightarrow> None
                | Some configIds \<Rightarrow> Some (word_of_int configID # configIds)))"

text \<open>The end of the command: the receiver of the uid is looked up and the ids are sent.\<close>

definition send_active_configs ::
  "env \<Rightarrow> int32_t \<Rightarrow> int64_t list \<Rightarrow> effect list \<Rightarrow> shell_result" where
  "send_active_configs e uid configIds fx0 =
     (let receiver = GetActiveConfigsChangedReceiver e uid in
      if receiver = None
      then (UNKNOWN_ERROR, [], [], fx0 @ [ConfigManager_GetActiveConfigsChangedReceiver uid])
      else
        let fx = fx0 @ [ConfigManager_GetActiveConfigsChangedReceiver uid,
                        PendingIntentRef_sendActiveConfigsChangedBroadcast receiver configIds]
        in if sendActiveConfigsChangedBroadcast_isOk e receiver configIds
           then (NO_ERROR, [], [], fx)
           else (UNKNOWN_ERROR, [], [], fx))"

text \<open>
  \<^verbatim>\<open>args[curArg].find("--uid=") == 0\<close> holds when the argument starts with
  \<^verbatim>\<open>--uid=\<close>, and \<^verbatim>\<open>substr(6)\<close> is what follows. With no argument at all the
  source reads \<^verbatim>\<open>args[1]\<close> out of range: \<open>None\<close>. The local \<^verbatim>\<open>uid\<close> has no
  initial value in the source and is read only after it was assigned; the model starts
  it at 0.
\<close>

definition cmd_trigger_active_config_broadcast ::
  "env \<Rightarrow> StatsService \<Rightarrow> transport \<Rightarrow> string list \<Rightarrow> shell_result option" where
  "cmd_trigger_active_config_broadcast e svc tr args =
     (let argCount = length args in
      if argCount = 1 then
        let uid = AIBinder_getCallingUid tr
        in Some (send_active_configs e uid (GetActiveConfigs_output e uid)
                   [Processor_GetActiveConfigs uid])
      else if argCount = 0 then None
      else
        let has_uid = (take 6 (args ! 1) = ''--uid='');
            (good, uid) = (if has_uid then getUidFromString svc tr (drop 6 (args ! 1)) 0
                           else (True, AIBinder_getCallingUid tr));
            curArg = (if has_uid then 2 else 1)
        in if \<not> good
           then Some (UNKNOWN_ERROR,
                      [Text (''Invalid UID. Note that the config can only be set for ''
                               @ ''other UIDs on eng or userdebug builds.'' @ newline)],
                      [], [])
           else if curArg = argCount \<or> args ! curArg \<noteq> ''--configs''
           then Some (send_active_configs e uid (GetActiveConfigs_output e uid)
                        [Processor_GetActiveConfigs uid])
           else
             (case parse_config_ids (drop (curArg + 1) args) of
                None \<Rightarrow>
                  Some (UNKNOWN_ERROR, [Text (''Error parsing config ID.'' @ newline)], [], [])
              | Some configIds \<Rightarrow> Some (send_active_configs e uid configIds [])))"

subsection \<open>\<^verbatim>\<open>log-binary-push\<close>\<close>

text \<open>
  \<^verbatim>\<open>android::base::Split(s, ",")\<close>: the pieces of \<open>s\<close> between the commas, empty
  pieces included; one empty piece for the empty string.
\<close>

fun Split_from :: "char \<Rightarrow> string \<Rightarrow> string \<Rightarrow> string list" where
  "Split_from d piece [] = [piece]"
| "Split_from d piece (c # cs) =
     (if c = d then piece # Split_from d [] cs else Split_from d (piece @ [c]) cs)"

definition Split :: "string \<Rightarrow> char \<Rightarrow> string list" where
  "Split s d = Split_from d [] s"

text \<open>
  The version and the experiment ids are read with \<^verbatim>\<open>strtoll\<close> and a null end
  pointer, the state with \<^verbatim>\<open>atoi\<close>: what they read is not tested.
\<close>

definition cmd_log_binary_push :: "env \<Rightarrow> string list \<Rightarrow> shell_result" where
  "cmd_log_binary_push e args =
     (let argCount = length args in
      if argCount \<noteq> 7 \<and> argCount \<noteq> 8
      then (UNKNOWN_ERROR, [Text (''Incorrect number of argument supplied'' @ newline)], [], [])
      else
        let trainName = args ! 1;
            trainVersion = (word_of_int (fst (strtoll 10 (args ! 2))) :: int64_t);
            state = atoi (args ! 6);
            experimentIds =
              (if argCount = 8
               then map (\<lambda>experimentIdString.
                           (word_of_int (fst (strtoll 10 experimentIdString)) :: int64_t))
                      (Split (args ! 7) (CHR '',''))
               else []);
            experimentIdBytes = writeExperimentIdsToProto e experimentIds
        in (NO_ERROR, [Text (''Logging BinaryPushStateChanged'' @ newline)], [],
            [Processor_OnLogEvent
               (BinaryPushStateChanged trainName trainVersion (args ! 3) (args ! 4) (args ! 5)
                  state experimentIdBytes 0)]))"

subsection \<open>The commands that print\<close>

text \<open>
  What a collaborator prints itself on the descriptor (\<^verbatim>\<open>printUidMap(out, ...)\<close>,
  \<^verbatim>\<open>dumpStats(out)\<close>) is part of its effect and not of the output recorded here.
  \<^verbatim>\<open>getAppUid\<close> answers a set, listed in its order.
\<close>

definition cmd_print_uid_map :: "env \<Rightarrow> string list \<Rightarrow> shell_result" where
  "cmd_print_uid_map e args =
     (if length args > 1 then
        if args ! 1 = ''--with_certificate_hash''
        then (NO_ERROR, [], [], [UidMap_printUidMap True])
        else
          let pkg = args ! 1;
              uids = getAppUid e pkg
          in (NO_ERROR,
              [Text (pkg @ '' -> [ '')] @ map (\<lambda>uid. Text (printf_d uid @ '' '')) uids
                @ [Text ('']'' @ newline)],
              [], [UidMap_getAppUid pkg])
      else (NO_ERROR, [], [], [UidMap_printUidMap False]))"

text \<open>
  \<^verbatim>\<open>cmd_print_pulled_metrics\<close> reads \<^verbatim>\<open>args[1]\<close> without a test of the count
  (\<^verbatim>\<open>handleShellCommand\<close> calls it with two arguments at least): \<open>None\<close> with
  fewer. \<open>Pull\<close> answers the printed form of the pulled events, \<open>None\<close> when the
  pull fails; \<^verbatim>\<open>%zu\<close> prints their number.
\<close>

definition cmd_print_pulled_metrics :: "env \<Rightarrow> string list \<Rightarrow> shell_result option" where
  "cmd_print_pulled_metrics e args =
     (if length args < 2 then None
      else
        let s = atoi (args ! 1);
            (uids, fx0) =
              (if length args > 2 then
                 let package = args ! 2 in
                 (case sAidToUidMapping e package of
                    Some aid \<Rightarrow> ([aid], [])
                  | None \<Rightarrow> (getAppUid e package, [UidMap_getAppUid package]))
               else ([AID_SYSTEM], []))
        in (case Pull e s uids of
              Some stats \<Rightarrow>
                Some (NO_ERROR,
                      map (\<lambda>it. Text (''Pull from '' @ printf_d s @ '': '' @ it @ newline)) stats
                        @ [Text (''Pull from '' @ printf_d s @ '': Received ''
                                   @ show_nat (length stats) @ '' elements'' @ newline)],
                      [], fx0 @ [PullerManager_Pull s uids])
            | None \<Rightarrow> Some (UNKNOWN_ERROR, [], [], fx0 @ [PullerManager_Pull s uids])))"

definition cmd_print_stats :: "env \<Rightarrow> string list \<Rightarrow> shell_result option" where
  "cmd_print_stats e args =
     (case strip_flag args ''--proto'' (int (length args)) of
        None \<Rightarrow> None
      | Some (proto, argCount) \<Rightarrow>
          if proto then Some (NO_ERROR, map Byte (dumpStats_output e), [], [StatsdStats_dumpStats])
          else
            let configs = GetAllConfigKeys e in
            Some (NO_ERROR,
                  map (\<lambda>key. Text (''Config '' @ ConfigKey_ToString e key @ '' uses ''
                                     @ show_nat (GetMetricsSize e key) @ '' bytes'' @ newline))
                    configs,
                  [],
                  [ConfigManager_GetAllConfigKeys] @ map Processor_GetMetricsSize configs
                    @ [StatsdStats_dumpStats_to_fd]))"

definition cmd_dump_memory_info :: shell_result where
  "cmd_dump_memory_info = (NO_ERROR, [Text (''meminfo not available.'' @ newline)], [], [])"

definition cmd_write_data_to_disk :: shell_result where
  "cmd_write_data_to_disk =
     (NO_ERROR, [Text (''Writing data to disk'' @ newline)], [],
      [Processor_WriteDataToDisk ADB_DUMP NO_TIME_CONSTRAINTS])"

definition cmd_clear_puller_cache :: "env \<Rightarrow> transport \<Rightarrow> shell_result" where
  "cmd_clear_puller_cache e tr =
     (if checkPermission e tr kPermissionDump then
        let cleared = ForceClearPullerCache e
        in (NO_ERROR, [Text (''Puller removed '' @ printf_d cleared @ '' cached data!'' @ newline)],
            [], [PullerManager_ForceClearPullerCache])
      else (PERMISSION_DENIED, [], [], []))"

definition cmd_print_logs :: "transport \<Rightarrow> string list \<Rightarrow> shell_result" where
  "cmd_print_logs tr args =
     (let status = checkUid tr AID_ROOT in
      if \<not> isOk status then (PERMISSION_DENIED, [], [], [])
      else
        let enabled = (if length args \<ge> 2 then atoi (args ! 1) \<noteq> 0 else True)
        in (NO_ERROR, [], [], [Processor_setPrintLogs enabled]))"

subsection \<open>The dispatch\<close>

text \<open>
  \<^verbatim>\<open>handleShellCommand\<close>: the caller must be root or the shell; the first argument
  selects the command, which receives the whole argument list; anything else prints the
  usage block and returns \<^verbatim>\<open>NO_ERROR\<close>. \<^verbatim>\<open>data-subscribe\<close> constructs the
  shell subscriber when there is none, so the service is returned as well; the
  descriptors that it hands to the subscriber are left out of the record of the call.
\<close>

definition handleShellCommand ::
  "env \<Rightarrow> StatsService \<Rightarrow> transport \<Rightarrow> byte list option \<Rightarrow> string list
     \<Rightarrow> (shell_result \<times> StatsService) option" where
  "handleShellCommand e svc tr stdin args =
     (let uid = AIBinder_getCallingUid tr;
          argc = length args
      in
      if uid \<noteq> AID_ROOT \<and> uid \<noteq> AID_SHELL then Some ((PERMISSION_DENIED, [], [], []), svc)
      else if argc \<ge> 1 then
        (if args ! 0 = ''config''
         then Some (cmd_config e svc tr stdin args, svc)
         else if args ! 0 = ''print-uid-map''
         then Some (cmd_print_uid_map e args, svc)
         else if args ! 0 = ''dump-report''
         then map_option (\<lambda>r. (r, svc)) (cmd_dump_report e svc tr args)
         else if args ! 0 = ''pull-source'' \<and> argc > 1
         then map_option (\<lambda>r. (r, svc)) (cmd_print_pulled_metrics e args)
         else if args ! 0 = ''send-broadcast''
         then Some (cmd_trigger_broadcast e svc tr args, svc)
         else if args ! 0 = ''print-stats''
         then map_option (\<lambda>r. (r, svc)) (cmd_print_stats e args)
         else if args ! 0 = ''meminfo''
         then Some (cmd_dump_memory_info, svc)
         else if args ! 0 = ''write-to-disk''
         then Some (cmd_write_data_to_disk, svc)
         else if args ! 0 = ''log-app-breadcrumb''
         then Some (cmd_log_app_breadcrumb svc tr args, svc)
         else if args ! 0 = ''log-binary-push''
         then Some (cmd_log_binary_push e args, svc)
         else if args ! 0 = ''clear-puller-cache''
         then Some (cmd_clear_puller_cache e tr, svc)
         else if args ! 0 = ''print-logs''
         then Some (cmd_print_logs tr args, svc)
         else if args ! 0 = ''send-active-configs''
         then map_option (\<lambda>r. (r, svc)) (cmd_trigger_active_config_broadcast e svc tr args)
         else if args ! 0 = ''data-subscribe''
         then
           let svc' = initShellSubscriber svc;
               timeoutSec = (if argc \<ge> 2 then atoi (args ! 1) else - 1)
           in Some ((NO_ERROR, [], [], [ShellSubscriber_startNewSubscription_fd timeoutSec]), svc')
         else Some ((NO_ERROR, print_cmd_help, [], []), svc))
      else Some ((NO_ERROR, print_cmd_help, [], []), svc))"

section \<open>The log reader thread and its shutdown\<close>

text \<open>
  Modelled from the spec: the queue \<^verbatim>\<open>LogEventQueue\<close> (\<^verbatim>\<open>logd/LogEventQueue.h\<close>) is
  not among the sources. By the specification \<^verbatim>\<open>push\<close> does not block and
  \<^verbatim>\<open>waitPop\<close> blocks the single consumer until an event is available; events leave in
  the order they arrived. The bound of the queue is left out.

  \<^verbatim>\<open>readLogs\<close> runs on its own thread while \<^verbatim>\<open>stopReadingLogs\<close> and the producer run
  on others, and \<^verbatim>\<open>mIsStopRequested\<close> is an atomic boolean. The threads are
  interleaved: a schedule is a list of actions, each one step of one thread. The steps of
  the reader follow the statements of the loop body: \<^verbatim>\<open>waitPop\<close>, the test of the
  flag, \<^verbatim>\<open>mProcessor->OnLogEvent\<close>, and the test of \<^verbatim>\<open>mShellSubscriber\<close> with its
  \<^verbatim>\<open>onLogEvent\<close>. The steps of \<^verbatim>\<open>stopReadingLogs\<close> are its two statements. An
  action that cannot run (\<^verbatim>\<open>waitPop\<close> on an empty queue, a step of a thread that has
  finished) leaves the state as it is.
\<close>

datatype reader_pc =
    Reader_waitPop
  | Reader_popped LogEvent
  | Reader_checked LogEvent
  | Reader_processed LogEvent
  | Reader_exited

datatype stopper_pc = Stop_not_called | Stop_flag_set | Stop_done

record ingestion =
  mEventQueue :: "LogEvent list"
  mIsStopRequested :: bool
  mShellSubscriber_set :: bool
  reader :: reader_pc
  stopper :: stopper_pc
  dispatched :: "effect list"

datatype action = Producer_push LogEvent | Reader_step | Stopper_step | Shell_subscribe

definition readLogs_step :: "ingestion \<Rightarrow> ingestion" where
  "readLogs_step s =
     (case reader s of
        Reader_waitPop \<Rightarrow>
          (case mEventQueue s of
             [] \<Rightarrow> s
           | event # rest \<Rightarrow> s\<lparr>mEventQueue := rest, reader := Reader_popped event\<rparr>)
      | Reader_popped event \<Rightarrow>
          if mIsStopRequested s then s\<lparr>reader := Reader_exited\<rparr>
          else s\<lparr>reader := Reader_checked event\<rparr>
      | Reader_checked event \<Rightarrow>
          s\<lparr>dispatched := dispatched s @ [Processor_OnLogEvent event],
            reader := Reader_processed event\<rparr>
      | Reader_processed event \<Rightarrow>
          if mShellSubscriber_set s
          then s\<lparr>dispatched := dispatched s @ [ShellSubscriber_onLogEvent event],
                 reader := Reader_waitPop\<rparr>
          else s\<lparr>reader := Reader_waitPop\<rparr>
      | Reader_exited \<Rightarrow> s)"

definition stopReadingLogs_step :: "ingestion \<Rightarrow> ingestion" where
  "stopReadingLogs_step s =
     (case stopper s of
        Stop_not_called \<Rightarrow> s\<lparr>mIsStopRequested := True, stopper := Stop_flag_set\<rparr>
      | Stop_flag_set \<Rightarrow> s\<lparr>mEventQueue := mEventQueue s @ [Sentinel], stopper := Stop_done\<rparr>
      | Stop_done \<Rightarrow> s)"

definition step :: "action \<Rightarrow> ingestion \<Rightarrow> ingestion" where
  "step a s =
     (case a of
        Producer_push event \<Rightarrow> s\<lparr>mEventQueue := mEventQueue s @ [event]\<rparr>
      | Reader_step \<Rightarrow> readLogs_step s
      | Stopper_step \<Rightarrow> stopReadingLogs_step s
      | Shell_subscribe \<Rightarrow> s\<lparr>mShellSubscriber_set := True\<rparr>)"

fun run :: "action list \<Rightarrow> ingestion \<Rightarrow> ingestion" where
  "run [] s = s"
| "run (a # as) s = run as (step a s)"

text \<open>The service after its constructor has started the reader thread.\<close>

definition ingestion_start :: ingestion where
  "ingestion_start =
     \<lparr>mEventQueue = [], mIsStopRequested = False, mShellSubscriber_set = False,
      reader = Reader_waitPop, stopper = Stop_not_called, dispatched = []\<rparr>"

section \<open>The deferred completion of the initialisation\<close>

text \<open>
  \<^verbatim>\<open>onStatsdInitCompleted\<close> runs on the thread of the boot trigger. Time is counted in
  ticks from its call, \<open>tps\<close> ticks to the second. \<open>requested t\<close> is the value of
  \<^verbatim>\<open>mStatsdInitCompletedHandlerTerminationRequested\<close> at tick \<open>t\<close>: the flag is set
  by \<^verbatim>\<open>onStatsdInitCompletedHandlerTermination\<close> on another thread, under the mutex of
  the wait, and is never cleared.

  \<^verbatim>\<open>wait_for(lock, d, pred)\<close> of the C++ library returns true as soon as the
  predicate holds, and the value of the predicate once \<open>d\<close> has passed. \<open>wait_for\<close>
  gives that value and the tick of the return.
\<close>

fun wait_loop :: "nat \<Rightarrow> nat \<Rightarrow> (nat \<Rightarrow> bool) \<Rightarrow> bool \<times> nat" where
  "wait_loop 0 t pred = (pred t, t)"
| "wait_loop (Suc n) t pred = (if pred t then (True, t) else wait_loop n (Suc t) pred)"

definition wait_for :: "nat \<Rightarrow> (nat \<Rightarrow> bool) \<Rightarrow> bool \<times> nat" where
  "wait_for d pred = wait_loop d 0 pred"

text \<open>The effects of the handler and the tick at which it returns.\<close>

definition onStatsdInitCompleted ::
  "StatsService \<Rightarrow> nat \<Rightarrow> (nat \<Rightarrow> bool) \<Rightarrow> effect list \<times> nat" where
  "onStatsdInitCompleted svc tps requested =
     (if mInitEventDelaySecs svc > 0 then
        (case wait_for (nat (mInitEventDelaySecs svc) * tps) requested of
           (early, t) \<Rightarrow>
             if early then ([], t) else ([Processor_onStatsdInitCompleted], t))
      else ([Processor_onStatsdInitCompleted], 0))"

text \<open>
  The flag over time: set already at the call (as the member of the service says), or set
  at tick \<open>c\<close> by a termination request (\<open>None\<close>: no request arrives).
\<close>

definition termination_requested :: "StatsService \<Rightarrow> nat option \<Rightarrow> nat \<Rightarrow> bool" where
  "termination_requested svc cancel_at t =
     (mStatsdInitCompletedHandlerTerminationRequested svc \<or>
      (case cancel_at of None \<Rightarrow> False | Some c \<Rightarrow> c \<le> t))"

section \<open>Notions used to state the properties\<close>

definition is_exception :: "exception_code \<Rightarrow> Status \<Rightarrow> bool" where
  "is_exception code st = (case st of Status_ok \<Rightarrow> False | Status_exception c m \<Rightarrow> c = code)"

text \<open>The value of a big-endian byte sequence.\<close>

definition be_decode :: "byte list \<Rightarrow> nat" where
  "be_decode bs = foldl (\<lambda>a b. a * 256 + unat b) 0 bs"

text \<open>Whether a descriptor accepts \<open>n\<close> more bytes.\<close>

definition fd_accepts :: "fd_state \<Rightarrow> nat \<Rightarrow> bool" where
  "fd_accepts fd n = (case fd_room fd of None \<Rightarrow> True | Some r \<Rightarrow> n \<le> r)"

text \<open>
  Collaborators for the concrete runs: every report is \<open>report\<close>, the default
  configuration is message 0, and configuration bytes parse to the message numbered by
  their length unless their first byte is 255. Every configuration has receiver 1 and
  every uid receiver 2, and the broadcasts succeed; there is no active configuration,
  no package and no configuration, and a pull fails.
\<close>

definition example_env :: "byte list \<Rightarrow> env" where
  "example_env report =
     \<lparr>onDumpReport_output = (\<lambda>k. report),
      StatsdConfig_default = 0,
      StatsdConfig_ParseFromArray =
        (\<lambda>bs. if bs \<noteq> [] \<and> hd bs = 255 then None else Some (length bs)),
      StatsdConfig_ParseFromString =
        (\<lambda>bs. if bs \<noteq> [] \<and> hd bs = 255 then None else Some (length bs)),
      UidData_ParseFromFileDescriptor = True,
      hasConfigMetricsReport = (\<lambda>k. False),
      getStatsCompanionService = True,
      popSoonerThan_nonempty = False,
      isAtLeastU = True,
      readAllTrainInfo = [],
      dumpStats_output = [],
      checkPermissionForIds = (\<lambda>p pid uid. False),
      MillisToNano = (\<lambda>x. x * 1000000),
      StrToInt64 = (\<lambda>s. word_of_int (fst (strtoll 10 s))),
      GetConfigReceiver = (\<lambda>k. Some 1),
      getLastReportTimeNs = (\<lambda>k. 0),
      sendDataBroadcast_isOk = (\<lambda>r t. True),
      GetActiveConfigs_output = (\<lambda>uid. []),
      GetActiveConfigsChangedReceiver = (\<lambda>uid. Some 2),
      sendActiveConfigsChangedBroadcast_isOk = (\<lambda>r ids. True),
      getAppUid = (\<lambda>pkg. []),
      sAidToUidMapping = (\<lambda>pkg. None),
      Pull = (\<lambda>s uids. None),
      ForceClearPullerCache = 0,
      GetAllConfigKeys = [],
      ConfigKey_ToString = (\<lambda>k. []),
      GetMetricsSize = (\<lambda>k. 0),
      writeExperimentIdsToProto = (\<lambda>ids. [])\<rparr>"

definition example_caller :: "uid_t \<Rightarrow> string option \<Rightarrow> transport" where
  "example_caller uid sid =
     \<lparr>AIBinder_getCallingUid = uid, AIBinder_getCallingPid = 1,
      AIBinder_getCallingSid = sid, sid_api_available = True\<rparr>"

definition example_service :: "bool \<Rightarrow> StatsService" where
  "example_service eng =
     \<lparr>mEngBuild = eng, mProcessor_present = True, mShellSubscriber_present = False,
      mInitEventDelaySecs = 90, mStatsdInitCompletedHandlerTerminationRequested = False\<rparr>"

text \<open>The configuration keys that an effect hands to a collaborator.\<close>

definition effect_ConfigKeys :: "effect \<Rightarrow> ConfigKey list" where
  "effect_ConfigKeys x =
     (case x of
        Processor_onDumpReport k _ _ _ _ \<Rightarrow> [k]
      | Processor_noteOnDiskData k \<Rightarrow> [k]
      | ConfigManager_UpdateConfig k _ \<Rightarrow> [k]
      | ConfigManager_RemoveConfig k \<Rightarrow> [k]
      | ConfigManager_SetConfigReceiver k _ \<Rightarrow> [k]
      | ConfigManager_RemoveConfigReceiver k \<Rightarrow> [k]
      | SubscriberReporter_setBroadcastSubscriber k _ _ \<Rightarrow> [k]
      | SubscriberReporter_unsetBroadcastSubscriber k _ \<Rightarrow> [k]
      | Processor_getLastReportTimeNs k \<Rightarrow> [k]
      | Processor_GetMetricsSize k \<Rightarrow> [k]
      | ConfigManager_GetConfigReceiver k \<Rightarrow> [k]
      | _ \<Rightarrow> [])"

definition ConfigKeys_used :: "effect list \<Rightarrow> ConfigKey set" where
  "ConfigKeys_used fx = set (concat (map effect_ConfigKeys fx))"

text \<open>
  The trailing flags of \<^verbatim>\<open>dump-report\<close> in the order of its usage line:
  \<^verbatim>\<open>[--keep_data] [--include_current_bucket] [--proto]\<close>.
\<close>

definition trailing_flags :: "bool \<Rightarrow> bool \<Rightarrow> bool \<Rightarrow> string list" where
  "trailing_flags keep include proto =
     (if keep then [''--keep_data''] else []) @
     (if include then [''--include_current_bucket''] else []) @
     (if proto then [''--proto''] else [])"

text \<open>
  A numeric field: the string is not empty and \<^verbatim>\<open>strtol\<close> with this base reads all
  of it.
\<close>

definition reads_as_number :: "nat \<Rightarrow> string \<Rightarrow> bool" where
  "reads_as_number base s = (s \<noteq> [] \<and> snd (strtol base s) = [])"

text \<open>The fixed lines that the commands print before the usage block.\<close>

definition invalid_uid_breadcrumb :: string where
  "invalid_uid_breadcrumb =
     ''Invalid UID. Note that selecting a UID for writing AppBreadcrumb can only be ''
       @ ''done for other UIDs on eng or userdebug builds.'' @ newline"

definition invalid_uid_dump_report :: string where
  "invalid_uid_dump_report =
     ''Invalid UID. Note that the metrics can only be dumped for ''
       @ ''other UIDs on eng or userdebug builds.'' @ newline"

definition invalid_uid_config :: string where
  "invalid_uid_config =
     ''Invalid UID. Note that the config can only be set for ''
       @ ''other UIDs on eng or userdebug builds.'' @ newline"

text \<open>The callers that \<^verbatim>\<open>handleShellCommand\<close> admits: root and the shell.\<close>

definition shell_caller :: "transport \<Rightarrow> bool" where
  "shell_caller tr =
     (AIBinder_getCallingUid tr = AID_ROOT \<or> AIBinder_getCallingUid tr = AID_SHELL)"

text \<open>
  For the reader thread: whether the reader is between the test of the flag and the end
  of the dispatch; how many steps of the reader lead to its exit once the shutdown is
  complete; what holds of the flag and the queue during the handshake; and that the
  sentinel is never on its way to the processor.
\<close>

definition in_dispatch :: "reader_pc \<Rightarrow> bool" where
  "in_dispatch pc =
     (case pc of Reader_checked event \<Rightarrow> True | Reader_processed event \<Rightarrow> True | _ \<Rightarrow> False)"

definition steps_to_exit :: "reader_pc \<Rightarrow> nat" where
  "steps_to_exit pc =
     (case pc of
        Reader_exited \<Rightarrow> 0
      | Reader_popped event \<Rightarrow> 1
      | Reader_waitPop \<Rightarrow> 2
      | Reader_processed event \<Rightarrow> 3
      | Reader_checked event \<Rightarrow> 4)"

definition handshake_inv :: "ingestion \<Rightarrow> bool" where
  "handshake_inv s =
     ((stopper s = Stop_not_called \<or> mIsStopRequested s) \<and>
      (stopper s \<noteq> Stop_done \<or> reader s = Reader_exited \<or> (\<exists>event. reader s = Reader_popped event)
         \<or> mEventQueue s \<noteq> []))"

definition sentinel_inv :: "ingestion \<Rightarrow> bool" where
  "sentinel_inv s =
     ((stopper s = Stop_not_called \<or> mIsStopRequested s) \<and>
      (Sentinel \<in> set (mEventQueue s) \<or> reader s = Reader_popped Sentinel \<longrightarrow> mIsStopRequested s) \<and>
      reader s \<noteq> Reader_checked Sentinel \<and> reader s \<noteq> Reader_processed Sentinel \<and>
      Processor_OnLogEvent Sentinel \<notin> set (dispatched s) \<and>
      ShellSubscriber_onLogEvent Sentinel \<notin> set (dispatched s))"

text \<open>
  A run: one event is pushed and dispatched, the reader blocks, \<^verbatim>\<open>stopReadingLogs\<close>
  runs.
\<close>

definition example_schedule :: "action list" where
  "example_schedule =
     [Producer_push (Atom 1), Reader_step, Reader_step, Reader_step, Reader_step, Reader_step,
      Stopper_step, Stopper_step]"

section \<open>Properties of the identity checks\<close>

lemma printf_d_AID_SYSTEM: "printf_d AID_SYSTEM = ''1000''"
  by (simp add: printf_d_def AID_SYSTEM_def show_int_def show_nat.simps digit_char_def)

lemma checkUid_pass:
  "AIBinder_getCallingUid tr = expectedUid \<or> AIBinder_getCallingUid tr = AID_ROOT
     \<Longrightarrow> checkUid tr expectedUid = Status_ok"
  by (auto simp add: checkUid_def Let_def)

lemma checkUid_fail:
  "AIBinder_getCallingUid tr \<noteq> expectedUid \<Longrightarrow> AIBinder_getCallingUid tr \<noteq> AID_ROOT
     \<Longrightarrow> checkUid tr expectedUid =
           Status_exception EX_SECURITY
             (''UID '' @ printf_d (AIBinder_getCallingUid tr) @ '' is not expected UID ''
                @ printf_d expectedUid)"
  by (simp add: checkUid_def Let_def exception_def)

lemma checkUid_not_ok:
  "AIBinder_getCallingUid tr \<noteq> expectedUid \<Longrightarrow> AIBinder_getCallingUid tr \<noteq> AID_ROOT
     \<Longrightarrow> \<not> isOk (checkUid tr expectedUid)"
  by (simp add: checkUid_fail isOk_def)

lemmas rpc_defs =
  getData_def getDataFd_def getMetadata_def addConfiguration_def removeConfiguration_def
  removeDataFetchOperation_def setDataFetchOperation_def setActiveConfigsChangedOperation_def
  removeActiveConfigsChangedOperation_def setBroadcastSubscriber_def unsetBroadcastSubscriber_def
  informAllUidData_def informOnePackage_def informOnePackageRemoved_def
  informAnomalyAlarmFired_def informAlarmForSubscriberTriggeringFired_def
  informPollAlarmFired_def systemRunning_def informDeviceShutdown_def statsCompanionReady_def
  bootCompleted_def allPullersFromBootRegistered_def registerPullAtomCallback_def
  unregisterPullAtomCallback_def getRegisteredExperimentIds_def updateProperties_def
  setRestrictedMetricsChangedOperation_def removeRestrictedMetricsChangedOperation_def
  querySql_def

text \<open>
  C4. Every RPC method that starts with \<^verbatim>\<open>ENFORCE_UID(AID_SYSTEM)\<close>: when the
  transport's calling uid is neither the system uid nor root, the method returns the
  security exception of \<^verbatim>\<open>checkUid\<close>, whose message prints the actual uid and the
  expected uid 1000, it calls no collaborator and leaves its output argument and the
  service as they were; when the calling uid is the system uid or root, the check is ok.
\<close>

theorem enforce_uid:
  "(AIBinder_getCallingUid tr = AID_SYSTEM \<or> AIBinder_getCallingUid tr = AID_ROOT
      \<longrightarrow> checkUid tr AID_SYSTEM = Status_ok) \<and>
   (AIBinder_getCallingUid tr \<noteq> AID_SYSTEM \<and> AIBinder_getCallingUid tr \<noteq> AID_ROOT \<longrightarrow>
      checkUid tr AID_SYSTEM =
        Status_exception EX_SECURITY
          (''UID '' @ printf_d (AIBinder_getCallingUid tr) @ '' is not expected UID 1000'') \<and>
      (\<forall>key cu out. getData e tr key cu out = (checkUid tr AID_SYSTEM, [], out)) \<and>
      (\<forall>key cu fd. getDataFd e tr key cu fd = (checkUid tr AID_SYSTEM, [], fd)) \<and>
      (\<forall>out. getMetadata e tr out = (checkUid tr AID_SYSTEM, [], out)) \<and>
      (\<forall>key config cu. addConfiguration e tr key config cu = (checkUid tr AID_SYSTEM, [])) \<and>
      (\<forall>key cu. removeConfiguration tr key cu = (checkUid tr AID_SYSTEM, [])) \<and>
      (\<forall>key cu. removeDataFetchOperation tr key cu = (checkUid tr AID_SYSTEM, [])) \<and>
      (\<forall>key pir cu. setDataFetchOperation e tr key pir cu = (checkUid tr AID_SYSTEM, [])) \<and>
      (\<forall>pir cu og. setActiveConfigsChangedOperation tr pir cu og = (checkUid tr AID_SYSTEM, [])) \<and>
      (\<forall>cu. removeActiveConfigsChangedOperation tr cu = (checkUid tr AID_SYSTEM, [])) \<and>
      (\<forall>cid sid pir cu. setBroadcastSubscriber tr cid sid pir cu = (checkUid tr AID_SYSTEM, [])) \<and>
      (\<forall>cid sid cu. unsetBroadcastSubscriber tr cid sid cu = (checkUid tr AID_SYSTEM, [])) \<and>
      informAllUidData e tr = (checkUid tr AID_SYSTEM, []) \<and>
      (\<forall>app uid ver vs inst cert.
         informOnePackage tr app uid ver vs inst cert = (checkUid tr AID_SYSTEM, [])) \<and>
      (\<forall>app uid. informOnePackageRemoved tr app uid = (checkUid tr AID_SYSTEM, [])) \<and>
      informAnomalyAlarmFired tr = (checkUid tr AID_SYSTEM, []) \<and>
      informAlarmForSubscriberTriggeringFired e tr = (checkUid tr AID_SYSTEM, []) \<and>
      informPollAlarmFired tr = (checkUid tr AID_SYSTEM, []) \<and>
      systemRunning e tr = (checkUid tr AID_SYSTEM, []) \<and>
      (\<forall>svc. informDeviceShutdown tr svc = (checkUid tr AID_SYSTEM, [], svc)) \<and>
      statsCompanionReady e tr = (checkUid tr AID_SYSTEM, []) \<and>
      bootCompleted tr = (checkUid tr AID_SYSTEM, []) \<and>
      allPullersFromBootRegistered tr = (checkUid tr AID_SYSTEM, []) \<and>
      (\<forall>uid tag cd tmo add cb.
         registerPullAtomCallback e tr uid tag cd tmo add cb = (checkUid tr AID_SYSTEM, [])) \<and>
      (\<forall>uid tag. unregisterPullAtomCallback tr uid tag = (checkUid tr AID_SYSTEM, [])) \<and>
      (\<forall>ids. getRegisteredExperimentIds e tr ids = (checkUid tr AID_SYSTEM, [], ids)) \<and>
      updateProperties tr = (checkUid tr AID_SYSTEM, []) \<and>
      (\<forall>cid pkg pir cu og.
         setRestrictedMetricsChangedOperation e tr cid pkg pir cu og
           = (checkUid tr AID_SYSTEM, [])) \<and>
      (\<forall>cid pkg cu.
         removeRestrictedMetricsChangedOperation e tr cid pkg cu = (checkUid tr AID_SYSTEM, [])) \<and>
      (\<forall>q v pol cb ck pkg cu. querySql tr q v pol cb ck pkg cu = (checkUid tr AID_SYSTEM, [])))"
proof (intro conjI impI)
  assume "AIBinder_getCallingUid tr = AID_SYSTEM \<or> AIBinder_getCallingUid tr = AID_ROOT"
  then show "checkUid tr AID_SYSTEM = Status_ok" by (rule checkUid_pass)
next
  assume a: "AIBinder_getCallingUid tr \<noteq> AID_SYSTEM \<and> AIBinder_getCallingUid tr \<noteq> AID_ROOT"
  then show "checkUid tr AID_SYSTEM =
        Status_exception EX_SECURITY
          (''UID '' @ printf_d (AIBinder_getCallingUid tr) @ '' is not expected UID 1000'')"
    using checkUid_fail [of tr AID_SYSTEM] by (simp add: printf_d_AID_SYSTEM)
qed (simp_all add: rpc_defs checkUid_not_ok Let_def)

theorem enforce_uid_witness:
  "AIBinder_getCallingUid (example_caller 2000 None) \<noteq> AID_SYSTEM \<and>
   AIBinder_getCallingUid (example_caller 2000 None) \<noteq> AID_ROOT \<and>
   getData (example_env []) (example_caller 2000 None) 42 1000 [] =
     (Status_exception EX_SECURITY ''UID 2000 is not expected UID 1000'', [], []) \<and>
   bootCompleted (example_caller 2000 None) =
     (Status_exception EX_SECURITY ''UID 2000 is not expected UID 1000'', []) \<and>
   checkUid (example_caller 1000 None) AID_SYSTEM = Status_ok \<and>
   checkUid (example_caller 0 None) AID_SYSTEM = Status_ok"
proof -
  have u: "AIBinder_getCallingUid (example_caller 2000 None) \<noteq> AID_SYSTEM \<and>
      AIBinder_getCallingUid (example_caller 2000 None) \<noteq> AID_ROOT"
    by (simp add: example_caller_def AID_SYSTEM_def AID_ROOT_def)
  have p: "printf_d (AIBinder_getCallingUid (example_caller 2000 None)) = ''2000''"
    by (simp add: example_caller_def printf_d_def show_int_def show_nat.simps digit_char_def)
  have s: "AIBinder_getCallingUid (example_caller 1000 None) = AID_SYSTEM"
    by (simp add: example_caller_def AID_SYSTEM_def)
  have r: "AIBinder_getCallingUid (example_caller 0 None) = AID_ROOT"
    by (simp add: example_caller_def AID_ROOT_def)
  show ?thesis
    using u p s r
      enforce_uid [of "example_caller 2000 None" "example_env []"]
      enforce_uid [of "example_caller 1000 None" "example_env []"]
      enforce_uid [of "example_caller 0 None" "example_env []"]
    by clarsimp
qed

lemma checkSid_result:
  "checkSid tr expectedSid =
     (if AIBinder_getCallingUid tr = AID_ROOT \<or>
         (if sid_api_available tr then AIBinder_getCallingSid tr else None) = Some expectedSid
      then Status_ok
      else Status_exception EX_SECURITY
             (''SID '' @ [CHR 0x27]
                @ printf_s (if sid_api_available tr then AIBinder_getCallingSid tr else None)
                @ [CHR 0x27] @ '' is not expected SID '' @ [CHR 0x27] @ expectedSid @ [CHR 0x27]))"
  by (auto simp add: checkSid_def Let_def exception_def split: option.splits)

text \<open>
  C5. \<^verbatim>\<open>addSubscription\<close>, \<^verbatim>\<open>removeSubscription\<close> and \<^verbatim>\<open>flushSubscription\<close>
  return a security exception exactly when the caller's security label, as
  \<^verbatim>\<open>checkSid\<close> looks it up, is not the string \<^verbatim>\<open>u:r:traced_probes:s0\<close> and the
  calling uid is not root; in every other case the status is ok, whatever the uid.
\<close>

theorem enforce_sid:
  "(let sid = (if sid_api_available tr then AIBinder_getCallingSid tr else None);
        denied = (sid \<noteq> Some kTracedProbesSid \<and> AIBinder_getCallingUid tr \<noteq> AID_ROOT)
    in is_exception EX_SECURITY (fst (addSubscription tr svc config cb)) = denied \<and>
       (fst (addSubscription tr svc config cb) = Status_ok) = (\<not> denied) \<and>
       is_exception EX_SECURITY (fst (removeSubscription tr svc cb)) = denied \<and>
       (fst (removeSubscription tr svc cb) = Status_ok) = (\<not> denied) \<and>
       is_exception EX_SECURITY (fst (flushSubscription tr svc cb)) = denied \<and>
       (fst (flushSubscription tr svc cb) = Status_ok) = (\<not> denied))"
  by (simp add: Let_def addSubscription_def removeSubscription_def flushSubscription_def
      checkSid_result isOk_def is_exception_def)

theorem enforce_sid_witness:
  "is_exception EX_SECURITY
     (fst (addSubscription (example_caller 1000 (Some ''u:r:system_server:s0''))
             (example_service False) [] (Some 1))) \<and>
   is_exception EX_SECURITY
     (fst (flushSubscription (example_caller 1000 (Some ''u:r:traced_probes:s0:c1''))
             (example_service False) (Some 1))) \<and>
   is_exception EX_SECURITY
     (fst (removeSubscription (example_caller 1000 None) (example_service False) (Some 1))) \<and>
   fst (addSubscription (example_caller 10123 (Some ''u:r:traced_probes:s0''))
          (example_service False) [] (Some 1)) = Status_ok \<and>
   fst (removeSubscription (example_caller 0 None) (example_service False) (Some 1)) = Status_ok"
proof -
  have 1: "is_exception EX_SECURITY
     (fst (addSubscription (example_caller 1000 (Some ''u:r:system_server:s0''))
             (example_service False) [] (Some 1)))"
    using enforce_sid [of "example_caller 1000 (Some ''u:r:system_server:s0'')"
        "example_service False" "[]" "Some 1"]
    by (simp add: Let_def example_caller_def kTracedProbesSid_def AID_ROOT_def)
  have 2: "is_exception EX_SECURITY
     (fst (flushSubscription (example_caller 1000 (Some ''u:r:traced_probes:s0:c1''))
             (example_service False) (Some 1)))"
    using enforce_sid [of "example_caller 1000 (Some ''u:r:traced_probes:s0:c1'')"
        "example_service False" "[]" "Some 1"]
    by (simp add: Let_def example_caller_def kTracedProbesSid_def AID_ROOT_def)
  have 3: "is_exception EX_SECURITY
     (fst (removeSubscription (example_caller 1000 None) (example_service False) (Some 1)))"
    using enforce_sid [of "example_caller 1000 None" "example_service False" "[]" "Some 1"]
    by (simp add: Let_def example_caller_def kTracedProbesSid_def AID_ROOT_def)
  have 4: "fst (addSubscription (example_caller 10123 (Some ''u:r:traced_probes:s0''))
          (example_service False) [] (Some 1)) = Status_ok"
    using enforce_sid [of "example_caller 10123 (Some ''u:r:traced_probes:s0'')"
        "example_service False" "[]" "Some 1"]
    by (simp add: Let_def example_caller_def kTracedProbesSid_def AID_ROOT_def)
  have 5: "fst (removeSubscription (example_caller 0 None) (example_service False) (Some 1))
      = Status_ok"
    using enforce_sid [of "example_caller 0 None" "example_service False" "[]" "Some 1"]
    by (simp add: Let_def example_caller_def kTracedProbesSid_def AID_ROOT_def)
  from 1 2 3 4 5 show ?thesis by blast
qed

section \<open>Properties of the configuration and report calls\<close>

text \<open>
  C10. With an empty byte vector \<^verbatim>\<open>addConfiguration\<close> skips the parser, installs the
  default-constructed configuration under the key made of the \<^verbatim>\<open>callingUid\<close> argument
  and the id, and returns ok; the illegal-argument exception is returned exactly for a
  non-empty vector that the parser rejects. The caller has passed the identity check.
\<close>

theorem addConfiguration_empty:
  assumes "AIBinder_getCallingUid tr = AID_SYSTEM \<or> AIBinder_getCallingUid tr = AID_ROOT"
  shows
    "addConfiguration e tr key [] callingUid =
       (Status_ok, [ConfigManager_UpdateConfig (ConfigKey callingUid key) (StatsdConfig_default e)])
     \<and> (\<forall>config.
           is_exception EX_ILLEGAL_ARGUMENT (fst (addConfiguration e tr key config callingUid)) =
             (config \<noteq> [] \<and> StatsdConfig_ParseFromArray e config = None))"
proof -
  have ok: "checkUid tr AID_SYSTEM = Status_ok"
    using assms by (rule checkUid_pass)
  show ?thesis
    by (auto simp add: addConfiguration_def addConfigurationChecked_def ok isOk_def Let_def
        is_exception_def exception_def split: option.splits)
qed

theorem addConfiguration_empty_witness:
  "(AIBinder_getCallingUid (example_caller 1000 None) = AID_SYSTEM \<or>
    AIBinder_getCallingUid (example_caller 1000 None) = AID_ROOT) \<and>
   addConfiguration (example_env []) (example_caller 1000 None) 42 [] 10001 =
     (Status_ok, [ConfigManager_UpdateConfig (ConfigKey 10001 42) 0]) \<and>
   is_exception EX_ILLEGAL_ARGUMENT
     (fst (addConfiguration (example_env []) (example_caller 1000 None) 42 [255, 1] 10001)) \<and>
   \<not> is_exception EX_ILLEGAL_ARGUMENT
     (fst (addConfiguration (example_env []) (example_caller 1000 None) 42 [8, 42] 10001))"
proof -
  have u: "AIBinder_getCallingUid (example_caller 1000 None) = AID_SYSTEM \<or>
      AIBinder_getCallingUid (example_caller 1000 None) = AID_ROOT"
    by (simp add: example_caller_def AID_SYSTEM_def)
  have d: "StatsdConfig_default (example_env []) = 0"
    by (simp add: example_env_def)
  have p1: "StatsdConfig_ParseFromArray (example_env []) [255, 1] = None"
    by (simp add: example_env_def)
  have p2: "StatsdConfig_ParseFromArray (example_env []) [8, 42] \<noteq> None"
    by (simp add: example_env_def)
  show ?thesis
    using u d p1 p2
      addConfiguration_empty [OF u, of "example_env []" 42 10001]
    by simp
qed

lemma getDataFd_effects:
  "fst (snd (getDataFd e tr key cu fd)) =
     (if isOk (checkUid tr AID_SYSTEM)
      then [Processor_onDumpReport (ConfigKey cu key) False True GET_DATA_CALLED FAST] else [])"
  by (simp add: getDataFd_def getDataChecked_def Let_def split: prod.splits)

text \<open>
  C1, as the code has it. The transport's calling uid is only compared with the system
  uid and root. Every configuration key that \<^verbatim>\<open>getData\<close>, \<^verbatim>\<open>getDataFd\<close>,
  \<^verbatim>\<open>addConfiguration\<close>, \<^verbatim>\<open>removeConfiguration\<close>, \<^verbatim>\<open>setDataFetchOperation\<close>,
  \<^verbatim>\<open>removeDataFetchOperation\<close>, \<^verbatim>\<open>setBroadcastSubscriber\<close> and
  \<^verbatim>\<open>unsetBroadcastSubscriber\<close> hand to a collaborator is made of the \<^verbatim>\<open>callingUid\<close>
  argument that the caller declares and the id; when the identity check passes, that key
  is used.
\<close>

theorem config_key_from_declared_uid:
  "ConfigKeys_used (fst (snd (getData e tr key cu out))) \<subseteq> {ConfigKey cu key} \<and>
   ConfigKeys_used (fst (snd (getDataFd e tr key cu fd))) \<subseteq> {ConfigKey cu key} \<and>
   ConfigKeys_used (snd (addConfiguration e tr key config cu)) \<subseteq> {ConfigKey cu key} \<and>
   ConfigKeys_used (snd (removeConfiguration tr key cu)) \<subseteq> {ConfigKey cu key} \<and>
   ConfigKeys_used (snd (setDataFetchOperation e tr key pir cu)) \<subseteq> {ConfigKey cu key} \<and>
   ConfigKeys_used (snd (removeDataFetchOperation tr key cu)) \<subseteq> {ConfigKey cu key} \<and>
   ConfigKeys_used (snd (setBroadcastSubscriber tr key sub pir cu)) \<subseteq> {ConfigKey cu key} \<and>
   ConfigKeys_used (snd (unsetBroadcastSubscriber tr key sub cu)) \<subseteq> {ConfigKey cu key} \<and>
   (AIBinder_getCallingUid tr = AID_SYSTEM \<or> AIBinder_getCallingUid tr = AID_ROOT \<longrightarrow>
      ConfigKeys_used (fst (snd (getData e tr key cu out))) = {ConfigKey cu key} \<and>
      ConfigKeys_used (fst (snd (getDataFd e tr key cu fd))) = {ConfigKey cu key} \<and>
      ConfigKeys_used (snd (addConfiguration e tr key [] cu)) = {ConfigKey cu key} \<and>
      ConfigKeys_used (snd (removeConfiguration tr key cu)) = {ConfigKey cu key} \<and>
      ConfigKeys_used (snd (setDataFetchOperation e tr key pir cu)) = {ConfigKey cu key} \<and>
      ConfigKeys_used (snd (removeDataFetchOperation tr key cu)) = {ConfigKey cu key} \<and>
      ConfigKeys_used (snd (setBroadcastSubscriber tr key sub (Some h) cu)) = {ConfigKey cu key} \<and>
      ConfigKeys_used (snd (unsetBroadcastSubscriber tr key sub cu)) = {ConfigKey cu key})"
proof (intro conjI impI)
  assume "AIBinder_getCallingUid tr = AID_SYSTEM \<or> AIBinder_getCallingUid tr = AID_ROOT"
  then have ok: "checkUid tr AID_SYSTEM = Status_ok" by (rule checkUid_pass)
  show "ConfigKeys_used (fst (snd (getData e tr key cu out))) = {ConfigKey cu key}"
    by (simp add: getData_def getDataChecked_def ok isOk_def Let_def ConfigKeys_used_def
        effect_ConfigKeys_def)
  show "ConfigKeys_used (fst (snd (getDataFd e tr key cu fd))) = {ConfigKey cu key}"
    by (simp add: getDataFd_effects ok isOk_def ConfigKeys_used_def effect_ConfigKeys_def)
  show "ConfigKeys_used (snd (addConfiguration e tr key [] cu)) = {ConfigKey cu key}"
    by (simp add: addConfiguration_def addConfigurationChecked_def ok isOk_def Let_def
        ConfigKeys_used_def effect_ConfigKeys_def)
  show "ConfigKeys_used (snd (removeConfiguration tr key cu)) = {ConfigKey cu key}"
    by (simp add: removeConfiguration_def ok isOk_def Let_def ConfigKeys_used_def
        effect_ConfigKeys_def)
  show "ConfigKeys_used (snd (setDataFetchOperation e tr key pir cu)) = {ConfigKey cu key}"
    by (simp add: setDataFetchOperation_def ok isOk_def Let_def ConfigKeys_used_def
        effect_ConfigKeys_def)
  show "ConfigKeys_used (snd (removeDataFetchOperation tr key cu)) = {ConfigKey cu key}"
    by (simp add: removeDataFetchOperation_def ok isOk_def Let_def ConfigKeys_used_def
        effect_ConfigKeys_def)
  show "ConfigKeys_used (snd (setBroadcastSubscriber tr key sub (Some h) cu)) = {ConfigKey cu key}"
    by (simp add: setBroadcastSubscriber_def ok isOk_def Let_def ConfigKeys_used_def
        effect_ConfigKeys_def)
  show "ConfigKeys_used (snd (unsetBroadcastSubscriber tr key sub cu)) = {ConfigKey cu key}"
    by (simp add: unsetBroadcastSubscriber_def ok isOk_def Let_def ConfigKeys_used_def
        effect_ConfigKeys_def)
next
  show "ConfigKeys_used (fst (snd (getData e tr key cu out))) \<subseteq> {ConfigKey cu key}"
    by (simp add: getData_def getDataChecked_def Let_def ConfigKeys_used_def
        effect_ConfigKeys_def)
  show "ConfigKeys_used (fst (snd (getDataFd e tr key cu fd))) \<subseteq> {ConfigKey cu key}"
    by (simp add: getDataFd_effects ConfigKeys_used_def effect_ConfigKeys_def)
  show "ConfigKeys_used (snd (addConfiguration e tr key config cu)) \<subseteq> {ConfigKey cu key}"
    by (simp add: addConfiguration_def addConfigurationChecked_def Let_def
        ConfigKeys_used_def effect_ConfigKeys_def split: option.splits)
  show "ConfigKeys_used (snd (removeConfiguration tr key cu)) \<subseteq> {ConfigKey cu key}"
    by (simp add: removeConfiguration_def Let_def ConfigKeys_used_def effect_ConfigKeys_def)
  show "ConfigKeys_used (snd (setDataFetchOperation e tr key pir cu)) \<subseteq> {ConfigKey cu key}"
    by (simp add: setDataFetchOperation_def Let_def ConfigKeys_used_def effect_ConfigKeys_def)
  show "ConfigKeys_used (snd (removeDataFetchOperation tr key cu)) \<subseteq> {ConfigKey cu key}"
    by (simp add: removeDataFetchOperation_def Let_def ConfigKeys_used_def
        effect_ConfigKeys_def)
  show "ConfigKeys_used (snd (setBroadcastSubscriber tr key sub pir cu)) \<subseteq> {ConfigKey cu key}"
    by (simp add: setBroadcastSubscriber_def Let_def ConfigKeys_used_def
        effect_ConfigKeys_def)
  show "ConfigKeys_used (snd (unsetBroadcastSubscriber tr key sub cu)) \<subseteq> {ConfigKey cu key}"
    by (simp add: unsetBroadcastSubscriber_def Let_def ConfigKeys_used_def
        effect_ConfigKeys_def)
qed

theorem config_key_from_declared_uid_witness:
  "(AIBinder_getCallingUid (example_caller 1000 None) = AID_SYSTEM \<or>
    AIBinder_getCallingUid (example_caller 1000 None) = AID_ROOT) \<and>
   ConfigKeys_used (fst (snd (getData (example_env []) (example_caller 1000 None) 42 10001 [])))
     = {ConfigKey 10001 42} \<and>
   ConfigKeys_used (snd (addConfiguration (example_env []) (example_caller 1000 None) 42 [] 10001))
     = {ConfigKey 10001 42} \<and>
   ConfigKeys_used (snd (setDataFetchOperation (example_env []) (example_caller 1000 None) 42
       (Some 7) 10001))
     = {ConfigKey 10001 42}"
proof -
  have u: "AIBinder_getCallingUid (example_caller 1000 None) = AID_SYSTEM \<or>
      AIBinder_getCallingUid (example_caller 1000 None) = AID_ROOT"
    by (simp add: example_caller_def AID_SYSTEM_def)
  show ?thesis
    using u config_key_from_declared_uid
      [where e = "example_env []" and tr = "example_caller 1000 None" and key = 42
         and cu = 10001 and out = "[]" and pir = "Some 7" and fd = "Fd [] None"
         and config = "[]" and sub = 0 and h = 7]
    by clarsimp
qed

text \<open>
  C1 as stated fails: the system server (uid 1000) declares uid 10001, and the keys of
  \<^verbatim>\<open>getData\<close>, \<^verbatim>\<open>addConfiguration\<close> and \<^verbatim>\<open>removeConfiguration\<close> carry 10001, not
  the transport's 1000.
\<close>

theorem config_key_transport_uid_counterexample:
  "AIBinder_getCallingUid (example_caller 1000 None) = 1000 \<and>
   getData (example_env []) (example_caller 1000 None) 42 10001 [] =
     (Status_ok, [Processor_onDumpReport (ConfigKey 10001 42) False True GET_DATA_CALLED FAST],
      []) \<and>
   addConfiguration (example_env []) (example_caller 1000 None) 42 [8, 42] 10001 =
     (Status_ok, [ConfigManager_UpdateConfig (ConfigKey 10001 42) 2]) \<and>
   (removeConfiguration (example_caller 1000 None) 42 10001 ) =
     (Status_ok, [ConfigManager_RemoveConfig (ConfigKey 10001 42)]) \<and>
   ConfigKey 10001 42 \<noteq> ConfigKey (AIBinder_getCallingUid (example_caller 1000 None)) 42"
  by (simp add: getData_def getDataChecked_def addConfiguration_def addConfigurationChecked_def
      removeConfiguration_def checkUid_def isOk_def Let_def example_caller_def example_env_def
      AID_SYSTEM_def AID_ROOT_def)

lemma be_decode_arith:
  fixes n :: nat
  assumes "n < 4294967296"
  shows "((n div 16777216 mod 256 * 256 + n div 65536 mod 256) * 256 + n div 256 mod 256) * 256
           + n mod 256 = n"
proof -
  define a where "a = n div 256"
  define b where "b = a div 256"
  define c where "c = b div 256"
  have nb: "n div 65536 = b"
    unfolding b_def a_def by (simp add: div_mult2_eq)
  have nc: "n div 16777216 = c"
    unfolding c_def b_def a_def by (simp add: div_mult2_eq)
  have "c < 256"
    using assms unfolding nc [symmetric] by (simp add: less_mult_imp_div_less)
  then have c: "c mod 256 = c" by simp
  have eb: "c * 256 + b mod 256 = b" unfolding c_def by simp
  have ea: "b * 256 + a mod 256 = a" unfolding b_def by simp
  have en: "a * 256 + n mod 256 = n" unfolding a_def by simp
  show ?thesis
    unfolding nb nc c a_def [symmetric] eb ea en ..
qed

lemma be_decode_htonl: "be_decode (htonl_bytes x) = unat x"
proof -
  have "unat x < 4294967296" using unsigned_less [of x] by simp
  then show ?thesis
    using be_decode_arith [of "unat x"]
    unfolding be_decode_def htonl_bytes_def
    apply (simp only: foldl.simps unsigned_ucast_eq unat_drop_bit_eq)
    apply (simp add: drop_bit_eq_div take_bit_eq_mod)
    done
qed

lemma length_htonl_bytes: "length (htonl_bytes x) = 4"
  by (simp add: htonl_bytes_def)

lemma unat_report_size:
  "n < INT32_MAX \<Longrightarrow> unat (word_of_nat n :: 32 word) = n"
  by (simp add: INT32_MAX_def unat_of_nat)

lemma WriteFully_accepts:
  "fd_accepts fd (length bs) \<Longrightarrow>
     WriteFully fd bs =
       (True, Fd (fd_written fd @ bs) (map_option (\<lambda>r. r - length bs) (fd_room fd)))"
  by (cases fd) (auto simp add: WriteFully_def fd_accepts_def split: option.splits)

lemma WriteFully_rejects:
  "\<not> fd_accepts fd (length bs) \<Longrightarrow> fst (WriteFully fd bs) = False"
  by (cases fd) (auto simp add: WriteFully_def fd_accepts_def split: option.splits)

text \<open>
  C3, as the code has it. For a caller that passes the identity check: a report of
  \<^verbatim>\<open>INT32_MAX\<close> bytes or more gives the illegal-state exception and the descriptor is
  untouched; a shorter report that the descriptor accepts together with its four-byte
  prefix is written after the prefix, whose big-endian value is the length of the report,
  and the status is ok; the illegal-state exception is returned exactly when the report
  has \<^verbatim>\<open>INT32_MAX\<close> bytes or more or a write to the descriptor fails.
\<close>

theorem getDataFd_result:
  assumes uid: "AIBinder_getCallingUid tr = AID_SYSTEM \<or> AIBinder_getCallingUid tr = AID_ROOT"
  shows
    "(let report = onDumpReport_output e (ConfigKey callingUid key);
          res = getDataFd e tr key callingUid fd
      in (INT32_MAX \<le> length report \<longrightarrow>
            fst res = Status_exception EX_ILLEGAL_STATE ''Report size is infeasible big.'' \<and>
            snd (snd res) = fd) \<and>
         (length report < INT32_MAX \<and> fd_accepts fd (4 + length report) \<longrightarrow>
            fst res = Status_ok \<and>
            (\<exists>prefix. fd_written (snd (snd res)) = fd_written fd @ prefix @ report \<and>
                 length prefix = 4 \<and> be_decode prefix = length report)) \<and>
         (is_exception EX_ILLEGAL_STATE (fst res) =
            (INT32_MAX \<le> length report \<or> \<not> fd_accepts fd (4 + length report))) \<and>
         (fst res = Status_ok \<or> is_exception EX_ILLEGAL_STATE (fst res)))"
proof -
  define report where "report = onDumpReport_output e (ConfigKey callingUid key)"
  have ok: "isOk (checkUid tr AID_SYSTEM)"
    using checkUid_pass [OF uid] by (simp add: isOk_def)
  have gd: "getDataChecked e key callingUid =
      ([Processor_onDumpReport (ConfigKey callingUid key) False True GET_DATA_CALLED FAST], report)"
    by (simp add: getDataChecked_def report_def Let_def)
  show ?thesis
  proof (cases "INT32_MAX \<le> length report")
    case True
    then show ?thesis
      unfolding report_def [symmetric]
      by (simp add: getDataFd_def ok gd Let_def exception_def is_exception_def)
  next
    case small: False
    then have u: "unat (word_of_nat (length report) :: 32 word) = length report"
      by (simp add: unat_report_size)
    show ?thesis
    proof (cases "fd_accepts fd 4")
      case False
      then have "\<not> fd_accepts fd (4 + length report)"
        by (cases fd) (auto simp add: fd_accepts_def split: option.splits)
      moreover obtain fdx where "WriteFully fd (htonl_bytes (word_of_nat (length report))) = (False, fdx)"
        using WriteFully_rejects [of fd "htonl_bytes (word_of_nat (length report))"] False
        by (cases "WriteFully fd (htonl_bytes (word_of_nat (length report)))")
          (simp add: length_htonl_bytes)
      ultimately show ?thesis
        using small
        unfolding report_def [symmetric]
        by (simp add: getDataFd_def ok gd Let_def exception_def is_exception_def)
    next
      case a4: True
      have w1: "WriteFully fd (htonl_bytes (word_of_nat (length report))) =
          (True, Fd (fd_written fd @ htonl_bytes (word_of_nat (length report)))
                   (map_option (\<lambda>r. r - 4) (fd_room fd)))"
        using WriteFully_accepts [of fd "htonl_bytes (word_of_nat (length report))"] a4
        by (simp add: length_htonl_bytes)
      define fd1 where "fd1 = Fd (fd_written fd @ htonl_bytes (word_of_nat (length report)))
                   (map_option (\<lambda>r. r - 4) (fd_room fd))"
      have acc: "fd_accepts fd1 (length report) = fd_accepts fd (4 + length report)"
        using a4 by (cases fd) (auto simp add: fd1_def fd_accepts_def split: option.splits)
      show ?thesis
      proof (cases "fd_accepts fd (4 + length report)")
        case True
        then have w2: "WriteFully fd1 report =
            (True, Fd (fd_written fd1 @ report) (map_option (\<lambda>r. r - length report) (fd_room fd1)))"
          using WriteFully_accepts [of fd1 report] acc by simp
        have "be_decode (htonl_bytes (word_of_nat (length report) :: 32 word)) = length report"
          by (simp add: be_decode_htonl u)
        then have ex: "\<exists>prefix. fd_written fd @ htonl_bytes (word_of_nat (length report)) @ report
              = fd_written fd @ prefix @ report \<and> length prefix = 4 \<and>
                be_decode prefix = length report"
          using length_htonl_bytes by blast
        from True small ex show ?thesis
          unfolding report_def [symmetric]
          by (simp add: getDataFd_def ok gd Let_def w1 fd1_def [symmetric] w2 is_exception_def)
            (simp add: fd1_def)
      next
        case False
        then obtain fdx where w2: "WriteFully fd1 report = (False, fdx)"
          using WriteFully_rejects [of fd1 report] acc
          by (cases "WriteFully fd1 report") simp
        from False small show ?thesis
          unfolding report_def [symmetric]
          by (simp add: getDataFd_def ok gd Let_def w1 fd1_def [symmetric] w2 is_exception_def
              exception_def)
      qed
    qed
  qed
qed

theorem getDataFd_result_witness:
  "(AIBinder_getCallingUid (example_caller 1000 None) = AID_SYSTEM \<or>
    AIBinder_getCallingUid (example_caller 1000 None) = AID_ROOT) \<and>
   length [1, 2, 3 :: byte] < INT32_MAX \<and> fd_accepts (Fd [9] None) (4 + length [1, 2, 3 :: byte]) \<and>
   fst (getDataFd (example_env [1, 2, 3]) (example_caller 1000 None) 42 10001 (Fd [9] None))
     = Status_ok \<and>
   (\<exists>prefix.
      fd_written (snd (snd (getDataFd (example_env [1, 2, 3]) (example_caller 1000 None) 42 10001
                              (Fd [9] None))))
        = [9] @ prefix @ [1, 2, 3] \<and> length prefix = 4 \<and> be_decode prefix = 3) \<and>
   fd_written (snd (snd (getDataFd (example_env [1, 2, 3]) (example_caller 1000 None) 42 10001
                              (Fd [9] None))))
     = [9, 0, 0, 0, 3, 1, 2, 3]"
proof -
  have u: "AIBinder_getCallingUid (example_caller 1000 None) = AID_SYSTEM \<or>
      AIBinder_getCallingUid (example_caller 1000 None) = AID_ROOT"
    by (simp add: example_caller_def AID_SYSTEM_def)
  have r: "onDumpReport_output (example_env [1, 2, 3]) (ConfigKey 10001 42) = [1, 2, 3]"
    by (simp add: example_env_def)
  have l: "length [1, 2, 3 :: byte] < INT32_MAX"
    by (simp add: INT32_MAX_def)
  have a: "fd_accepts (Fd [9] None) (4 + length [1, 2, 3 :: byte])"
    by (simp add: fd_accepts_def)
  have t: "fst (getDataFd (example_env [1, 2, 3]) (example_caller 1000 None) 42 10001 (Fd [9] None))
     = Status_ok \<and>
   (\<exists>prefix.
      fd_written (snd (snd (getDataFd (example_env [1, 2, 3]) (example_caller 1000 None) 42 10001
                              (Fd [9] None))))
        = [9] @ prefix @ [1, 2, 3] \<and> length prefix = 4 \<and> be_decode prefix = 3)"
    using getDataFd_result [OF u, of "example_env [1, 2, 3]" 10001 42 "Fd [9] None"] l a
    by (simp add: Let_def r numeral_3_eq_3)
  have v: "fd_written (snd (snd (getDataFd (example_env [1, 2, 3]) (example_caller 1000 None) 42
                              10001 (Fd [9] None))))
     = [9, 0, 0, 0, 3, 1, 2, 3]"
    by (simp add: getDataFd_def getDataChecked_def checkUid_def isOk_def Let_def
        example_caller_def example_env_def AID_SYSTEM_def INT32_MAX_def WriteFully_def
        htonl_bytes_def)
  from u l a t v show ?thesis by blast
qed

text \<open>
  C3 as stated fails: a report of 2147483647 bytes, a length that 32 bits hold, is
  refused; and a three-byte report gives the illegal-state exception as well when the
  descriptor takes two bytes only, after these two bytes of the prefix were written.
\<close>

theorem getDataFd_counterexample:
  "length (replicate 2147483647 (0 :: byte)) < 2 ^ 31 \<and>
   getDataFd (example_env (replicate 2147483647 0)) (example_caller 1000 None) 42 10001
       (Fd [] None) =
     (Status_exception EX_ILLEGAL_STATE ''Report size is infeasible big.'',
      [Processor_onDumpReport (ConfigKey 10001 42) False True GET_DATA_CALLED FAST], Fd [] None) \<and>
   getDataFd (example_env [1, 2, 3]) (example_caller 1000 None) 42 10001 (Fd [] (Some 2)) =
     (Status_exception EX_ILLEGAL_STATE ''Failed to write report data size to file descriptor'',
      [Processor_onDumpReport (ConfigKey 10001 42) False True GET_DATA_CALLED FAST],
      Fd [0, 0] (Some 0))"
  by (simp add: getDataFd_def getDataChecked_def checkUid_def isOk_def Let_def exception_def
      example_caller_def example_env_def AID_SYSTEM_def AID_ROOT_def INT32_MAX_def
      WriteFully_def htonl_bytes_def)

section \<open>Properties of the shell commands\<close>

lemma uint_uid_of_int:
  "0 \<le> T \<Longrightarrow> T < 2 ^ 32 \<Longrightarrow> uint (word_of_int T :: 32 word) = T"
  by (simp add: uint_word_of_int take_bit_eq_mod)

lemma uid_eq_iff:
  "0 \<le> T \<Longrightarrow> T < 2 ^ 32 \<Longrightarrow> ((C :: 32 word) = word_of_int T) = (uint C = T)"
  using uint_uid_of_int [of T] by (metis word_of_int_uint)

text \<open>
  C2. A string that \<^verbatim>\<open>strtol\<close> reads entirely as a number \<open>T\<close> of the range of
  \<^verbatim>\<open>uid_t\<close> is accepted by \<^verbatim>\<open>getUidFromString\<close>, for a caller whose transport uid is
  \<open>C\<close>, exactly when the build is a debug build (\<^verbatim>\<open>mEngBuild\<close>), or \<open>C\<close> is
  \<open>T\<close>, or \<open>C\<close> is root and \<open>T\<close> is the shell uid; the uid written is \<open>T\<close>, and
  \<^verbatim>\<open>getUidFromArgs\<close> is the same test on the argument at the given index. The runs
  of the specification follow: caller 1000 and target 2000 are refused without the debug
  build and accepted with it.
\<close>

theorem getUidFromString_rule:
  assumes "s \<noteq> []" and "strtol 0 s = (T, [])" and "0 \<le> T" and "T < 2 ^ 32"
  shows "fst (getUidFromString svc tr s u) =
           (mEngBuild svc \<or> uint (AIBinder_getCallingUid tr) = T
              \<or> (AIBinder_getCallingUid tr = AID_ROOT \<and> T = uint AID_SHELL)) \<and>
         uint (snd (getUidFromString svc tr s u)) = T \<and>
         getUidFromArgs svc tr (pre @ s # post) (length pre) u = getUidFromString svc tr s u"
proof -
  have m: "T mod 2 ^ 64 = T" using assms(3,4) by simp
  have sh: "((word_of_int T :: 32 word) = AID_SHELL) = (T = uint AID_SHELL)"
    using uid_eq_iff [OF assms(3,4), of AID_SHELL] by auto
  show ?thesis
    using assms uint_uid_of_int [OF assms(3,4)] uid_eq_iff [OF assms(3,4)] sh
    by (simp add: getUidFromString_def getUidFromArgs_def Let_def m)
qed

theorem getUidFromString_rule_witness:
  "''2000'' \<noteq> [] \<and> strtol 0 ''2000'' = (2000, []) \<and> (0 :: int) \<le> 2000 \<and> (2000 :: int) < 2 ^ 32 \<and>
   \<not> fst (getUidFromString (example_service False) (example_caller 1000 None) ''2000'' 0) \<and>
   fst (getUidFromString (example_service True) (example_caller 1000 None) ''2000'' 0) \<and>
   fst (getUidFromString (example_service False) (example_caller 2000 None) ''2000'' 0) \<and>
   fst (getUidFromString (example_service False) (example_caller 0 None) ''2000'' 0) \<and>
   snd (getUidFromString (example_service False) (example_caller 1000 None) ''2000'' 0) = 2000"
proof -
  have p: "strtol 0 ''2000'' = (2000, [])"
    by (simp add: strtol_def isspace_def digit_value_def is_digit_in_def LONG_MAX_def)
  have n: "''2000'' \<noteq> []" by simp
  have r: "(0 :: int) \<le> 2000" "(2000 :: int) < 2 ^ 32" by simp_all
  note t = getUidFromString_rule [OF n p r, where pre = "[]" and post = "[]" and u = 0]
  have 1: "\<not> fst (getUidFromString (example_service False) (example_caller 1000 None) ''2000'' 0)"
    using t [of "example_service False" "example_caller 1000 None"]
    by (simp add: example_service_def example_caller_def AID_ROOT_def AID_SHELL_def)
  have 2: "fst (getUidFromString (example_service True) (example_caller 1000 None) ''2000'' 0)"
    using t [of "example_service True" "example_caller 1000 None"]
    by (simp add: example_service_def example_caller_def AID_ROOT_def AID_SHELL_def)
  have 3: "fst (getUidFromString (example_service False) (example_caller 2000 None) ''2000'' 0)"
    using t [of "example_service False" "example_caller 2000 None"]
    by (simp add: example_service_def example_caller_def AID_ROOT_def AID_SHELL_def)
  have 4: "fst (getUidFromString (example_service False) (example_caller 0 None) ''2000'' 0)"
    using t [of "example_service False" "example_caller 0 None"]
    by (simp add: example_service_def example_caller_def AID_ROOT_def AID_SHELL_def)
  have 5: "snd (getUidFromString (example_service False) (example_caller 1000 None) ''2000'' 0)
      = 2000"
    by (simp add: getUidFromString_def p Let_def example_service_def example_caller_def
        AID_ROOT_def AID_SHELL_def)
  from n p r 1 2 3 4 5 show ?thesis by blast
qed

lemma arg_at_append:
  "xs \<noteq> [] \<Longrightarrow> arg_at (xs @ ys) (int (length xs) - 1) = Some (last xs)"
  by (cases xs rule: rev_cases) (simp_all add: arg_at_def nth_append)

lemma strip_flag_append:
  "xs \<noteq> [] \<Longrightarrow>
     strip_flag (xs @ ys) f (int (length xs)) =
       Some (last xs = f, if last xs = f then int (length xs) - 1 else int (length xs))"
  by (simp add: strip_flag_def arg_at_append)

lemma dump_report_flags_trailing:
  assumes ne: "pos \<noteq> []"
    and l: "last pos \<notin> {''--proto'', ''--include_current_bucket'', ''--keep_data''}"
  shows "dump_report_flags (pos @ trailing_flags k i p) = Some (p, i, \<not> k, int (length pos))"
proof -
  define K where "K = (if k then [''--keep_data''] else [])"
  define I where "I = (if i then [''--include_current_bucket''] else [])"
  define P where "P = (if p then [''--proto''] else [])"
  have a: "pos @ trailing_flags k i p = (pos @ K @ I @ P) @ []"
    by (simp add: trailing_flags_def K_def I_def P_def)
  have s1: "strip_flag (pos @ trailing_flags k i p) ''--proto'' (int (length (pos @ trailing_flags k i p)))
      = Some (p, int (length (pos @ K @ I)))"
    unfolding a using ne l strip_flag_append [of "pos @ K @ I @ P" "[]" "''--proto''"]
    by (cases k; cases i; cases p) (simp_all add: K_def I_def P_def)
  have b: "pos @ trailing_flags k i p = (pos @ K @ I) @ P"
    by (simp add: trailing_flags_def K_def I_def P_def)
  have s2: "strip_flag (pos @ trailing_flags k i p) ''--include_current_bucket''
      (int (length (pos @ K @ I))) = Some (i, int (length (pos @ K)))"
    unfolding b using ne l strip_flag_append [of "pos @ K @ I" P "''--include_current_bucket''"]
    by (cases k; cases i) (simp_all add: K_def I_def)
  have c: "pos @ trailing_flags k i p = (pos @ K) @ I @ P"
    by (simp add: trailing_flags_def K_def I_def P_def)
  have s3: "strip_flag (pos @ trailing_flags k i p) ''--keep_data''
      (int (length (pos @ K))) = Some (k, int (length pos))"
    unfolding c using ne l strip_flag_append [of "pos @ K" "I @ P" "''--keep_data''"]
    by (cases k) (simp_all add: K_def)
  show ?thesis
    by (simp only: dump_report_flags_def s1 s2 s3 option.case prod.case)
qed

lemma dump_report_positional_prefix:
  "dump_report_positional e svc tr (pos @ rest) (int (length pos)) proto include erase =
     dump_report_positional e svc tr pos (int (length pos)) proto include erase"
  by (simp add: dump_report_positional_def getUidFromArgs_def nth_append)

text \<open>
  C8. \<^verbatim>\<open>cmd_dump_report\<close> tests the last remaining argument against
  \<^verbatim>\<open>--proto\<close>, then \<^verbatim>\<open>--include_current_bucket\<close>, then \<^verbatim>\<open>--keep_data\<close>, by
  equality of strings, and drops it on a match. So positional arguments followed by any
  of the flags in the order \<^verbatim>\<open>--keep_data --include_current_bucket --proto\<close> give
  exactly these flags, and the positional part then runs on the positional arguments
  alone. The last positional argument is not itself one of the three flags.
\<close>

theorem dump_report_flag_order:
  assumes "pos \<noteq> []"
    and "last pos \<notin> {''--proto'', ''--include_current_bucket'', ''--keep_data''}"
    and "mProcessor_present svc"
  shows "dump_report_flags (pos @ trailing_flags keep include proto) =
           Some (proto, include, \<not> keep, int (length pos)) \<and>
         cmd_dump_report e svc tr (pos @ trailing_flags keep include proto) =
           Some (dump_report_positional e svc tr pos (int (length pos)) proto include (\<not> keep))"
  using assms
  by (simp add: cmd_dump_report_def dump_report_flags_trailing dump_report_positional_prefix)

lemmas strtol_eval = strtol_def strtoll_def isspace_def digit_value_def is_digit_in_def
  LONG_MAX_def LONG_MIN_def

theorem dump_report_flag_order_witness:
  "[''dump-report'', ''42''] \<noteq> [] \<and>
   last [''dump-report'', ''42''] \<notin> {''--proto'', ''--include_current_bucket'', ''--keep_data''} \<and>
   mProcessor_present (example_service False) \<and>
   dump_report_flags [''dump-report'', ''42'', ''--keep_data'', ''--proto'']
     = Some (True, False, False, 2) \<and>
   cmd_dump_report (example_env [7, 8]) (example_service False) (example_caller 2000 None)
       [''dump-report'', ''42'', ''--keep_data'', ''--proto'']
     = Some (NO_ERROR, [Byte 7, Byte 8], [],
             [Processor_onDumpReport (ConfigKey 2000 42) False False ADB_DUMP
                NO_TIME_CONSTRAINTS]) \<and>
   dump_report_flags [''dump-report'', ''42'', ''--proto'', ''--keep_data'']
     = Some (False, False, False, 3)"
proof -
  have a: "[''dump-report'', ''42''] \<noteq> []" by simp
  have b: "last [''dump-report'', ''42'']
      \<notin> {''--proto'', ''--include_current_bucket'', ''--keep_data''}"
    by simp
  have c: "mProcessor_present (example_service False)"
    by (simp add: example_service_def)
  have f: "[''dump-report'', ''42''] @ trailing_flags True False True
      = [''dump-report'', ''42'', ''--keep_data'', ''--proto'']"
    by (simp add: trailing_flags_def)
  have n: "StrToInt64 (example_env [7, 8]) ''42'' = 42"
    by (simp add: example_env_def strtol_eval)
  have d: "dump_report_positional (example_env [7, 8]) (example_service False)
        (example_caller 2000 None) [''dump-report'', ''42''] 2 True False False
      = (NO_ERROR, [Byte 7, Byte 8], [],
         [Processor_onDumpReport (ConfigKey 2000 42) False False ADB_DUMP NO_TIME_CONSTRAINTS])"
    by (simp add: dump_report_positional_def n Let_def) (simp add: example_env_def example_caller_def)
  have t: "dump_report_flags [''dump-report'', ''42'', ''--keep_data'', ''--proto'']
     = Some (True, False, False, 2) \<and>
   cmd_dump_report (example_env [7, 8]) (example_service False) (example_caller 2000 None)
       [''dump-report'', ''42'', ''--keep_data'', ''--proto'']
     = Some (NO_ERROR, [Byte 7, Byte 8], [],
             [Processor_onDumpReport (ConfigKey 2000 42) False False ADB_DUMP
                NO_TIME_CONSTRAINTS])"
    using dump_report_flag_order [OF a b c, of True False True "example_env [7, 8]"
        "example_caller 2000 None"]
    unfolding f by (simp add: d)
  have o: "dump_report_flags [''dump-report'', ''42'', ''--proto'', ''--keep_data'']
     = Some (False, False, False, 3)"
    by (simp add: dump_report_flags_def strip_flag_def arg_at_def)
  from a b c t o show ?thesis by blast
qed

lemma getUidFromString_not_number:
  "\<not> reads_as_number 0 s \<Longrightarrow> getUidFromString svc tr s u = (False, u)"
  by (auto simp add: reads_as_number_def getUidFromString_def split: prod.splits)

lemma strtoll_not_number:
  "(snd (strtoll 10 s) = s \<or> snd (strtoll 10 s) \<noteq> []) = (\<not> reads_as_number 10 s)"
  by (auto simp add: reads_as_number_def strtoll_def)

lemma parse_config_ids_not_number:
  "\<exists>a \<in> set names. \<not> reads_as_number 10 a \<Longrightarrow> parse_config_ids names = None"
proof (induction names)
  case Nil
  then show ?case by simp
next
  case (Cons a names)
  show ?case
  proof (cases "reads_as_number 10 a")
    case True
    with Cons.prems have "\<exists>a \<in> set names. \<not> reads_as_number 10 a" by simp
    then have "parse_config_ids names = None" by (rule Cons.IH)
    then show ?thesis by (cases "strtoll 10 a") simp
  next
    case False
    then have "snd (strtoll 10 a) = a \<or> snd (strtoll 10 a) \<noteq> []"
      using strtoll_not_number [of a] by simp
    then show ?thesis by (cases "strtoll 10 a") auto
  qed
qed

lemma handleShellCommand_selects:
  assumes "shell_caller tr" and "args \<noteq> []"
  shows "hd args = ''log-app-breadcrumb'' \<Longrightarrow>
           handleShellCommand e svc tr stdin args = Some (cmd_log_app_breadcrumb svc tr args, svc)"
    and "hd args = ''config'' \<Longrightarrow>
           handleShellCommand e svc tr stdin args = Some (cmd_config e svc tr stdin args, svc)"
    and "hd args = ''dump-report'' \<Longrightarrow>
           handleShellCommand e svc tr stdin args
             = map_option (\<lambda>r. (r, svc)) (cmd_dump_report e svc tr args)"
    and "hd args = ''send-broadcast'' \<Longrightarrow>
           handleShellCommand e svc tr stdin args = Some (cmd_trigger_broadcast e svc tr args, svc)"
    and "hd args = ''send-active-configs'' \<Longrightarrow>
           handleShellCommand e svc tr stdin args
             = map_option (\<lambda>r. (r, svc)) (cmd_trigger_active_config_broadcast e svc tr args)"
    and "hd args = ''log-binary-push'' \<Longrightarrow>
           handleShellCommand e svc tr stdin args = Some (cmd_log_binary_push e args, svc)"
proof -
  from assms(2) have h: "args ! 0 = hd args" and l: "1 \<le> length args"
    by (simp_all add: hd_conv_nth Suc_leI)
  from assms(1) have c: "(AIBinder_getCallingUid tr \<noteq> AID_ROOT \<and> AIBinder_getCallingUid tr \<noteq> AID_SHELL) = False"
    by (auto simp add: shell_caller_def)
  show "hd args = ''log-app-breadcrumb'' \<Longrightarrow>
           handleShellCommand e svc tr stdin args = Some (cmd_log_app_breadcrumb svc tr args, svc)"
    using h l by (simp add: handleShellCommand_def Let_def c)
  show "hd args = ''config'' \<Longrightarrow>
           handleShellCommand e svc tr stdin args = Some (cmd_config e svc tr stdin args, svc)"
    using h l by (simp add: handleShellCommand_def Let_def c)
  show "hd args = ''dump-report'' \<Longrightarrow>
           handleShellCommand e svc tr stdin args
             = map_option (\<lambda>r. (r, svc)) (cmd_dump_report e svc tr args)"
    using h l by (simp add: handleShellCommand_def Let_def c)
  show "hd args = ''send-broadcast'' \<Longrightarrow>
           handleShellCommand e svc tr stdin args = Some (cmd_trigger_broadcast e svc tr args, svc)"
    using h l by (simp add: handleShellCommand_def Let_def c)
  show "hd args = ''send-active-configs'' \<Longrightarrow>
           handleShellCommand e svc tr stdin args
             = map_option (\<lambda>r. (r, svc)) (cmd_trigger_active_config_broadcast e svc tr args)"
    using h l by (simp add: handleShellCommand_def Let_def c)
  show "hd args = ''log-binary-push'' \<Longrightarrow>
           handleShellCommand e svc tr stdin args = Some (cmd_log_binary_push e args, svc)"
    using h l by (simp add: handleShellCommand_def Let_def c)
qed

lemma handleShellCommand_no_argument:
  "a = ''meminfo'' \<or> a = ''write-to-disk'' \<or> a = ''clear-puller-cache'' \<Longrightarrow>
     handleShellCommand e svc tr stdin (a # rest) = handleShellCommand e svc tr stdin [a]"
  by (elim disjE) (simp_all add: handleShellCommand_def Let_def)

lemma handleShellCommand_one_argument:
  "a = ''print-uid-map'' \<or> a = ''print-logs'' \<or> a = ''data-subscribe'' \<Longrightarrow>
     handleShellCommand e svc tr stdin (a # b # rest) = handleShellCommand e svc tr stdin [a, b]"
  by (elim disjE)
    (simp_all add: handleShellCommand_def Let_def cmd_print_uid_map_def cmd_print_logs_def)

lemma handleShellCommand_two_arguments:
  "handleShellCommand e svc tr stdin (''pull-source'' # b # c # rest)
     = handleShellCommand e svc tr stdin [''pull-source'', b, c]"
  by (simp add: handleShellCommand_def Let_def cmd_print_pulled_metrics_def)

lemma handleShellCommand_surplus:
  "hd args = ''meminfo'' \<or> hd args = ''write-to-disk'' \<or> hd args = ''clear-puller-cache'' \<Longrightarrow>
     args \<noteq> [] \<Longrightarrow>
     handleShellCommand e svc tr stdin args = handleShellCommand e svc tr stdin (take 1 args)"
  "hd args = ''print-uid-map'' \<or> hd args = ''print-logs'' \<or> hd args = ''data-subscribe'' \<Longrightarrow>
     args \<noteq> [] \<Longrightarrow>
     handleShellCommand e svc tr stdin args = handleShellCommand e svc tr stdin (take 2 args)"
  "hd args = ''pull-source'' \<Longrightarrow> args \<noteq> [] \<Longrightarrow>
     handleShellCommand e svc tr stdin args = handleShellCommand e svc tr stdin (take 3 args)"
proof -
  show "hd args = ''meminfo'' \<or> hd args = ''write-to-disk'' \<or> hd args = ''clear-puller-cache'' \<Longrightarrow>
     args \<noteq> [] \<Longrightarrow>
     handleShellCommand e svc tr stdin args = handleShellCommand e svc tr stdin (take 1 args)"
    using handleShellCommand_no_argument [of "hd args" e svc tr stdin "tl args"]
    by (cases args) simp_all
  show "hd args = ''print-uid-map'' \<or> hd args = ''print-logs'' \<or> hd args = ''data-subscribe'' \<Longrightarrow>
     args \<noteq> [] \<Longrightarrow>
     handleShellCommand e svc tr stdin args = handleShellCommand e svc tr stdin (take 2 args)"
  proof -
    assume n: "hd args = ''print-uid-map'' \<or> hd args = ''print-logs'' \<or> hd args = ''data-subscribe''"
      and "args \<noteq> []"
    then obtain a rest where a: "args = a # rest" by (cases args) auto
    show ?thesis
    proof (cases rest)
      case Nil
      with a show ?thesis by simp
    next
      case (Cons b rest')
      with a n show ?thesis
        using handleShellCommand_one_argument [of a e svc tr stdin b rest'] by simp
    qed
  qed
  show "hd args = ''pull-source'' \<Longrightarrow> args \<noteq> [] \<Longrightarrow>
     handleShellCommand e svc tr stdin args = handleShellCommand e svc tr stdin (take 3 args)"
  proof -
    assume n: "hd args = ''pull-source''" and "args \<noteq> []"
    then obtain rest where a: "args = ''pull-source'' # rest" by (cases args) auto
    show ?thesis
    proof (cases rest)
      case Nil
      with a show ?thesis by simp
    next
      case (Cons b rest')
      note b = Cons
      show ?thesis
      proof (cases rest')
        case Nil
        with a b show ?thesis by simp
      next
        case (Cons c rest'')
        with a b show ?thesis
          using handleShellCommand_two_arguments [of e svc tr stdin b c rest''] by simp
      qed
    qed
  qed
qed

lemma cmd_print_stats_last:
  assumes "args \<noteq> []"
  shows "cmd_print_stats e args = cmd_print_stats e [x, last args]"
proof -
  from assms have "arg_at args (int (length args) - 1) = Some (last args)"
    by (simp add: arg_at_def last_conv_nth nat_diff_distrib' int_ops)
  then show ?thesis
    by (simp add: cmd_print_stats_def strip_flag_def arg_at_def)
qed

lemma handleShellCommand_print_stats:
  "args \<noteq> [] \<and> hd args = ''print-stats'' \<Longrightarrow>
     handleShellCommand e svc tr stdin args = handleShellCommand e svc tr stdin [hd args, last args]"
  using cmd_print_stats_last [of args e "hd args"]
  by (cases args) (auto simp add: handleShellCommand_def Let_def)

text \<open>
  C9, as the code has it, for every shell subcommand. A caller that is root or the
  shell reaches the command that the first argument names, with the whole argument
  list. The commands that test the number of their arguments are
  \<^verbatim>\<open>log-app-breadcrumb\<close>, \<^verbatim>\<open>config\<close>, \<^verbatim>\<open>dump-report\<close>, \<^verbatim>\<open>send-broadcast\<close> and
  \<^verbatim>\<open>log-binary-push\<close>: with a number that they do not accept they print the usage
  block (\<^verbatim>\<open>log-binary-push\<close>: the fixed line
  \<^verbatim>\<open>Incorrect number of argument supplied\<close>) and return \<^verbatim>\<open>UNKNOWN_ERROR\<close>, which is
  not zero, with no effect. A UID argument (of \<^verbatim>\<open>log-app-breadcrumb\<close>, \<^verbatim>\<open>config\<close>,
  \<^verbatim>\<open>dump-report\<close>, \<^verbatim>\<open>send-broadcast\<close>, and \<^verbatim>\<open>--uid=\<close> of
  \<^verbatim>\<open>send-active-configs\<close>) that is not a number, or that \<^verbatim>\<open>getUidFromString\<close>
  refuses, prints the fixed line about the UID (and the usage block, except for
  \<^verbatim>\<open>send-active-configs\<close>) and returns \<^verbatim>\<open>UNKNOWN_ERROR\<close> with no effect. A
  configuration id that is not a decimal number, in \<^verbatim>\<open>config update\<close> or after
  \<^verbatim>\<open>--configs\<close> of \<^verbatim>\<open>send-active-configs\<close>, prints the fixed line
  \<^verbatim>\<open>Error parsing config ID.\<close> and returns \<^verbatim>\<open>UNKNOWN_ERROR\<close> with no effect.
  The other commands do not test the number of their arguments: \<^verbatim>\<open>meminfo\<close>,
  \<^verbatim>\<open>write-to-disk\<close> and \<^verbatim>\<open>clear-puller-cache\<close> read none after the name,
  \<^verbatim>\<open>print-uid-map\<close>, \<^verbatim>\<open>print-logs\<close> and \<^verbatim>\<open>data-subscribe\<close> read one at most,
  \<^verbatim>\<open>pull-source\<close> two at most and \<^verbatim>\<open>print-stats\<close> the last one, and what they do
  is the same without the others; \<^verbatim>\<open>pull-source\<close> alone prints the usage block and
  returns \<^verbatim>\<open>NO_ERROR\<close>.
\<close>

theorem shell_malformed_arguments:
  "(length args \<noteq> 3 \<and> length args \<noteq> 4 \<longrightarrow>
      cmd_log_app_breadcrumb svc tr args = (UNKNOWN_ERROR, [UsageBlock], [], [])) \<and>
   (length args = 4 \<and>
      (\<not> reads_as_number 0 (args ! 1) \<or> \<not> fst (getUidFromString svc tr (args ! 1) 0)) \<longrightarrow>
      cmd_log_app_breadcrumb svc tr args =
        (UNKNOWN_ERROR, [Text invalid_uid_breadcrumb, UsageBlock], [], [])) \<and>
   (length args < 2 \<or> 4 < length args \<or> (args ! 1 \<noteq> ''update'' \<and> args ! 1 \<noteq> ''remove'')
      \<or> (length args = 2 \<and> args ! 1 = ''update'') \<longrightarrow>
      cmd_config e svc tr stdin args = (UNKNOWN_ERROR, [UsageBlock], [], [])) \<and>
   (length args = 4 \<and> (args ! 1 = ''update'' \<or> args ! 1 = ''remove'') \<and>
      (\<not> reads_as_number 0 (args ! 2) \<or> \<not> fst (getUidFromString svc tr (args ! 2) (- 1))) \<longrightarrow>
      cmd_config e svc tr stdin args =
        (UNKNOWN_ERROR, [UsageBlock], [Text invalid_uid_config], [])) \<and>
   (args ! 1 = ''update'' \<and>
      ((length args = 3 \<and> \<not> reads_as_number 10 (args ! 2)) \<or>
       (length args = 4 \<and> fst (getUidFromString svc tr (args ! 2) (- 1)) \<and>
          \<not> reads_as_number 10 (args ! 3))) \<longrightarrow>
      cmd_config e svc tr stdin args =
        (UNKNOWN_ERROR, [], [Text (''Error parsing config ID.'' @ newline)], [])) \<and>
   (mProcessor_present svc \<and> dump_report_flags args = Some (fproto, fbucket, ferase, n) \<and>
      n \<noteq> 2 \<and> n \<noteq> 3 \<longrightarrow>
      cmd_dump_report e svc tr args = Some (UNKNOWN_ERROR, [UsageBlock], [], [])) \<and>
   (mProcessor_present svc \<and> dump_report_flags args = Some (fproto, fbucket, ferase, 3) \<and>
      (\<not> reads_as_number 0 (args ! 1) \<or> \<not> fst (getUidFromString svc tr (args ! 1) 0)) \<longrightarrow>
      cmd_dump_report e svc tr args =
        Some (UNKNOWN_ERROR, [Text invalid_uid_dump_report, UsageBlock], [], [])) \<and>
   (length args \<noteq> 2 \<and> length args \<noteq> 3 \<longrightarrow>
      cmd_trigger_broadcast e svc tr args = (UNKNOWN_ERROR, [UsageBlock], [], [])) \<and>
   (length args = 3 \<and>
      (\<not> reads_as_number 0 (args ! 1) \<or> \<not> fst (getUidFromString svc tr (args ! 1) 0)) \<longrightarrow>
      cmd_trigger_broadcast e svc tr args =
        (UNKNOWN_ERROR, [Text invalid_uid_dump_report, UsageBlock], [], [])) \<and>
   (2 \<le> length args \<and> take 6 (args ! 1) = ''--uid='' \<and>
      (\<not> reads_as_number 0 (drop 6 (args ! 1))
         \<or> \<not> fst (getUidFromString svc tr (drop 6 (args ! 1)) 0)) \<longrightarrow>
      cmd_trigger_active_config_broadcast e svc tr args =
        Some (UNKNOWN_ERROR, [Text invalid_uid_config], [], [])) \<and>
   ((args = [name, ''--configs''] @ names \<or>
       (args = [name, uid_arg, ''--configs''] @ names \<and> take 6 uid_arg = ''--uid='' \<and>
          fst (getUidFromString svc tr (drop 6 uid_arg) 0))) \<and>
      (\<exists>a \<in> set names. \<not> reads_as_number 10 a) \<longrightarrow>
      cmd_trigger_active_config_broadcast e svc tr args =
        Some (UNKNOWN_ERROR, [Text (''Error parsing config ID.'' @ newline)], [], [])) \<and>
   (length args \<noteq> 7 \<and> length args \<noteq> 8 \<longrightarrow>
      cmd_log_binary_push e args =
        (UNKNOWN_ERROR, [Text (''Incorrect number of argument supplied'' @ newline)], [], [])) \<and>
   (shell_caller tr \<and> args \<noteq> [] \<longrightarrow>
      (hd args = ''log-app-breadcrumb'' \<longrightarrow>
         handleShellCommand e svc tr stdin args = Some (cmd_log_app_breadcrumb svc tr args, svc)) \<and>
      (hd args = ''config'' \<longrightarrow>
         handleShellCommand e svc tr stdin args = Some (cmd_config e svc tr stdin args, svc)) \<and>
      (hd args = ''dump-report'' \<longrightarrow>
         handleShellCommand e svc tr stdin args
           = map_option (\<lambda>r. (r, svc)) (cmd_dump_report e svc tr args)) \<and>
      (hd args = ''send-broadcast'' \<longrightarrow>
         handleShellCommand e svc tr stdin args = Some (cmd_trigger_broadcast e svc tr args, svc)) \<and>
      (hd args = ''send-active-configs'' \<longrightarrow>
         handleShellCommand e svc tr stdin args
           = map_option (\<lambda>r. (r, svc)) (cmd_trigger_active_config_broadcast e svc tr args)) \<and>
      (hd args = ''log-binary-push'' \<longrightarrow>
         handleShellCommand e svc tr stdin args = Some (cmd_log_binary_push e args, svc))) \<and>
   (args \<noteq> [] \<and>
      (hd args = ''meminfo'' \<or> hd args = ''write-to-disk'' \<or> hd args = ''clear-puller-cache'') \<longrightarrow>
      handleShellCommand e svc tr stdin args = handleShellCommand e svc tr stdin (take 1 args)) \<and>
   (args \<noteq> [] \<and>
      (hd args = ''print-uid-map'' \<or> hd args = ''print-logs'' \<or> hd args = ''data-subscribe'') \<longrightarrow>
      handleShellCommand e svc tr stdin args = handleShellCommand e svc tr stdin (take 2 args)) \<and>
   (args \<noteq> [] \<and> hd args = ''pull-source'' \<longrightarrow>
      handleShellCommand e svc tr stdin args = handleShellCommand e svc tr stdin (take 3 args)) \<and>
   (args \<noteq> [] \<and> hd args = ''print-stats'' \<longrightarrow>
      handleShellCommand e svc tr stdin args = handleShellCommand e svc tr stdin [hd args, last args]) \<and>
   (shell_caller tr \<longrightarrow>
      handleShellCommand e svc tr stdin [''pull-source'']
        = Some ((NO_ERROR, [UsageBlock], [], []), svc)) \<and>
   status_code UNKNOWN_ERROR \<noteq> 0"
proof (intro conjI impI)
  assume "length args \<noteq> 3 \<and> length args \<noteq> 4"
  then show "cmd_log_app_breadcrumb svc tr args = (UNKNOWN_ERROR, [UsageBlock], [], [])"
    by (simp add: cmd_log_app_breadcrumb_def print_cmd_help_def)
next
  assume a: "length args = 4 \<and>
      (\<not> reads_as_number 0 (args ! 1) \<or> \<not> fst (getUidFromString svc tr (args ! 1) 0))"
  then have "\<not> fst (getUidFromString svc tr (args ! 1) 0)"
    using getUidFromString_not_number [of "args ! 1" svc tr 0] by auto
  with a show "cmd_log_app_breadcrumb svc tr args =
        (UNKNOWN_ERROR, [Text invalid_uid_breadcrumb, UsageBlock], [], [])"
    by (cases "getUidFromString svc tr (args ! 1) 0")
      (simp add: cmd_log_app_breadcrumb_def getUidFromArgs_def print_cmd_help_def Let_def
        invalid_uid_breadcrumb_def)
next
  assume "length args < 2 \<or> 4 < length args \<or> (args ! 1 \<noteq> ''update'' \<and> args ! 1 \<noteq> ''remove'')
      \<or> (length args = 2 \<and> args ! 1 = ''update'')"
  then show "cmd_config e svc tr stdin args = (UNKNOWN_ERROR, [UsageBlock], [], [])"
    by (auto simp add: cmd_config_def print_cmd_help_def Let_def)
next
  assume a: "length args = 4 \<and> (args ! 1 = ''update'' \<or> args ! 1 = ''remove'') \<and>
      (\<not> reads_as_number 0 (args ! 2) \<or> \<not> fst (getUidFromString svc tr (args ! 2) (- 1)))"
  then have "\<not> fst (getUidFromString svc tr (args ! 2) (- 1))"
    using getUidFromString_not_number [of "args ! 2" svc tr "- 1"] by auto
  with a show "cmd_config e svc tr stdin args =
        (UNKNOWN_ERROR, [UsageBlock], [Text invalid_uid_config], [])"
    by (cases "getUidFromString svc tr (args ! 2) (- 1)")
      (auto simp add: cmd_config_def getUidFromArgs_def print_cmd_help_def Let_def
        invalid_uid_config_def)
next
  assume a: "args ! 1 = ''update'' \<and>
      ((length args = 3 \<and> \<not> reads_as_number 10 (args ! 2)) \<or>
       (length args = 4 \<and> fst (getUidFromString svc tr (args ! 2) (- 1)) \<and>
          \<not> reads_as_number 10 (args ! 3)))"
  then show "cmd_config e svc tr stdin args =
        (UNKNOWN_ERROR, [], [Text (''Error parsing config ID.'' @ newline)], [])"
    using strtoll_not_number [of "args ! 2"] strtoll_not_number [of "args ! 3"]
    by (cases "getUidFromString svc tr (args ! 2) (- 1)"; cases "strtoll 10 (args ! 2)";
        cases "strtoll 10 (args ! 3)")
      (auto simp add: cmd_config_def getUidFromArgs_def Let_def)
next
  assume "mProcessor_present svc \<and> dump_report_flags args = Some (fproto, fbucket, ferase, n) \<and>
      n \<noteq> 2 \<and> n \<noteq> 3"
  then show "cmd_dump_report e svc tr args = Some (UNKNOWN_ERROR, [UsageBlock], [], [])"
    by (simp add: cmd_dump_report_def dump_report_positional_def print_cmd_help_def)
next
  assume a: "mProcessor_present svc \<and> dump_report_flags args = Some (fproto, fbucket, ferase, 3) \<and>
      (\<not> reads_as_number 0 (args ! 1) \<or> \<not> fst (getUidFromString svc tr (args ! 1) 0))"
  then have "\<not> fst (getUidFromString svc tr (args ! 1) 0)"
    using getUidFromString_not_number [of "args ! 1" svc tr 0] by auto
  with a show "cmd_dump_report e svc tr args =
        Some (UNKNOWN_ERROR, [Text invalid_uid_dump_report, UsageBlock], [], [])"
    by (cases "getUidFromString svc tr (args ! 1) 0")
      (simp add: cmd_dump_report_def dump_report_positional_def getUidFromArgs_def
        print_cmd_help_def invalid_uid_dump_report_def)
next
  assume "length args \<noteq> 2 \<and> length args \<noteq> 3"
  then show "cmd_trigger_broadcast e svc tr args = (UNKNOWN_ERROR, [UsageBlock], [], [])"
    by (simp add: cmd_trigger_broadcast_def print_cmd_help_def)
next
  assume a: "length args = 3 \<and>
      (\<not> reads_as_number 0 (args ! 1) \<or> \<not> fst (getUidFromString svc tr (args ! 1) 0))"
  then have "\<not> fst (getUidFromString svc tr (args ! 1) 0)"
    using getUidFromString_not_number [of "args ! 1" svc tr 0] by auto
  with a show "cmd_trigger_broadcast e svc tr args =
        (UNKNOWN_ERROR, [Text invalid_uid_dump_report, UsageBlock], [], [])"
    by (cases "getUidFromString svc tr (args ! 1) 0")
      (simp add: cmd_trigger_broadcast_def getUidFromArgs_def print_cmd_help_def
        invalid_uid_dump_report_def)
next
  assume a: "2 \<le> length args \<and> take 6 (args ! 1) = ''--uid='' \<and>
      (\<not> reads_as_number 0 (drop 6 (args ! 1))
         \<or> \<not> fst (getUidFromString svc tr (drop 6 (args ! 1)) 0))"
  then have "\<not> fst (getUidFromString svc tr (drop 6 (args ! 1)) 0)"
    using getUidFromString_not_number [of "drop 6 (args ! 1)" svc tr 0] by auto
  moreover from a have "length args \<noteq> 1" and "length args \<noteq> 0" by auto
  ultimately show "cmd_trigger_active_config_broadcast e svc tr args =
        Some (UNKNOWN_ERROR, [Text invalid_uid_config], [], [])"
    using a
    by (cases "getUidFromString svc tr (drop 6 (args ! 1)) 0")
      (simp add: cmd_trigger_active_config_broadcast_def invalid_uid_config_def)
next
  assume a: "(args = [name, ''--configs''] @ names \<or>
       (args = [name, uid_arg, ''--configs''] @ names \<and> take 6 uid_arg = ''--uid='' \<and>
          fst (getUidFromString svc tr (drop 6 uid_arg) 0))) \<and>
      (\<exists>a \<in> set names. \<not> reads_as_number 10 a)"
  then have p: "parse_config_ids names = None"
    using parse_config_ids_not_number [of names] by simp
  from a consider
      (plain) "args = [name, ''--configs''] @ names"
    | (with_uid) "args = [name, uid_arg, ''--configs''] @ names" "take 6 uid_arg = ''--uid=''"
        "fst (getUidFromString svc tr (drop 6 uid_arg) 0)"
    by blast
  then show "cmd_trigger_active_config_broadcast e svc tr args =
        Some (UNKNOWN_ERROR, [Text (''Error parsing config ID.'' @ newline)], [], [])"
  proof cases
    case plain
    then show ?thesis
      using p by (simp add: cmd_trigger_active_config_broadcast_def)
  next
    case with_uid
    then show ?thesis
      using p
      by (cases "getUidFromString svc tr (drop 6 uid_arg) 0")
        (simp add: cmd_trigger_active_config_broadcast_def)
  qed
next
  assume "length args \<noteq> 7 \<and> length args \<noteq> 8"
  then show "cmd_log_binary_push e args =
        (UNKNOWN_ERROR, [Text (''Incorrect number of argument supplied'' @ newline)], [], [])"
    by (simp add: cmd_log_binary_push_def)
next
  assume "shell_caller tr \<and> args \<noteq> []" and "hd args = ''log-app-breadcrumb''"
  then show "handleShellCommand e svc tr stdin args = Some (cmd_log_app_breadcrumb svc tr args, svc)"
    by (simp add: handleShellCommand_selects)
next
  assume "shell_caller tr \<and> args \<noteq> []" and "hd args = ''config''"
  then show "handleShellCommand e svc tr stdin args = Some (cmd_config e svc tr stdin args, svc)"
    by (simp add: handleShellCommand_selects)
next
  assume "shell_caller tr \<and> args \<noteq> []" and "hd args = ''dump-report''"
  then show "handleShellCommand e svc tr stdin args
           = map_option (\<lambda>r. (r, svc)) (cmd_dump_report e svc tr args)"
    by (simp add: handleShellCommand_selects)
next
  assume "shell_caller tr \<and> args \<noteq> []" and "hd args = ''send-broadcast''"
  then show "handleShellCommand e svc tr stdin args = Some (cmd_trigger_broadcast e svc tr args, svc)"
    by (simp add: handleShellCommand_selects)
next
  assume "shell_caller tr \<and> args \<noteq> []" and "hd args = ''send-active-configs''"
  then show "handleShellCommand e svc tr stdin args
           = map_option (\<lambda>r. (r, svc)) (cmd_trigger_active_config_broadcast e svc tr args)"
    by (simp add: handleShellCommand_selects)
next
  assume "shell_caller tr \<and> args \<noteq> []" and "hd args = ''log-binary-push''"
  then show "handleShellCommand e svc tr stdin args = Some (cmd_log_binary_push e args, svc)"
    by (simp add: handleShellCommand_selects)
next
  assume "args \<noteq> [] \<and>
      (hd args = ''meminfo'' \<or> hd args = ''write-to-disk'' \<or> hd args = ''clear-puller-cache'')"
  then show "handleShellCommand e svc tr stdin args = handleShellCommand e svc tr stdin (take 1 args)"
    using handleShellCommand_surplus(1) [of args e svc tr stdin] by blast
next
  assume "args \<noteq> [] \<and>
      (hd args = ''print-uid-map'' \<or> hd args = ''print-logs'' \<or> hd args = ''data-subscribe'')"
  then show "handleShellCommand e svc tr stdin args = handleShellCommand e svc tr stdin (take 2 args)"
    using handleShellCommand_surplus(2) [of args e svc tr stdin] by blast
next
  assume "args \<noteq> [] \<and> hd args = ''pull-source''"
  then show "handleShellCommand e svc tr stdin args = handleShellCommand e svc tr stdin (take 3 args)"
    using handleShellCommand_surplus(3) [of args e svc tr stdin] by blast
next
  assume "args \<noteq> [] \<and> hd args = ''print-stats''"
  then show "handleShellCommand e svc tr stdin args
      = handleShellCommand e svc tr stdin [hd args, last args]"
    by (rule handleShellCommand_print_stats)
next
  assume "shell_caller tr"
  then show "handleShellCommand e svc tr stdin [''pull-source'']
        = Some ((NO_ERROR, [UsageBlock], [], []), svc)"
    by (auto simp add: handleShellCommand_def shell_caller_def print_cmd_help_def Let_def)
next
  show "status_code UNKNOWN_ERROR \<noteq> 0"
    by (simp add: status_code_def)
qed

theorem shell_malformed_arguments_witness:
  "cmd_log_app_breadcrumb (example_service False) (example_caller 2000 None)
       [''log-app-breadcrumb'', ''1'']
     = (UNKNOWN_ERROR, [UsageBlock], [], []) \<and>
   \<not> reads_as_number 0 ''abc'' \<and>
   cmd_log_app_breadcrumb (example_service True) (example_caller 2000 None)
       [''log-app-breadcrumb'', ''abc'', ''1'', ''2'']
     = (UNKNOWN_ERROR, [Text invalid_uid_breadcrumb, UsageBlock], [], []) \<and>
   cmd_config (example_env []) (example_service False) (example_caller 2000 None) (Some [])
       [''config'', ''frobnicate'']
     = (UNKNOWN_ERROR, [UsageBlock], [], []) \<and>
   cmd_config (example_env []) (example_service True) (example_caller 2000 None) (Some [])
       [''config'', ''remove'', ''abc'', ''42'']
     = (UNKNOWN_ERROR, [UsageBlock], [Text invalid_uid_config], []) \<and>
   \<not> reads_as_number 10 ''4x2'' \<and>
   cmd_config (example_env []) (example_service False) (example_caller 2000 None) (Some [])
       [''config'', ''update'', ''4x2'']
     = (UNKNOWN_ERROR, [], [Text (''Error parsing config ID.'' @ newline)], []) \<and>
   cmd_dump_report (example_env []) (example_service False) (example_caller 2000 None)
       [''dump-report'']
     = Some (UNKNOWN_ERROR, [UsageBlock], [], []) \<and>
   cmd_dump_report (example_env []) (example_service False) (example_caller 2000 None)
       [''dump-report'', ''abc'', ''42'']
     = Some (UNKNOWN_ERROR, [Text invalid_uid_dump_report, UsageBlock], [], []) \<and>
   cmd_trigger_broadcast (example_env []) (example_service False) (example_caller 2000 None)
       [''send-broadcast'']
     = (UNKNOWN_ERROR, [UsageBlock], [], []) \<and>
   cmd_trigger_broadcast (example_env []) (example_service True) (example_caller 2000 None)
       [''send-broadcast'', ''abc'', ''42'']
     = (UNKNOWN_ERROR, [Text invalid_uid_dump_report, UsageBlock], [], []) \<and>
   cmd_trigger_active_config_broadcast (example_env []) (example_service True)
       (example_caller 2000 None) [''send-active-configs'', ''--uid=abc'']
     = Some (UNKNOWN_ERROR, [Text invalid_uid_config], [], []) \<and>
   cmd_trigger_active_config_broadcast (example_env []) (example_service False)
       (example_caller 2000 None) [''send-active-configs'', ''--configs'', ''12'', ''4x2'']
     = Some (UNKNOWN_ERROR, [Text (''Error parsing config ID.'' @ newline)], [], []) \<and>
   cmd_log_binary_push (example_env []) [''log-binary-push'', ''train'']
     = (UNKNOWN_ERROR, [Text (''Incorrect number of argument supplied'' @ newline)], [], []) \<and>
   shell_caller (example_caller 2000 None) \<and>
   handleShellCommand (example_env []) (example_service False) (example_caller 2000 None)
       (Some []) [''log-binary-push'', ''train'']
     = Some ((UNKNOWN_ERROR, [Text (''Incorrect number of argument supplied'' @ newline)],
              [], []),
             example_service False) \<and>
   handleShellCommand (example_env []) (example_service False) (example_caller 2000 None)
       (Some []) [''send-broadcast'']
     = Some ((UNKNOWN_ERROR, [UsageBlock], [], []), example_service False) \<and>
   handleShellCommand (example_env []) (example_service False) (example_caller 2000 None)
       (Some []) [''write-to-disk'', ''now'']
     = handleShellCommand (example_env []) (example_service False) (example_caller 2000 None)
         (Some []) [''write-to-disk''] \<and>
   handleShellCommand (example_env []) (example_service False) (example_caller 2000 None)
       (Some []) [''print-logs'', ''0'', ''1'']
     = handleShellCommand (example_env []) (example_service False) (example_caller 2000 None)
         (Some []) [''print-logs'', ''0''] \<and>
   handleShellCommand (example_env []) (example_service False) (example_caller 2000 None)
       (Some []) [''pull-source'', ''10'', ''pkg'', ''more'']
     = handleShellCommand (example_env []) (example_service False) (example_caller 2000 None)
         (Some []) [''pull-source'', ''10'', ''pkg''] \<and>
   handleShellCommand (example_env []) (example_service False) (example_caller 2000 None)
       (Some []) [''print-stats'', ''more'', ''--proto'']
     = handleShellCommand (example_env []) (example_service False) (example_caller 2000 None)
         (Some []) [''print-stats'', ''--proto''] \<and>
   handleShellCommand (example_env []) (example_service False) (example_caller 2000 None)
       (Some []) [''pull-source'']
     = Some ((NO_ERROR, [UsageBlock], [], []), example_service False)"
proof -
  have n0: "\<not> reads_as_number 0 ''abc''"
    by (simp add: reads_as_number_def strtol_eval)
  have n1: "\<not> reads_as_number 10 ''4x2''"
    by (simp add: reads_as_number_def strtol_eval)
  have 1: "cmd_log_app_breadcrumb (example_service False) (example_caller 2000 None)
       [''log-app-breadcrumb'', ''1'']
     = (UNKNOWN_ERROR, [UsageBlock], [], [])"
    using shell_malformed_arguments [where args = "[''log-app-breadcrumb'', ''1'']"
        and svc = "example_service False" and tr = "example_caller 2000 None"
        and e = "example_env []" and stdin = "Some []"
        and fproto = False and fbucket = False and ferase = True and n = 0
        and name = "[]" and uid_arg = "[]" and names = "[]"]
    by simp
  have 2: "cmd_log_app_breadcrumb (example_service True) (example_caller 2000 None)
       [''log-app-breadcrumb'', ''abc'', ''1'', ''2'']
     = (UNKNOWN_ERROR, [Text invalid_uid_breadcrumb, UsageBlock], [], [])"
    using shell_malformed_arguments [where args = "[''log-app-breadcrumb'', ''abc'', ''1'', ''2'']"
        and svc = "example_service True" and tr = "example_caller 2000 None"
        and e = "example_env []" and stdin = "Some []"
        and fproto = False and fbucket = False and ferase = True and n = 0
        and name = "[]" and uid_arg = "[]" and names = "[]"] n0
    by simp
  have 3: "cmd_config (example_env []) (example_service False) (example_caller 2000 None) (Some [])
       [''config'', ''frobnicate'']
     = (UNKNOWN_ERROR, [UsageBlock], [], [])"
    using shell_malformed_arguments [where args = "[''config'', ''frobnicate'']"
        and svc = "example_service False" and tr = "example_caller 2000 None"
        and e = "example_env []" and stdin = "Some []"
        and fproto = False and fbucket = False and ferase = True and n = 0
        and name = "[]" and uid_arg = "[]" and names = "[]"]
    by simp
  have 4: "cmd_config (example_env []) (example_service True) (example_caller 2000 None) (Some [])
       [''config'', ''remove'', ''abc'', ''42'']
     = (UNKNOWN_ERROR, [UsageBlock], [Text invalid_uid_config], [])"
    using shell_malformed_arguments [where args = "[''config'', ''remove'', ''abc'', ''42'']"
        and svc = "example_service True" and tr = "example_caller 2000 None"
        and e = "example_env []" and stdin = "Some []"
        and fproto = False and fbucket = False and ferase = True and n = 0
        and name = "[]" and uid_arg = "[]" and names = "[]"] n0
    by simp
  have 5: "cmd_config (example_env []) (example_service False) (example_caller 2000 None) (Some [])
       [''config'', ''update'', ''4x2'']
     = (UNKNOWN_ERROR, [], [Text (''Error parsing config ID.'' @ newline)], [])"
    using shell_malformed_arguments [where args = "[''config'', ''update'', ''4x2'']"
        and svc = "example_service False" and tr = "example_caller 2000 None"
        and e = "example_env []" and stdin = "Some []"
        and fproto = False and fbucket = False and ferase = True and n = 0
        and name = "[]" and uid_arg = "[]" and names = "[]"] n1
    by simp
  have pp: "mProcessor_present (example_service False)"
    by (simp add: example_service_def)
  have f6: "dump_report_flags [''dump-report''] = Some (False, False, True, 1)"
    by (simp add: dump_report_flags_def strip_flag_def arg_at_def)
  have 6: "cmd_dump_report (example_env []) (example_service False) (example_caller 2000 None)
       [''dump-report'']
     = Some (UNKNOWN_ERROR, [UsageBlock], [], [])"
    using shell_malformed_arguments [where args = "[''dump-report'']"
        and svc = "example_service False" and tr = "example_caller 2000 None"
        and e = "example_env []" and stdin = "Some []"
        and fproto = False and fbucket = False and ferase = True and n = 1
        and name = "[]" and uid_arg = "[]" and names = "[]"] pp f6
    by simp
  have f7: "dump_report_flags [''dump-report'', ''abc'', ''42''] = Some (False, False, True, 3)"
    by (simp add: dump_report_flags_def strip_flag_def arg_at_def)
  have 7: "cmd_dump_report (example_env []) (example_service False) (example_caller 2000 None)
       [''dump-report'', ''abc'', ''42'']
     = Some (UNKNOWN_ERROR, [Text invalid_uid_dump_report, UsageBlock], [], [])"
    using shell_malformed_arguments [where args = "[''dump-report'', ''abc'', ''42'']"
        and svc = "example_service False" and tr = "example_caller 2000 None"
        and e = "example_env []" and stdin = "Some []"
        and fproto = False and fbucket = False and ferase = True and n = 3
        and name = "[]" and uid_arg = "[]" and names = "[]"] pp f7 n0
    by simp
  have 8: "cmd_trigger_broadcast (example_env []) (example_service False)
       (example_caller 2000 None) [''send-broadcast'']
     = (UNKNOWN_ERROR, [UsageBlock], [], [])"
    using shell_malformed_arguments [where args = "[''send-broadcast'']"
        and svc = "example_service False" and tr = "example_caller 2000 None"
        and e = "example_env []" and stdin = "Some []"
        and fproto = False and fbucket = False and ferase = True and n = 0
        and name = "[]" and uid_arg = "[]" and names = "[]"]
    by simp
  have 9: "cmd_trigger_broadcast (example_env []) (example_service True)
       (example_caller 2000 None) [''send-broadcast'', ''abc'', ''42'']
     = (UNKNOWN_ERROR, [Text invalid_uid_dump_report, UsageBlock], [], [])"
    using shell_malformed_arguments [where args = "[''send-broadcast'', ''abc'', ''42'']"
        and svc = "example_service True" and tr = "example_caller 2000 None"
        and e = "example_env []" and stdin = "Some []"
        and fproto = False and fbucket = False and ferase = True and n = 0
        and name = "[]" and uid_arg = "[]" and names = "[]"] n0
    by simp
  have 10: "cmd_trigger_active_config_broadcast (example_env []) (example_service True)
       (example_caller 2000 None) [''send-active-configs'', ''--uid=abc'']
     = Some (UNKNOWN_ERROR, [Text invalid_uid_config], [], [])"
    using shell_malformed_arguments [where args = "[''send-active-configs'', ''--uid=abc'']"
        and svc = "example_service True" and tr = "example_caller 2000 None"
        and e = "example_env []" and stdin = "Some []"
        and fproto = False and fbucket = False and ferase = True and n = 0
        and name = "[]" and uid_arg = "[]" and names = "[]"] n0
    by simp
  have 11: "cmd_trigger_active_config_broadcast (example_env []) (example_service False)
       (example_caller 2000 None) [''send-active-configs'', ''--configs'', ''12'', ''4x2'']
     = Some (UNKNOWN_ERROR, [Text (''Error parsing config ID.'' @ newline)], [], [])"
    using shell_malformed_arguments
        [where args = "[''send-active-configs'', ''--configs'', ''12'', ''4x2'']"
        and svc = "example_service False" and tr = "example_caller 2000 None"
        and e = "example_env []" and stdin = "Some []"
        and fproto = False and fbucket = False and ferase = True and n = 0
        and name = "''send-active-configs''" and uid_arg = "[]" and names = "[''12'', ''4x2'']"]
      n1
    by simp
  have 12: "cmd_log_binary_push (example_env []) [''log-binary-push'', ''train'']
     = (UNKNOWN_ERROR, [Text (''Incorrect number of argument supplied'' @ newline)], [], [])"
    using shell_malformed_arguments [where args = "[''log-binary-push'', ''train'']"
        and svc = "example_service False" and tr = "example_caller 2000 None"
        and e = "example_env []" and stdin = "Some []"
        and fproto = False and fbucket = False and ferase = True and n = 0
        and name = "[]" and uid_arg = "[]" and names = "[]"]
    by simp
  have sc: "shell_caller (example_caller 2000 None)"
    by (simp add: shell_caller_def example_caller_def AID_SHELL_def)
  have 13: "handleShellCommand (example_env []) (example_service False)
       (example_caller 2000 None) (Some []) [''log-binary-push'', ''train'']
     = Some ((UNKNOWN_ERROR, [Text (''Incorrect number of argument supplied'' @ newline)],
              [], []),
             example_service False)"
    using shell_malformed_arguments [where args = "[''log-binary-push'', ''train'']"
        and svc = "example_service False" and tr = "example_caller 2000 None"
        and e = "example_env []" and stdin = "Some []"
        and fproto = False and fbucket = False and ferase = True and n = 0
        and name = "[]" and uid_arg = "[]" and names = "[]"] sc 12
    by simp
  have 14: "handleShellCommand (example_env []) (example_service False)
       (example_caller 2000 None) (Some []) [''send-broadcast'']
     = Some ((UNKNOWN_ERROR, [UsageBlock], [], []), example_service False)"
    using shell_malformed_arguments [where args = "[''send-broadcast'']"
        and svc = "example_service False" and tr = "example_caller 2000 None"
        and e = "example_env []" and stdin = "Some []"
        and fproto = False and fbucket = False and ferase = True and n = 0
        and name = "[]" and uid_arg = "[]" and names = "[]"] sc 8
    by simp
  have 15: "handleShellCommand (example_env []) (example_service False)
       (example_caller 2000 None) (Some []) [''write-to-disk'', ''now'']
     = handleShellCommand (example_env []) (example_service False) (example_caller 2000 None)
         (Some []) [''write-to-disk'']"
    using shell_malformed_arguments [where args = "[''write-to-disk'', ''now'']"
        and svc = "example_service False" and tr = "example_caller 2000 None"
        and e = "example_env []" and stdin = "Some []"
        and fproto = False and fbucket = False and ferase = True and n = 0
        and name = "[]" and uid_arg = "[]" and names = "[]"]
    by simp
  have 16: "handleShellCommand (example_env []) (example_service False)
       (example_caller 2000 None) (Some []) [''print-logs'', ''0'', ''1'']
     = handleShellCommand (example_env []) (example_service False) (example_caller 2000 None)
         (Some []) [''print-logs'', ''0'']"
    using shell_malformed_arguments [where args = "[''print-logs'', ''0'', ''1'']"
        and svc = "example_service False" and tr = "example_caller 2000 None"
        and e = "example_env []" and stdin = "Some []"
        and fproto = False and fbucket = False and ferase = True and n = 0
        and name = "[]" and uid_arg = "[]" and names = "[]"]
    by simp
  have 17: "handleShellCommand (example_env []) (example_service False)
       (example_caller 2000 None) (Some []) [''pull-source'', ''10'', ''pkg'', ''more'']
     = handleShellCommand (example_env []) (example_service False) (example_caller 2000 None)
         (Some []) [''pull-source'', ''10'', ''pkg'']"
    using shell_malformed_arguments [where args = "[''pull-source'', ''10'', ''pkg'', ''more'']"
        and svc = "example_service False" and tr = "example_caller 2000 None"
        and e = "example_env []" and stdin = "Some []"
        and fproto = False and fbucket = False and ferase = True and n = 0
        and name = "[]" and uid_arg = "[]" and names = "[]"]
    by simp
  have 18: "handleShellCommand (example_env []) (example_service False)
       (example_caller 2000 None) (Some []) [''print-stats'', ''more'', ''--proto'']
     = handleShellCommand (example_env []) (example_service False) (example_caller 2000 None)
         (Some []) [''print-stats'', ''--proto'']"
    using shell_malformed_arguments [where args = "[''print-stats'', ''more'', ''--proto'']"
        and svc = "example_service False" and tr = "example_caller 2000 None"
        and e = "example_env []" and stdin = "Some []"
        and fproto = False and fbucket = False and ferase = True and n = 0
        and name = "[]" and uid_arg = "[]" and names = "[]"]
    by simp
  have 19: "handleShellCommand (example_env []) (example_service False)
       (example_caller 2000 None) (Some []) [''pull-source'']
     = Some ((NO_ERROR, [UsageBlock], [], []), example_service False)"
    using shell_malformed_arguments [where args = "[]"
        and svc = "example_service False" and tr = "example_caller 2000 None"
        and e = "example_env []" and stdin = "Some []"
        and fproto = False and fbucket = False and ferase = True and n = 0
        and name = "[]" and uid_arg = "[]" and names = "[]"] sc
    by simp
  from n0 n1 1 2 3 4 5 6 7 8 9 10 11 12 sc 13 14 15 16 17 18 19 show ?thesis by blast
qed

text \<open>
  C9 as stated fails. The fields \<^verbatim>\<open>LABEL\<close> and \<^verbatim>\<open>STATE\<close> of
  \<^verbatim>\<open>log-app-breadcrumb\<close> are read by \<^verbatim>\<open>atoi\<close>, so the label \<^verbatim>\<open>abc\<close> is 0,
  the event is logged and the command returns \<^verbatim>\<open>NO_ERROR\<close>; likewise the version
  \<^verbatim>\<open>abc\<close> of \<^verbatim>\<open>log-binary-push\<close> is 0 and the event is handed to the processor.
  \<^verbatim>\<open>write-to-disk\<close>, whose usage line has no argument, flushes the data when it is
  given one. \<^verbatim>\<open>pull-source\<close> without its \<^verbatim>\<open>ATOM_TAG\<close> prints the usage block and
  returns \<^verbatim>\<open>NO_ERROR\<close>, which is zero.
\<close>

theorem shell_unchecked_arguments_counterexample:
  "\<not> reads_as_number 10 ''abc'' \<and>
   cmd_log_app_breadcrumb (example_service False) (example_caller 2000 None)
       [''log-app-breadcrumb'', ''abc'', ''1'']
     = (NO_ERROR, [Text (''Logging AppBreadcrumbReported(2000, 0, 1) to statslog.'' @ newline)],
        [], [stats_write_APP_BREADCRUMB_REPORTED 2000 0 1]) \<and>
   cmd_log_binary_push (example_env [])
       [''log-binary-push'', ''train'', ''abc'', ''1'', ''1'', ''1'', ''abc'']
     = (NO_ERROR, [Text (''Logging BinaryPushStateChanged'' @ newline)], [],
        [Processor_OnLogEvent (BinaryPushStateChanged ''train'' 0 ''1'' ''1'' ''1'' 0 [] 0)]) \<and>
   handleShellCommand (example_env []) (example_service False) (example_caller 2000 None)
       (Some []) [''write-to-disk'', ''now'']
     = Some ((NO_ERROR, [Text (''Writing data to disk'' @ newline)], [],
              [Processor_WriteDataToDisk ADB_DUMP NO_TIME_CONSTRAINTS]),
             example_service False) \<and>
   handleShellCommand (example_env []) (example_service False) (example_caller 2000 None)
       (Some []) [''pull-source'']
     = Some ((NO_ERROR, [UsageBlock], [], []), example_service False) \<and>
   status_code NO_ERROR = 0"
proof -
  have a: "\<not> reads_as_number 10 ''abc''"
    by (simp add: reads_as_number_def strtol_eval)
  have b: "cmd_log_app_breadcrumb (example_service False) (example_caller 2000 None)
       [''log-app-breadcrumb'', ''abc'', ''1'']
     = (NO_ERROR, [Text (''Logging AppBreadcrumbReported(2000, 0, 1) to statslog.'' @ newline)],
        [], [stats_write_APP_BREADCRUMB_REPORTED 2000 0 1])"
    by (simp add: strtol_eval cmd_log_app_breadcrumb_def atoi_def
        example_caller_def printf_d_def show_int_def show_nat.simps digit_char_def)
  have c: "cmd_log_binary_push (example_env [])
       [''log-binary-push'', ''train'', ''abc'', ''1'', ''1'', ''1'', ''abc'']
     = (NO_ERROR, [Text (''Logging BinaryPushStateChanged'' @ newline)], [],
        [Processor_OnLogEvent (BinaryPushStateChanged ''train'' 0 ''1'' ''1'' ''1'' 0 [] 0)])"
    by (simp add: strtol_eval cmd_log_binary_push_def atoi_def example_env_def Let_def)
  have d: "handleShellCommand (example_env []) (example_service False)
       (example_caller 2000 None) (Some []) [''write-to-disk'', ''now'']
     = Some ((NO_ERROR, [Text (''Writing data to disk'' @ newline)], [],
              [Processor_WriteDataToDisk ADB_DUMP NO_TIME_CONSTRAINTS]),
             example_service False)"
    by (simp add: handleShellCommand_def example_caller_def AID_ROOT_def AID_SHELL_def
        cmd_write_data_to_disk_def Let_def)
  have e: "handleShellCommand (example_env []) (example_service False)
       (example_caller 2000 None) (Some []) [''pull-source'']
     = Some ((NO_ERROR, [UsageBlock], [], []), example_service False)"
    by (simp add: handleShellCommand_def example_caller_def AID_ROOT_def AID_SHELL_def
        print_cmd_help_def Let_def)
  have f: "status_code NO_ERROR = 0"
    by (simp add: status_code_def)
  from a b c d e f show ?thesis by blast
qed

section \<open>Properties of the reader thread\<close>

lemmas step_defs = step_def readLogs_step_def stopReadingLogs_step_def

lemma flag_step: "mIsStopRequested s \<Longrightarrow> mIsStopRequested (step a s)"
  by (cases a; cases "reader s"; cases "stopper s"; cases "mEventQueue s")
    (simp_all add: step_defs)

lemma quiet_step:
  "mIsStopRequested s \<Longrightarrow> \<not> in_dispatch (reader s) \<Longrightarrow>
     \<not> in_dispatch (reader (step a s)) \<and> dispatched (step a s) = dispatched s"
  by (cases a; cases "reader s"; cases "stopper s"; cases "mEventQueue s")
    (simp_all add: step_defs in_dispatch_def)

lemma quiet_run:
  "mIsStopRequested s \<Longrightarrow> \<not> in_dispatch (reader s) \<Longrightarrow> dispatched (run sched s) = dispatched s"
proof (induction sched arbitrary: s)
  case Nil
  then show ?case by simp
next
  case (Cons a as)
  from Cons.prems have "mIsStopRequested (step a s)" "\<not> in_dispatch (reader (step a s))"
    "dispatched (step a s) = dispatched s"
    using flag_step quiet_step by blast+
  with Cons.IH [of "step a s"] show ?case by simp
qed

lemma exited_step: "reader s = Reader_exited \<Longrightarrow> reader (step a s) = Reader_exited"
  by (cases a; cases "stopper s") (simp_all add: step_defs)

lemma exited_run: "reader s = Reader_exited \<Longrightarrow> reader (run sched s) = Reader_exited"
  by (induction sched arbitrary: s) (simp_all add: exited_step)

lemma popped_other_step:
  "reader s = Reader_popped event \<Longrightarrow> a \<noteq> Reader_step \<Longrightarrow>
     reader (step a s) = Reader_popped event"
  by (cases a; cases "stopper s") (simp_all add: step_defs)

lemma popped_reader_step:
  "reader s = Reader_popped event \<Longrightarrow> mIsStopRequested s \<Longrightarrow>
     step Reader_step s = s\<lparr>reader := Reader_exited\<rparr>"
  by (simp add: step_defs)

lemma popped_run:
  "reader s = Reader_popped event \<Longrightarrow> mIsStopRequested s \<Longrightarrow> Reader_step \<in> set sched \<Longrightarrow>
     reader (run sched s) = Reader_exited"
proof (induction sched arbitrary: s)
  case Nil
  then show ?case by simp
next
  case (Cons a as)
  show ?case
  proof (cases "a = Reader_step")
    case True
    then have "reader (step a s) = Reader_exited"
      using Cons.prems by (simp add: popped_reader_step)
    then show ?thesis by (simp add: exited_run)
  next
    case False
    then have "reader (step a s) = Reader_popped event" "mIsStopRequested (step a s)"
      "Reader_step \<in> set as"
      using Cons.prems popped_other_step flag_step by auto
    then show ?thesis using Cons.IH [of "step a s"] by simp
  qed
qed

lemma handshake_inv_step: "handshake_inv s \<Longrightarrow> handshake_inv (step a s)"
  by (cases a; cases "reader s"; cases "stopper s"; cases "mEventQueue s")
    (auto simp add: step_defs handshake_inv_def)

lemma handshake_inv_run: "handshake_inv s \<Longrightarrow> handshake_inv (run sched s)"
  by (induction sched arbitrary: s) (simp_all add: handshake_inv_step)

lemma handshake_inv_start: "handshake_inv ingestion_start"
  by (simp add: handshake_inv_def ingestion_start_def)

lemma done_step:
  "handshake_inv s \<Longrightarrow> stopper s = Stop_done \<Longrightarrow>
     stopper (step a s) = Stop_done \<and>
     steps_to_exit (reader (step a s))
       \<le> steps_to_exit (reader s) - (if a = Reader_step then 1 else 0)"
  by (cases a; cases "reader s"; cases "mEventQueue s")
    (auto simp add: step_defs handshake_inv_def steps_to_exit_def)

lemma done_run:
  "handshake_inv s \<Longrightarrow> stopper s = Stop_done \<Longrightarrow>
     steps_to_exit (reader (run sched s)) \<le> steps_to_exit (reader s) - count_list sched Reader_step"
proof (induction sched arbitrary: s)
  case Nil
  then show ?case by simp
next
  case (Cons a as)
  have i: "handshake_inv (step a s)" using Cons.prems(1) by (rule handshake_inv_step)
  have d: "stopper (step a s) = Stop_done"
    "steps_to_exit (reader (step a s))
       \<le> steps_to_exit (reader s) - (if a = Reader_step then 1 else 0)"
    using done_step [OF Cons.prems] by auto
  have "steps_to_exit (reader (run as (step a s)))
      \<le> steps_to_exit (reader (step a s)) - count_list as Reader_step"
    using Cons.IH [OF i d(1)] .
  with d(2) show ?case by (cases "a = Reader_step") auto
qed

lemma steps_to_exit_bound: "steps_to_exit pc \<le> 4"
  by (cases pc) (simp_all add: steps_to_exit_def)

lemma steps_to_exit_0: "steps_to_exit pc = 0 \<Longrightarrow> pc = Reader_exited"
  by (cases pc) (simp_all add: steps_to_exit_def)

lemma done_exits:
  assumes "handshake_inv s" "stopper s = Stop_done" "4 \<le> count_list sched Reader_step"
  shows "reader (run sched s) = Reader_exited"
proof -
  have "steps_to_exit (reader (run sched s)) \<le> steps_to_exit (reader s) - count_list sched Reader_step"
    using done_run [OF assms(1,2)] .
  moreover have "steps_to_exit (reader s) \<le> 4" by (rule steps_to_exit_bound)
  ultimately have "steps_to_exit (reader (run sched s)) = 0" using assms(3) by simp
  then show ?thesis by (rule steps_to_exit_0)
qed

lemma sentinel_inv_step:
  "sentinel_inv s \<Longrightarrow> a \<noteq> Producer_push Sentinel \<Longrightarrow> sentinel_inv (step a s)"
  by (cases a; cases "reader s"; cases "stopper s"; cases "mEventQueue s")
    (auto simp add: step_defs sentinel_inv_def)

lemma sentinel_inv_run:
  "sentinel_inv s \<Longrightarrow> Producer_push Sentinel \<notin> set sched \<Longrightarrow> sentinel_inv (run sched s)"
proof (induction sched arbitrary: s)
  case Nil
  then show ?case by simp
next
  case (Cons a as)
  from Cons.prems have "a \<noteq> Producer_push Sentinel" "Producer_push Sentinel \<notin> set as"
    by auto
  then show ?case
    using Cons.IH [of "step a s"] sentinel_inv_step [OF Cons.prems(1)] by simp
qed

lemma sentinel_inv_start: "sentinel_inv ingestion_start"
  by (simp add: sentinel_inv_def ingestion_start_def)

text \<open>
  C6. When \<^verbatim>\<open>waitPop\<close> has returned an event and the stop flag is set, the next step
  of \<^verbatim>\<open>readLogs\<close> leaves the loop, and in every schedule from there nothing more
  is dispatched to the processor or to the shell subscriber. \<^verbatim>\<open>stopReadingLogs\<close>
  sets the flag first and pushes one sentinel event second. A reader blocked on the empty
  queue stays blocked until an event is pushed; once \<^verbatim>\<open>stopReadingLogs\<close> has
  finished, four steps of the reader at most, in any schedule, bring it to its exit. As
  long as no producer pushes the sentinel, the sentinel is never dispatched.
\<close>

theorem ingestion_shutdown:
  "(mIsStopRequested s \<and> reader s = Reader_popped event \<longrightarrow>
      readLogs_step s = s\<lparr>reader := Reader_exited\<rparr> \<and>
      dispatched (run sched s) = dispatched s \<and>
      (Reader_step \<in> set sched \<longrightarrow> reader (run sched s) = Reader_exited)) \<and>
   (stopper s = Stop_not_called \<longrightarrow>
      stopReadingLogs_step s = s\<lparr>mIsStopRequested := True, stopper := Stop_flag_set\<rparr> \<and>
      stopReadingLogs_step (stopReadingLogs_step s) =
        s\<lparr>mIsStopRequested := True, mEventQueue := mEventQueue s @ [Sentinel],
          stopper := Stop_done\<rparr>) \<and>
   (reader s = Reader_waitPop \<and> mEventQueue s = [] \<longrightarrow> readLogs_step s = s) \<and>
   (stopper (run sched ingestion_start) = Stop_done \<and> 4 \<le> count_list later Reader_step \<longrightarrow>
      reader (run later (run sched ingestion_start)) = Reader_exited) \<and>
   (Producer_push Sentinel \<notin> set sched \<longrightarrow>
      Processor_OnLogEvent Sentinel \<notin> set (dispatched (run sched ingestion_start)) \<and>
      ShellSubscriber_onLogEvent Sentinel \<notin> set (dispatched (run sched ingestion_start)))"
proof (intro conjI impI)
  assume a: "mIsStopRequested s \<and> reader s = Reader_popped event"
  then show "readLogs_step s = s\<lparr>reader := Reader_exited\<rparr>"
    by (simp add: readLogs_step_def)
  from a show "dispatched (run sched s) = dispatched s"
    by (simp add: quiet_run in_dispatch_def)
  assume "Reader_step \<in> set sched"
  with a show "reader (run sched s) = Reader_exited"
    by (simp add: popped_run)
next
  assume a: "stopper s = Stop_not_called"
  then show "stopReadingLogs_step s = s\<lparr>mIsStopRequested := True, stopper := Stop_flag_set\<rparr>"
    by (simp add: stopReadingLogs_step_def)
  from a show "stopReadingLogs_step (stopReadingLogs_step s) =
        s\<lparr>mIsStopRequested := True, mEventQueue := mEventQueue s @ [Sentinel],
          stopper := Stop_done\<rparr>"
    by (simp add: stopReadingLogs_step_def)
next
  assume "reader s = Reader_waitPop \<and> mEventQueue s = []"
  then show "readLogs_step s = s"
    by (simp add: readLogs_step_def)
next
  assume "stopper (run sched ingestion_start) = Stop_done \<and> 4 \<le> count_list later Reader_step"
  then show "reader (run later (run sched ingestion_start)) = Reader_exited"
    using done_exits [of "run sched ingestion_start" later]
      handshake_inv_run [OF handshake_inv_start, of sched]
    by simp
next
  assume "Producer_push Sentinel \<notin> set sched"
  then have "sentinel_inv (run sched ingestion_start)"
    using sentinel_inv_run [OF sentinel_inv_start] by simp
  then show "Processor_OnLogEvent Sentinel \<notin> set (dispatched (run sched ingestion_start))"
    and "ShellSubscriber_onLogEvent Sentinel \<notin> set (dispatched (run sched ingestion_start))"
    by (simp_all add: sentinel_inv_def)
qed

lemmas run_eval = run.simps step_def readLogs_step_def stopReadingLogs_step_def
  ingestion_start_def example_schedule_def

theorem ingestion_shutdown_witness:
  "stopper (run example_schedule ingestion_start) = Stop_done \<and>
   mEventQueue (run example_schedule ingestion_start) = [Sentinel] \<and>
   reader (run example_schedule ingestion_start) = Reader_waitPop \<and>
   dispatched (run example_schedule ingestion_start) = [Processor_OnLogEvent (Atom 1)] \<and>
   mIsStopRequested (run (example_schedule @ [Reader_step]) ingestion_start) \<and>
   reader (run (example_schedule @ [Reader_step]) ingestion_start) = Reader_popped Sentinel \<and>
   reader (run [Reader_step] (run (example_schedule @ [Reader_step]) ingestion_start))
     = Reader_exited \<and>
   dispatched (run [Reader_step] (run (example_schedule @ [Reader_step]) ingestion_start))
     = [Processor_OnLogEvent (Atom 1)] \<and>
   reader (run [Reader_step, Reader_step, Producer_push (Atom 2), Reader_step, Reader_step]
             (run example_schedule ingestion_start)) = Reader_exited \<and>
   Processor_OnLogEvent Sentinel \<notin> set (dispatched (run example_schedule ingestion_start)) \<and>
   stopReadingLogs_step (stopReadingLogs_step ingestion_start) =
     ingestion_start\<lparr>mIsStopRequested := True, mEventQueue := [Sentinel], stopper := Stop_done\<rparr> \<and>
   readLogs_step ingestion_start = ingestion_start"
proof -
  define s0 where "s0 = run example_schedule ingestion_start"
  define s1 where "s1 = run (example_schedule @ [Reader_step]) ingestion_start"
  have e0: "stopper s0 = Stop_done" "mEventQueue s0 = [Sentinel]" "reader s0 = Reader_waitPop"
    "dispatched s0 = [Processor_OnLogEvent (Atom 1)]"
    by (simp_all add: s0_def run_eval)
  have e1: "mIsStopRequested s1" "reader s1 = Reader_popped Sentinel"
    "dispatched s1 = [Processor_OnLogEvent (Atom 1)]"
    by (simp_all add: s1_def run_eval)
  have a: "reader (run [Reader_step] s1) = Reader_exited"
    "dispatched (run [Reader_step] s1) = [Processor_OnLogEvent (Atom 1)]"
    using ingestion_shutdown [where s = s1 and event = Sentinel and sched = "[Reader_step]"
        and later = "[]"] e1
    by simp_all
  have c: "(4::nat) \<le> count_list
      [Reader_step, Reader_step, Producer_push (Atom 2), Reader_step, Reader_step] Reader_step"
    by simp
  have b: "reader (run [Reader_step, Reader_step, Producer_push (Atom 2), Reader_step, Reader_step]
             s0) = Reader_exited"
    using ingestion_shutdown [where s = ingestion_start and event = Sentinel
        and sched = example_schedule
        and later = "[Reader_step, Reader_step, Producer_push (Atom 2), Reader_step, Reader_step]"]
      e0(1) c
    unfolding s0_def by blast
  have n: "Producer_push Sentinel \<notin> set example_schedule"
    by (simp add: example_schedule_def)
  have d: "Processor_OnLogEvent Sentinel \<notin> set (dispatched s0)"
    using ingestion_shutdown [where s = ingestion_start and event = Sentinel
        and sched = example_schedule and later = "[]"] n
    unfolding s0_def by blast
  have i: "stopper ingestion_start = Stop_not_called" "reader ingestion_start = Reader_waitPop"
    "mEventQueue ingestion_start = []"
    by (simp_all add: ingestion_start_def)
  note at_start = ingestion_shutdown [where s = ingestion_start and event = Sentinel
      and sched = "[]" and later = "[]"]
  have "stopReadingLogs_step (stopReadingLogs_step ingestion_start) =
     ingestion_start\<lparr>mIsStopRequested := True,
       mEventQueue := mEventQueue ingestion_start @ [Sentinel], stopper := Stop_done\<rparr>"
    using at_start i(1) by blast
  then have f: "stopReadingLogs_step (stopReadingLogs_step ingestion_start) =
     ingestion_start\<lparr>mIsStopRequested := True, mEventQueue := [Sentinel], stopper := Stop_done\<rparr>"
    by (simp add: i(3))
  have g: "readLogs_step ingestion_start = ingestion_start"
    using at_start i(2,3) by blast
  from e0 e1 a b d f g show ?thesis
    unfolding s0_def s1_def by blast
qed

section \<open>Properties of the deferred completion\<close>

lemma wait_loop_early:
  "t \<le> c \<Longrightarrow> c \<le> t + n \<Longrightarrow> pred c \<Longrightarrow> fst (wait_loop n t pred)"
proof (induction n arbitrary: t)
  case 0
  then show ?case by simp
next
  case (Suc n)
  show ?case
  proof (cases "pred t")
    case True
    then show ?thesis by simp
  next
    case False
    with Suc.prems have "Suc t \<le> c" by (cases "c = t") auto
    with Suc.prems False show ?thesis using Suc.IH [of "Suc t"] by simp
  qed
qed

lemma wait_loop_timeout:
  "(\<And>c. t \<le> c \<Longrightarrow> c \<le> t + n \<Longrightarrow> \<not> pred c) \<Longrightarrow> wait_loop n t pred = (False, t + n)"
proof (induction n arbitrary: t)
  case 0
  then show ?case by simp
next
  case (Suc n)
  have "\<not> pred t" using Suc.prems [of t] by simp
  moreover have "wait_loop n (Suc t) pred = (False, Suc t + n)"
    using Suc.IH [of "Suc t"] Suc.prems by simp
  ultimately show ?case by simp
qed

text \<open>
  C7, as the code has it. With a positive delay: a termination request that arrives
  before the delay has passed, or that was made before the handler was called, makes the
  handler return without \<^verbatim>\<open>mProcessor->onStatsdInitCompleted\<close>; with no request
  until the delay has passed, the handler calls it when the delay has passed. With a
  delay that is not positive the handler does not wait and calls it at once.
\<close>

theorem init_completed_cancellation:
  "(0 < mInitEventDelaySecs svc \<and> c < nat (mInitEventDelaySecs svc) * tps \<longrightarrow>
      fst (onStatsdInitCompleted svc tps (termination_requested svc (Some c))) = []) \<and>
   (0 < mInitEventDelaySecs svc \<and> mStatsdInitCompletedHandlerTerminationRequested svc \<longrightarrow>
      fst (onStatsdInitCompleted svc tps (termination_requested svc cancel_at)) = []) \<and>
   (0 < mInitEventDelaySecs svc \<and> \<not> mStatsdInitCompletedHandlerTerminationRequested svc \<longrightarrow>
      onStatsdInitCompleted svc tps (termination_requested svc None) =
        ([Processor_onStatsdInitCompleted], nat (mInitEventDelaySecs svc) * tps)) \<and>
   (0 < mInitEventDelaySecs svc \<and> \<not> mStatsdInitCompletedHandlerTerminationRequested svc \<and>
      nat (mInitEventDelaySecs svc) * tps < c \<longrightarrow>
      onStatsdInitCompleted svc tps (termination_requested svc (Some c)) =
        ([Processor_onStatsdInitCompleted], nat (mInitEventDelaySecs svc) * tps)) \<and>
   (mInitEventDelaySecs svc \<le> 0 \<longrightarrow>
      onStatsdInitCompleted svc tps requested = ([Processor_onStatsdInitCompleted], 0))"
proof (intro conjI impI)
  assume a: "0 < mInitEventDelaySecs svc \<and> c < nat (mInitEventDelaySecs svc) * tps"
  have "fst (wait_loop (nat (mInitEventDelaySecs svc) * tps) 0 (termination_requested svc (Some c)))"
    using a by (intro wait_loop_early [of 0 c]) (simp_all add: termination_requested_def)
  with a show "fst (onStatsdInitCompleted svc tps (termination_requested svc (Some c))) = []"
    by (auto simp add: onStatsdInitCompleted_def wait_for_def split: prod.splits)
next
  assume a: "0 < mInitEventDelaySecs svc \<and> mStatsdInitCompletedHandlerTerminationRequested svc"
  have "fst (wait_loop (nat (mInitEventDelaySecs svc) * tps) 0 (termination_requested svc cancel_at))"
    using a by (intro wait_loop_early [of 0 0]) (simp_all add: termination_requested_def)
  with a show "fst (onStatsdInitCompleted svc tps (termination_requested svc cancel_at)) = []"
    by (auto simp add: onStatsdInitCompleted_def wait_for_def split: prod.splits)
next
  assume a: "0 < mInitEventDelaySecs svc \<and> \<not> mStatsdInitCompletedHandlerTerminationRequested svc"
  have "wait_loop (nat (mInitEventDelaySecs svc) * tps) 0 (termination_requested svc None)
      = (False, 0 + nat (mInitEventDelaySecs svc) * tps)"
    using a by (intro wait_loop_timeout) (simp add: termination_requested_def)
  with a show "onStatsdInitCompleted svc tps (termination_requested svc None) =
        ([Processor_onStatsdInitCompleted], nat (mInitEventDelaySecs svc) * tps)"
    by (simp add: onStatsdInitCompleted_def wait_for_def)
next
  assume a: "0 < mInitEventDelaySecs svc \<and> \<not> mStatsdInitCompletedHandlerTerminationRequested svc \<and>
      nat (mInitEventDelaySecs svc) * tps < c"
  have "wait_loop (nat (mInitEventDelaySecs svc) * tps) 0 (termination_requested svc (Some c))
      = (False, 0 + nat (mInitEventDelaySecs svc) * tps)"
    using a by (intro wait_loop_timeout) (simp add: termination_requested_def)
  with a show "onStatsdInitCompleted svc tps (termination_requested svc (Some c)) =
        ([Processor_onStatsdInitCompleted], nat (mInitEventDelaySecs svc) * tps)"
    by (simp add: onStatsdInitCompleted_def wait_for_def)
next
  assume "mInitEventDelaySecs svc \<le> 0"
  then show "onStatsdInitCompleted svc tps requested = ([Processor_onStatsdInitCompleted], 0)"
    by (simp add: onStatsdInitCompleted_def)
qed

theorem init_completed_cancellation_witness:
  "0 < mInitEventDelaySecs (example_service False) \<and>
   \<not> mStatsdInitCompletedHandlerTerminationRequested (example_service False) \<and>
   (89 :: nat) < nat (mInitEventDelaySecs (example_service False)) * 1 \<and>
   fst (onStatsdInitCompleted (example_service False) 1
          (termination_requested (example_service False) (Some 89))) = [] \<and>
   onStatsdInitCompleted (example_service False) 1
       (termination_requested (example_service False) None)
     = ([Processor_onStatsdInitCompleted], 90) \<and>
   onStatsdInitCompleted (example_service False) 1
       (termination_requested (example_service False) (Some 91))
     = ([Processor_onStatsdInitCompleted], 90) \<and>
   fst (onStatsdInitCompleted
          (onStatsdInitCompletedHandlerTermination (example_service False)) 1
          (termination_requested
             (onStatsdInitCompletedHandlerTermination (example_service False)) None)) = [] \<and>
   onStatsdInitCompleted ((example_service False)\<lparr>mInitEventDelaySecs := 0\<rparr>) 1
       (termination_requested ((example_service False)\<lparr>mInitEventDelaySecs := 0\<rparr>) None)
     = ([Processor_onStatsdInitCompleted], 0)"
proof -
  have d: "mInitEventDelaySecs (example_service False) = 90"
    "\<not> mStatsdInitCompletedHandlerTerminationRequested (example_service False)"
    by (simp_all add: example_service_def)
  have t: "mInitEventDelaySecs (onStatsdInitCompletedHandlerTermination (example_service False)) = 90"
    "mStatsdInitCompletedHandlerTerminationRequested
       (onStatsdInitCompletedHandlerTermination (example_service False))"
    by (simp_all add: example_service_def onStatsdInitCompletedHandlerTermination_def)
  have z: "mInitEventDelaySecs ((example_service False)\<lparr>mInitEventDelaySecs := 0\<rparr>) \<le> 0"
    by simp
  have 1: "fst (onStatsdInitCompleted (example_service False) 1
          (termination_requested (example_service False) (Some 89))) = []"
    using init_completed_cancellation [of "example_service False" 89 1] d by simp
  have 2: "onStatsdInitCompleted (example_service False) 1
       (termination_requested (example_service False) None)
     = ([Processor_onStatsdInitCompleted], 90)"
    using init_completed_cancellation [of "example_service False" 89 1] d by simp
  have 3: "onStatsdInitCompleted (example_service False) 1
       (termination_requested (example_service False) (Some 91))
     = ([Processor_onStatsdInitCompleted], 90)"
    using init_completed_cancellation [of "example_service False" 91 1] d by simp
  have 4: "fst (onStatsdInitCompleted
          (onStatsdInitCompletedHandlerTermination (example_service False)) 1
          (termination_requested
             (onStatsdInitCompletedHandlerTermination (example_service False)) None)) = []"
    using init_completed_cancellation
      [of "onStatsdInitCompletedHandlerTermination (example_service False)" 0 1 None] t
    by simp
  have 5: "onStatsdInitCompleted ((example_service False)\<lparr>mInitEventDelaySecs := 0\<rparr>) 1
       (termination_requested ((example_service False)\<lparr>mInitEventDelaySecs := 0\<rparr>) None)
     = ([Processor_onStatsdInitCompleted], 0)"
    using init_completed_cancellation
      [where svc = "(example_service False)\<lparr>mInitEventDelaySecs := 0\<rparr>" and tps = 1] z
    by blast
  from d 1 2 3 4 5 show ?thesis by simp
qed

text \<open>
  C7 as stated fails: the delay is 0 and the termination was requested before the
  handler was called, and the handler calls \<^verbatim>\<open>mProcessor->onStatsdInitCompleted\<close>.
\<close>

theorem init_completed_zero_delay_counterexample:
  "mStatsdInitCompletedHandlerTerminationRequested
     (onStatsdInitCompletedHandlerTermination ((example_service False)\<lparr>mInitEventDelaySecs := 0\<rparr>)) \<and>
   (\<forall>t. termination_requested
          (onStatsdInitCompletedHandlerTermination
             ((example_service False)\<lparr>mInitEventDelaySecs := 0\<rparr>)) None t) \<and>
   onStatsdInitCompleted
       (onStatsdInitCompletedHandlerTermination ((example_service False)\<lparr>mInitEventDelaySecs := 0\<rparr>))
       1
       (termination_requested
          (onStatsdInitCompletedHandlerTermination
             ((example_service False)\<lparr>mInitEventDelaySecs := 0\<rparr>)) None)
     = ([Processor_onStatsdInitCompleted], 0)"
  by (simp add: onStatsdInitCompleted_def onStatsdInitCompletedHandlerTermination_def
      termination_requested_def example_service_def)

end
